theory Spec2Isabelle
  imports Complex_Main "HOL-Library.Monad_Syntax"
begin

section \<open>Numbers\<close>

text \<open>
  The program computes with JavaScript numbers.  The model idealises them: a finite number
  is a real (rounding and overflow are outside the model), and the three special values the
  program can produce from finite data, \<open>Infinity\<close>, \<open>-Infinity\<close> and \<open>NaN\<close>, are kept as
  values of their own, so that a division by zero is visible in the model instead of being
  HOL's \<open>x / 0 = 0\<close>.  Signed zeros are not distinguished.  A read of \<open>undefined\<close> that is
  only used as a number is modelled as \<open>NaN\<close>, which is what every arithmetic operation and
  comparison of the program turns it into.

  Form fields reach the engine through \<open>parseFloat(value) || 0\<close>, so the numeric fields of
  a Design Input are finite: they are reals.  Quantities the code computes from them with
  \<open>+\<close>, \<open>-\<close>, \<open>*\<close>, \<open>Math.max\<close>, \<open>Math.ceil\<close>, a division by a nonzero constant or a division
  under an explicit guard stay real; every other quotient, and what is computed from it,
  is a \<open>jsnum\<close>.
\<close>

datatype jsnum = Fin real | PInf | NInf | NaN

fun jneg :: "jsnum \<Rightarrow> jsnum" where
  "jneg (Fin a) = Fin (- a)"
| "jneg PInf = NInf"
| "jneg NInf = PInf"
| "jneg NaN = NaN"

fun jadd :: "jsnum \<Rightarrow> jsnum \<Rightarrow> jsnum" where
  "jadd (Fin a) (Fin b) = Fin (a + b)"
| "jadd (Fin a) PInf = PInf"
| "jadd (Fin a) NInf = NInf"
| "jadd PInf (Fin b) = PInf"
| "jadd PInf PInf = PInf"
| "jadd PInf NInf = NaN"
| "jadd NInf (Fin b) = NInf"
| "jadd NInf PInf = NaN"
| "jadd NInf NInf = NInf"
| "jadd NaN y = NaN"
| "jadd x NaN = NaN"

definition jsub :: "jsnum \<Rightarrow> jsnum \<Rightarrow> jsnum" where
  "jsub x y = jadd x (jneg y)"

definition signed_inf :: "real \<Rightarrow> jsnum" where
  "signed_inf a = (if 0 < a then PInf else if a < 0 then NInf else NaN)"

fun jmul :: "jsnum \<Rightarrow> jsnum \<Rightarrow> jsnum" where
  "jmul (Fin a) (Fin b) = Fin (a * b)"
| "jmul (Fin a) PInf = signed_inf a"
| "jmul (Fin a) NInf = signed_inf (- a)"
| "jmul PInf (Fin b) = signed_inf b"
| "jmul NInf (Fin b) = signed_inf (- b)"
| "jmul PInf PInf = PInf"
| "jmul PInf NInf = NInf"
| "jmul NInf PInf = NInf"
| "jmul NInf NInf = PInf"
| "jmul NaN y = NaN"
| "jmul x NaN = NaN"

fun jdiv :: "jsnum \<Rightarrow> jsnum \<Rightarrow> jsnum" where
  "jdiv (Fin a) (Fin b) = (if b \<noteq> 0 then Fin (a / b) else signed_inf a)"
| "jdiv (Fin a) PInf = Fin 0"
| "jdiv (Fin a) NInf = Fin 0"
| "jdiv PInf (Fin b) = (if 0 \<le> b then PInf else NInf)"
| "jdiv NInf (Fin b) = (if 0 \<le> b then NInf else PInf)"
| "jdiv PInf PInf = NaN"
| "jdiv PInf NInf = NaN"
| "jdiv NInf PInf = NaN"
| "jdiv NInf NInf = NaN"
| "jdiv NaN y = NaN"
| "jdiv x NaN = NaN"

text \<open>Comparisons: every comparison with \<open>NaN\<close> is false.\<close>

fun jle :: "jsnum \<Rightarrow> jsnum \<Rightarrow> bool" where
  "jle (Fin a) (Fin b) = (a \<le> b)"
| "jle (Fin a) PInf = True"
| "jle (Fin a) NInf = False"
| "jle PInf (Fin b) = False"
| "jle PInf PInf = True"
| "jle PInf NInf = False"
| "jle NInf (Fin b) = True"
| "jle NInf PInf = True"
| "jle NInf NInf = True"
| "jle NaN y = False"
| "jle x NaN = False"

fun jlt :: "jsnum \<Rightarrow> jsnum \<Rightarrow> bool" where
  "jlt (Fin a) (Fin b) = (a < b)"
| "jlt (Fin a) PInf = True"
| "jlt (Fin a) NInf = False"
| "jlt PInf (Fin b) = False"
| "jlt PInf PInf = False"
| "jlt PInf NInf = False"
| "jlt NInf (Fin b) = True"
| "jlt NInf PInf = True"
| "jlt NInf NInf = False"
| "jlt NaN y = False"
| "jlt x NaN = False"

definition jge :: "jsnum \<Rightarrow> jsnum \<Rightarrow> bool" where
  "jge x y = jle y x"

text \<open>\<open>Math.min\<close> and \<open>Math.max\<close>: \<open>NaN\<close> as soon as one argument is \<open>NaN\<close>.\<close>

definition jmin :: "jsnum \<Rightarrow> jsnum \<Rightarrow> jsnum" where
  "jmin x y = (if x = NaN \<or> y = NaN then NaN else if jle x y then x else y)"

definition jmax :: "jsnum \<Rightarrow> jsnum \<Rightarrow> jsnum" where
  "jmax x y = (if x = NaN \<or> y = NaN then NaN else if jle x y then y else x)"

text \<open>Truthiness of a number, as \<open>||\<close> tests it: \<open>0\<close> and \<open>NaN\<close> are falsy.\<close>

fun truthy :: "jsnum \<Rightarrow> bool" where
  "truthy (Fin a) = (a \<noteq> 0)"
| "truthy PInf = True"
| "truthy NInf = True"
| "truthy NaN = False"

text \<open>\<open>a || b\<close> on finite numbers.\<close>

definition or_else :: "real \<Rightarrow> real \<Rightarrow> real" where
  "or_else a b = (if a \<noteq> 0 then a else b)"

text \<open>\<open>a || Infinity\<close>.\<close>

definition or_Infinity :: "real \<Rightarrow> jsnum" where
  "or_Infinity a = (if a \<noteq> 0 then Fin a else PInf)"

text \<open>\<open>Math.ceil\<close> on a finite number.\<close>

definition ceil :: "real \<Rightarrow> real" where
  "ceil x = of_int \<lceil>x\<rceil>"

text \<open>
  An array read used as a number: \<open>xs[i]\<close> is \<open>undefined\<close> outside the array (also at
  index \<open>-1\<close>, which \<open>xs[xs.length - 1]\<close> reads on an empty array).
\<close>

definition elem :: "real list \<Rightarrow> int \<Rightarrow> jsnum" where
  "elem xs i = (if 0 \<le> i \<and> i < int (length xs) then Fin (xs ! nat i) else NaN)"

text \<open>\<open>s.startsWith(p)\<close>.\<close>

definition startsWith :: "string \<Rightarrow> string \<Rightarrow> bool" where
  "startsWith s p = (take (length p) s = p)"

section \<open>Data model\<close>

text \<open>
  The reference tables live in the module \<open>constants\<close>, which the engine imports; they are
  parameters of the model.  Rows carry the fields the engine reads.  Field names that
  would hide a HOL constant or a variable name carry a suffix: \<open>size\<close>, \<open>R\<close>, \<open>E\<close>
  (bolt rows), \<open>id\<close>, \<open>m\<close>, \<open>y\<close> (gasket and material rows), \<open>min\<close>, \<open>max\<close> (ring rows) and
  the input field \<open>g\<close>.
\<close>

record BoltData =
  size_bolt :: real
  R_bolt :: real
  B_min :: real
  E_bolt :: real
  holeSize :: real
  tensileArea :: real

record TensionData =
  size_ten :: real
  B_ten :: real

record RingRow =
  min_ring :: real
  max_ring :: real
  irMin :: real
  orMin :: real

record Material =
  id_mat :: string
  stresses :: "real option list"

record GasketType =
  id_gasket :: string
  m_gasket :: real
  y_gasket :: real

record Tables =
  TEMA_BOLT_DATA :: "BoltData list"
  HYDRAULIC_TENSIONING_DATA :: "TensionData list"
  GASKET_RING_TABLE :: "RingRow list"
  ASME_BOLT_MATERIALS :: "Material list"
  BOLT_TEMP_STEPS :: "real list"
  GASKET_TYPES :: "GasketType list"
  WHC_MAX_PITCH_TABLE :: "real \<rightharpoonup> real"

record CalculationResults =
  bcdMethod1 :: real
  bcdMethod2 :: real
  bcdMethod3 :: real
  selectedBcdSource :: nat
  bcdTema :: real
  odTema :: real
  boltSpacingMin :: real
  maxBoltSpacing :: real
  geometricPitch :: jsnum
  actualBoltSpacing :: real
  spacingOk :: bool
  radialDistance :: real
  edgeDistance :: real
  effectiveC :: real
  shellGapA :: real
  gasketSeatingWidth :: real
  innerRingWidth :: real
  outerRingWidth :: real
  gasketID :: real
  seatingID :: real
  seatingOD :: real
  gasketOD :: real
  finalBCD :: real
  finalOD :: real
  maxRaisedFace :: real
  boltHoleSize :: real
  singleBoltArea :: real
  totalBoltArea :: real
  requiredBoltArea :: jsnum
  totalBoltLoadAmbient :: real
  totalBoltLoadDesign :: jsnum
  ambientAllowableStress :: real
  designAllowableStress :: jsnum
  gasketM :: real
  gasketY :: real
  passM :: real
  passY :: real
  wm1 :: real
  wm2 :: real
  hForce :: real
  hpForce :: real
  gMeanDia :: real
  bWidth :: real
  b0Width :: real
  nWidth :: real

text \<open>
  The Design Input.  \<open>shellGapA\<close> is the one field the engine tests against
  \<open>undefined\<close>, so it is optional here.  The input fields \<open>shellGapA\<close> and
  \<open>gasketSeatingWidth\<close> share their names with result fields; unqualified, the names
  denote the input fields.
\<close>

record FlangeInputs =
  itemNo :: string
  partName :: string
  boltSize :: real
  boltCount :: real
  insideDia :: real
  g0 :: real
  g1 :: real
  cClearance :: real
  shellGapA :: "real option"
  gasketSeatingWidth :: real
  hasInnerRing :: bool
  hasOuterRing :: bool
  innerRingWidthManual :: real
  outerRingWidthManual :: real
  useManualOverride :: bool
  actualBCD :: real
  actualOD :: real
  manualSeatingID :: real
  manualSeatingOD :: real
  manualM :: real
  manualY :: real
  manualPassM :: real
  manualPassY :: real
  designTemp :: real
  tempUnit :: string
  designPressure :: real
  pressureUnit :: string
  shellMaterial :: string
  jointEfficiency :: real
  corrosionAllowance :: real
  boltMaterial :: string
  passPartitionLength :: real
  passPartitionWidth :: real
  gasketType :: string
  passGasketType :: string
  facingSketch :: string
  useHydraulicTensioning :: bool
  usePcc1Check :: bool
  sgT :: real
  sgMinS :: real
  sgMinO :: real
  sgMax :: real
  sbMax :: real
  sbMin :: real
  sfMax :: real
  phiFMax :: real
  phiGMax :: real
  g_frac :: real
  passPartAreaReduction :: real

section \<open>Unit Normalizer\<close>

definition toMpa :: "real \<Rightarrow> string \<Rightarrow> real" where
  "toMpa p unit =
     (if unit = ''Bar'' then p * 0.1
      else if unit = ''PSI'' then p * 0.00689476
      else if unit = ''kg/cm'' @ [CHR 0xB2] then p * 0.0980665
      else p)"

definition toCelsius :: "real \<Rightarrow> string \<Rightarrow> real" where
  "toCelsius t unit =
     (if unit = [CHR 0xB0, CHR ''F''] then (t - 32) * 5 / 9
      else if unit = ''K'' then t - 273.15
      else t)"

section \<open>Stress Interpolator\<close>

text \<open>\<open>stressCurve.map(s => s || 0)\<close>: \<open>null\<close> and \<open>0\<close> both give \<open>0\<close>.\<close>

definition cleanCurve :: "real option list \<Rightarrow> real list" where
  "cleanCurve stressCurve = map (\<lambda>s. case s of None \<Rightarrow> 0 | Some v \<Rightarrow> or_else v 0) stressCurve"

text \<open>
  The \<open>for\<close> loop of \<open>interpolateStress\<close> over the indices still to visit; falling out of
  the loop returns \<open>cleanCurve[0]\<close>.
\<close>

fun interpolate_loop :: "real list \<Rightarrow> real \<Rightarrow> real list \<Rightarrow> nat list \<Rightarrow> jsnum" where
  "interpolate_loop steps temp cc [] = elem cc 0"
| "interpolate_loop steps temp cc (i # rest) =
     (let t1 = elem steps (int i);
          t2 = elem steps (int i + 1)
      in if jge (Fin temp) t1 \<and> jle (Fin temp) t2 then
           (let s1 = elem cc (int i);
                s2 = (if truthy (elem cc (int i + 1)) then elem cc (int i + 1) else s1)
            in jadd s1 (jdiv (jmul (jsub s2 s1) (jsub (Fin temp) t1)) (jsub t2 t1)))
         else interpolate_loop steps temp cc rest)"

definition interpolateStress :: "real list \<Rightarrow> real \<Rightarrow> real option list \<Rightarrow> jsnum" where
  "interpolateStress steps temp stressCurve =
     (let cc = cleanCurve stressCurve
      in if jle (Fin temp) (elem steps 0) then elem cc 0
         else if jge (Fin temp) (elem steps (int (length steps) - 1))
           then elem cc (int (length cc) - 1)
         else interpolate_loop steps temp cc [0 ..< length steps - 1])"

section \<open>The engine: \<open>calculateFullResults\<close>\<close>

text \<open>
  \<open>a || b\<close> on objects (\<open>TABLE.find(p) || TABLE[0]\<close>): an object is truthy, \<open>undefined\<close>
  is not.  \<open>None\<close> is \<open>undefined\<close>.
\<close>

definition or_undef :: "'a option \<Rightarrow> 'a option \<Rightarrow> 'a option" where
  "or_undef a b = (case a of Some x \<Rightarrow> Some x | None \<Rightarrow> b)"

definition first_opt :: "'a list \<Rightarrow> 'a option" where
  "first_opt xs = (case xs of [] \<Rightarrow> None | x # _ \<Rightarrow> Some x)"

definition last_opt :: "'a list \<Rightarrow> 'a option" where
  "last_opt xs = (if xs = [] then None else Some (last xs))"

text \<open>\<open>mat.stresses[1] || 0\<close>: a missing, \<open>null\<close> or zero entry gives \<open>0\<close>.\<close>

definition ambient_entry :: "real option list \<Rightarrow> real" where
  "ambient_entry curve =
     (if 1 < length curve then (case curve ! 1 of None \<Rightarrow> 0 | Some v \<Rightarrow> or_else v 0) else 0)"

text \<open>
  The engine returns an option: \<open>None\<close> is the \<open>TypeError\<close> JavaScript raises when a
  property is read from \<open>undefined\<close>, which happens exactly where a table lookup with its
  fallback found nothing (an empty table) and the row is then used.  The reads of
  \<open>ringConfig\<close> and \<open>gType\<close> are conditional in the source, and so they are here.
\<close>

definition calculateFullResults :: "Tables \<Rightarrow> FlangeInputs \<Rightarrow> CalculationResults option" where
  "calculateFullResults T currentInputs = do {
     let boltData_u = or_undef (find (\<lambda>b. size_bolt b = boltSize currentInputs) (TEMA_BOLT_DATA T))
                               (first_opt (TEMA_BOLT_DATA T));
     let tensionData = find (\<lambda>t. size_ten t = boltSize currentInputs) (HYDRAULIC_TENSIONING_DATA T);
     let ringConfig = or_undef
           (find (\<lambda>r. insideDia currentInputs \<ge> min_ring r \<and> insideDia currentInputs \<le> max_ring r)
                 (GASKET_RING_TABLE T))
           (last_opt (GASKET_RING_TABLE T));

     innerRingWidth' \<leftarrow>
       (if hasInnerRing currentInputs
        then (if innerRingWidthManual currentInputs \<noteq> 0
              then Some (innerRingWidthManual currentInputs) else map_option irMin ringConfig)
        else Some 0);
     outerRingWidth' \<leftarrow>
       (if hasOuterRing currentInputs
        then (if outerRingWidthManual currentInputs \<noteq> 0
              then Some (outerRingWidthManual currentInputs) else map_option orMin ringConfig)
        else Some 0);
     let effectiveC' = or_else (cClearance currentInputs) 2.5;
     let shellGapA' = (case shellGapA currentInputs of Some a \<Rightarrow> a | None \<Rightarrow> 3.0);
     let bConst = 1.5;

     boltData \<leftarrow> boltData_u;
     let roundedHoleSize = ceil (holeSize boltData);

     let effectiveBMin =
           (if useHydraulicTensioning currentInputs \<and> tensionData \<noteq> None
            then max (B_min boltData) (B_ten (the tensionData))
            else B_min boltData);

     let bcdMethod1' = ceil ((effectiveBMin * 25.4 * boltCount currentInputs) / pi);
     let radialDistance' = R_bolt boltData * 25.4;
     let bcdMethod2' = ceil (insideDia currentInputs + (2 * g1 currentInputs) + (2 * radialDistance'));

     let baseBCDForAutoGasket = max bcdMethod1' bcdMethod2';

     let autoSeatingOD_BCD = baseBCDForAutoGasket - roundedHoleSize - (2 * effectiveC') - (2 * bConst)
                               - (2 * outerRingWidth');
     let autoSeatingOD_Shell = insideDia currentInputs + (2 * shellGapA') + (2 * innerRingWidth')
                               + (2 * gasketSeatingWidth currentInputs);

     let autoSeatingOD = max autoSeatingOD_BCD autoSeatingOD_Shell;
     let autoSeatingID = autoSeatingOD - (2 * gasketSeatingWidth currentInputs);

     let seatingID' = (if manualSeatingID currentInputs \<noteq> 0
                       then manualSeatingID currentInputs else autoSeatingID);
     let seatingOD' = (if manualSeatingOD currentInputs \<noteq> 0
                       then manualSeatingOD currentInputs else autoSeatingOD);

     let gasketOD' = seatingOD' + (if hasOuterRing currentInputs then (2 * outerRingWidth') else 0);
     let gasketID' = seatingID' - (if hasInnerRing currentInputs then (2 * innerRingWidth') else 0);

     let bcdMethod3' = gasketOD' + (2 * bConst) + (2 * effectiveC') + roundedHoleSize;
     let bcdTema' = max (max bcdMethod1' bcdMethod2') bcdMethod3';
     let selectedBcdSource' =
           (if bcdTema' = bcdMethod1' then 1 else (if bcdTema' = bcdMethod2' then 2 else 3));
     let finalBCD' = (if actualBCD currentInputs \<noteq> 0 then actualBCD currentInputs else bcdTema');

     let edgeDistance' = E_bolt boltData * 25.4;
     let odTema' = ceil (finalBCD' + (2 * edgeDistance'));
     let finalOD' = (if actualOD currentInputs \<noteq> 0 then actualOD currentInputs else odTema');

     let gType = or_undef (find (\<lambda>g. id_gasket g = gasketType currentInputs) (GASKET_TYPES T))
                          (first_opt (GASKET_TYPES T));
     gasketM' \<leftarrow> (if manualM currentInputs \<noteq> 0
                  then Some (manualM currentInputs) else map_option m_gasket gType);
     gasketY' \<leftarrow> (if manualY currentInputs \<noteq> 0
                  then Some (manualY currentInputs) else map_option y_gasket gType);

     let passGType = or_undef (find (\<lambda>g. id_gasket g = passGasketType currentInputs) (GASKET_TYPES T))
                              gType;
     passM' \<leftarrow> (if manualPassM currentInputs \<noteq> 0
                then Some (manualPassM currentInputs) else map_option m_gasket passGType);
     passY' \<leftarrow> (if manualPassY currentInputs \<noteq> 0
                then Some (manualPassY currentInputs) else map_option y_gasket passGType);

     let boltNominalDia = boltSize currentInputs * 25.4;
     let geometricPitch' = jdiv (Fin (pi * finalBCD')) (Fin (boltCount currentInputs));
     let boltSpacingMin' = effectiveBMin * 25.4;

     let whcMaxPitch =
           (case WHC_MAX_PITCH_TABLE T (boltSize currentInputs) of
              Some v \<Rightarrow> or_else v (2.5 * boltNominalDia + 12)
            | None \<Rightarrow> 2.5 * boltNominalDia + 12);
     let maxBoltSpacing' = whcMaxPitch;

     let nWidth' = gasketSeatingWidth currentInputs;
     let b0Width' =
           (if startsWith (facingSketch currentInputs) ''1a''
               \<or> startsWith (facingSketch currentInputs) ''1b'' then nWidth' / 2
            else if startsWith (facingSketch currentInputs) ''1c''
               \<or> startsWith (facingSketch currentInputs) ''1d'' then nWidth' / 4
            else if startsWith (facingSketch currentInputs) ''2'' then nWidth' / 8
            else nWidth' / 2);

     let Cul = 25.4;
     let bWidth' = (if b0Width' > 6 then 0.5 * Cul * sqrt (b0Width' / Cul) else b0Width');
     let gMeanDia' = (if b0Width' > 6 then seatingOD' - (2 * bWidth') else (seatingID' + seatingOD') / 2);

     let pMpa = toMpa (designPressure currentInputs) (pressureUnit currentInputs);
     let hForce' = 0.785 * gMeanDia' ^ 2 * pMpa;
     let hpForce' = 2 * pMpa * (bWidth' * pi * gMeanDia' * gasketM'
                      + passPartitionWidth currentInputs * passPartitionLength currentInputs * passM');
     let wm1' = hForce' + hpForce';
     let wm2' = (pi * bWidth' * gMeanDia' * (gasketY' * 0.00689476))
                + (passPartitionWidth currentInputs * passPartitionLength currentInputs
                     * (passY' * 0.00689476));

     mat \<leftarrow> or_undef (find (\<lambda>m. id_mat m = boltMaterial currentInputs) (ASME_BOLT_MATERIALS T))
                     (first_opt (ASME_BOLT_MATERIALS T));
     let ambientAllowableStress' = ambient_entry (stresses mat);
     let designAllowableStress' =
           interpolateStress (BOLT_TEMP_STEPS T)
             (toCelsius (designTemp currentInputs) (tempUnit currentInputs)) (stresses mat);

     let totalBoltArea' = tensileArea boltData * boltCount currentInputs;
     let reqAreaOperating = jdiv (Fin wm1') designAllowableStress';
     let reqAreaSeating = jdiv (Fin wm2') (Fin ambientAllowableStress');
     let requiredBoltArea' = jmax reqAreaOperating reqAreaSeating;

     Some \<lparr>
       bcdMethod1 = bcdMethod1', bcdMethod2 = bcdMethod2', bcdMethod3 = bcdMethod3',
       selectedBcdSource = selectedBcdSource',
       bcdTema = bcdTema', odTema = odTema', boltSpacingMin = boltSpacingMin',
       maxBoltSpacing = maxBoltSpacing',
       geometricPitch = geometricPitch', actualBoltSpacing = maxBoltSpacing',
       spacingOk = (jge geometricPitch' (Fin boltSpacingMin')
                     \<and> jle geometricPitch' (Fin maxBoltSpacing')),
       radialDistance = radialDistance', edgeDistance = edgeDistance', effectiveC = effectiveC',
       CalculationResults.shellGapA = shellGapA',
       CalculationResults.gasketSeatingWidth = nWidth',
       innerRingWidth = innerRingWidth', outerRingWidth = outerRingWidth',
       gasketID = gasketID', seatingID = seatingID', seatingOD = seatingOD', gasketOD = gasketOD',
       finalBCD = finalBCD', finalOD = finalOD',
       maxRaisedFace = finalBCD' - roundedHoleSize - (2 * effectiveC') - (2 * bConst)
                         - (2 * outerRingWidth'),
       boltHoleSize = roundedHoleSize,
       singleBoltArea = tensileArea boltData, totalBoltArea = totalBoltArea',
       requiredBoltArea = requiredBoltArea',
       totalBoltLoadAmbient = totalBoltArea' * ambientAllowableStress',
       totalBoltLoadDesign = jmul (Fin totalBoltArea') designAllowableStress',
       ambientAllowableStress = ambientAllowableStress',
       designAllowableStress = designAllowableStress',
       gasketM = gasketM', gasketY = gasketY', passM = passM', passY = passY',
       wm1 = wm1', wm2 = wm2', hForce = hForce', hpForce = hpForce', gMeanDia = gMeanDia',
       bWidth = bWidth', b0Width = b0Width', nWidth = nWidth'
     \<rparr>
   }"

subsection \<open>The engine in two stages\<close>

text \<open>
  For the proofs the same computation is written in two stages: the table lookups, each
  with its fallback and the condition under which the source reads the row, and then the
  straight-line arithmetic on the rows found.  Lemma \<open>calculateFullResults_staged\<close> below
  shows that \<open>calculateFullResults\<close> is exactly their composition.
\<close>

definition lookup_boltData :: "Tables \<Rightarrow> FlangeInputs \<Rightarrow> BoltData option" where
  "lookup_boltData T currentInputs =
     or_undef (find (\<lambda>b. size_bolt b = boltSize currentInputs) (TEMA_BOLT_DATA T))
              (first_opt (TEMA_BOLT_DATA T))"

definition lookup_ringConfig :: "Tables \<Rightarrow> FlangeInputs \<Rightarrow> RingRow option" where
  "lookup_ringConfig T currentInputs =
     or_undef
       (find (\<lambda>r. insideDia currentInputs \<ge> min_ring r \<and> insideDia currentInputs \<le> max_ring r)
             (GASKET_RING_TABLE T))
       (last_opt (GASKET_RING_TABLE T))"

definition lookup_gType :: "Tables \<Rightarrow> FlangeInputs \<Rightarrow> GasketType option" where
  "lookup_gType T currentInputs =
     or_undef (find (\<lambda>g. id_gasket g = gasketType currentInputs) (GASKET_TYPES T))
              (first_opt (GASKET_TYPES T))"

definition lookup_passGType :: "Tables \<Rightarrow> FlangeInputs \<Rightarrow> GasketType option" where
  "lookup_passGType T currentInputs =
     or_undef (find (\<lambda>g. id_gasket g = passGasketType currentInputs) (GASKET_TYPES T))
              (lookup_gType T currentInputs)"

definition lookup_mat :: "Tables \<Rightarrow> FlangeInputs \<Rightarrow> Material option" where
  "lookup_mat T currentInputs =
     or_undef (find (\<lambda>m. id_mat m = boltMaterial currentInputs) (ASME_BOLT_MATERIALS T))
              (first_opt (ASME_BOLT_MATERIALS T))"

definition innerRingWidth_of :: "Tables \<Rightarrow> FlangeInputs \<Rightarrow> real option" where
  "innerRingWidth_of T currentInputs =
     (if hasInnerRing currentInputs
      then (if innerRingWidthManual currentInputs \<noteq> 0
            then Some (innerRingWidthManual currentInputs)
            else map_option irMin (lookup_ringConfig T currentInputs))
      else Some 0)"

definition outerRingWidth_of :: "Tables \<Rightarrow> FlangeInputs \<Rightarrow> real option" where
  "outerRingWidth_of T currentInputs =
     (if hasOuterRing currentInputs
      then (if outerRingWidthManual currentInputs \<noteq> 0
            then Some (outerRingWidthManual currentInputs)
            else map_option orMin (lookup_ringConfig T currentInputs))
      else Some 0)"

definition gasketM_of :: "Tables \<Rightarrow> FlangeInputs \<Rightarrow> real option" where
  "gasketM_of T currentInputs =
     (if manualM currentInputs \<noteq> 0 then Some (manualM currentInputs)
      else map_option m_gasket (lookup_gType T currentInputs))"

definition gasketY_of :: "Tables \<Rightarrow> FlangeInputs \<Rightarrow> real option" where
  "gasketY_of T currentInputs =
     (if manualY currentInputs \<noteq> 0 then Some (manualY currentInputs)
      else map_option y_gasket (lookup_gType T currentInputs))"

definition passM_of :: "Tables \<Rightarrow> FlangeInputs \<Rightarrow> real option" where
  "passM_of T currentInputs =
     (if manualPassM currentInputs \<noteq> 0 then Some (manualPassM currentInputs)
      else map_option m_gasket (lookup_passGType T currentInputs))"

definition passY_of :: "Tables \<Rightarrow> FlangeInputs \<Rightarrow> real option" where
  "passY_of T currentInputs =
     (if manualPassY currentInputs \<noteq> 0 then Some (manualPassY currentInputs)
      else map_option y_gasket (lookup_passGType T currentInputs))"

definition results_from ::
  "Tables \<Rightarrow> FlangeInputs \<Rightarrow> real \<Rightarrow> real \<Rightarrow> BoltData \<Rightarrow> real \<Rightarrow> real \<Rightarrow> real \<Rightarrow> real
     \<Rightarrow> Material \<Rightarrow> CalculationResults" where
  "results_from T currentInputs innerRingWidth' outerRingWidth' boltData gasketM' gasketY' passM' passY' mat =
    (let tensionData = find (\<lambda>t. size_ten t = boltSize currentInputs) (HYDRAULIC_TENSIONING_DATA T);
         effectiveC' = or_else (cClearance currentInputs) 2.5;
         shellGapA' = (case shellGapA currentInputs of Some a \<Rightarrow> a | None \<Rightarrow> 3.0);
         bConst = 1.5;
         roundedHoleSize = ceil (holeSize boltData);
         effectiveBMin =
        (if useHydraulicTensioning currentInputs \<and> tensionData \<noteq> None
        then max (B_min boltData) (B_ten (the tensionData))
        else B_min boltData);
         bcdMethod1' = ceil ((effectiveBMin * 25.4 * boltCount currentInputs) / pi);
         radialDistance' = R_bolt boltData * 25.4;
         bcdMethod2' = ceil (insideDia currentInputs + (2 * g1 currentInputs) + (2 * radialDistance'));
         baseBCDForAutoGasket = max bcdMethod1' bcdMethod2';
         autoSeatingOD_BCD = baseBCDForAutoGasket - roundedHoleSize - (2 * effectiveC') - (2 * bConst)
        - (2 * outerRingWidth');
         autoSeatingOD_Shell = insideDia currentInputs + (2 * shellGapA') + (2 * innerRingWidth')
        + (2 * gasketSeatingWidth currentInputs);
         autoSeatingOD = max autoSeatingOD_BCD autoSeatingOD_Shell;
         autoSeatingID = autoSeatingOD - (2 * gasketSeatingWidth currentInputs);
         seatingID' = (if manualSeatingID currentInputs \<noteq> 0
        then manualSeatingID currentInputs else autoSeatingID);
         seatingOD' = (if manualSeatingOD currentInputs \<noteq> 0
        then manualSeatingOD currentInputs else autoSeatingOD);
         gasketOD' = seatingOD' + (if hasOuterRing currentInputs then (2 * outerRingWidth') else 0);
         gasketID' = seatingID' - (if hasInnerRing currentInputs then (2 * innerRingWidth') else 0);
         bcdMethod3' = gasketOD' + (2 * bConst) + (2 * effectiveC') + roundedHoleSize;
         bcdTema' = max (max bcdMethod1' bcdMethod2') bcdMethod3';
         selectedBcdSource' =
        (if bcdTema' = bcdMethod1' then 1 else (if bcdTema' = bcdMethod2' then 2 else 3));
         finalBCD' = (if actualBCD currentInputs \<noteq> 0 then actualBCD currentInputs else bcdTema');
         edgeDistance' = E_bolt boltData * 25.4;
         odTema' = ceil (finalBCD' + (2 * edgeDistance'));
         finalOD' = (if actualOD currentInputs \<noteq> 0 then actualOD currentInputs else odTema');
         boltNominalDia = boltSize currentInputs * 25.4;
         geometricPitch' = jdiv (Fin (pi * finalBCD')) (Fin (boltCount currentInputs));
         boltSpacingMin' = effectiveBMin * 25.4;
         whcMaxPitch =
        (case WHC_MAX_PITCH_TABLE T (boltSize currentInputs) of
        Some v \<Rightarrow> or_else v (2.5 * boltNominalDia + 12)
        | None \<Rightarrow> 2.5 * boltNominalDia + 12);
         maxBoltSpacing' = whcMaxPitch;
         nWidth' = gasketSeatingWidth currentInputs;
         b0Width' =
        (if startsWith (facingSketch currentInputs) ''1a''
        \<or> startsWith (facingSketch currentInputs) ''1b'' then nWidth' / 2
        else if startsWith (facingSketch currentInputs) ''1c''
        \<or> startsWith (facingSketch currentInputs) ''1d'' then nWidth' / 4
        else if startsWith (facingSketch currentInputs) ''2'' then nWidth' / 8
        else nWidth' / 2);
         Cul = 25.4;
         bWidth' = (if b0Width' > 6 then 0.5 * Cul * sqrt (b0Width' / Cul) else b0Width');
         gMeanDia' = (if b0Width' > 6 then seatingOD' - (2 * bWidth') else (seatingID' + seatingOD') / 2);
         pMpa = toMpa (designPressure currentInputs) (pressureUnit currentInputs);
         hForce' = 0.785 * gMeanDia' ^ 2 * pMpa;
         hpForce' = 2 * pMpa * (bWidth' * pi * gMeanDia' * gasketM'
        + passPartitionWidth currentInputs * passPartitionLength currentInputs * passM');
         wm1' = hForce' + hpForce';
         wm2' = (pi * bWidth' * gMeanDia' * (gasketY' * 0.00689476))
        + (passPartitionWidth currentInputs * passPartitionLength currentInputs
        * (passY' * 0.00689476));
         ambientAllowableStress' = ambient_entry (stresses mat);
         designAllowableStress' =
        interpolateStress (BOLT_TEMP_STEPS T)
        (toCelsius (designTemp currentInputs) (tempUnit currentInputs)) (stresses mat);
         totalBoltArea' = tensileArea boltData * boltCount currentInputs;
         reqAreaOperating = jdiv (Fin wm1') designAllowableStress';
         reqAreaSeating = jdiv (Fin wm2') (Fin ambientAllowableStress');
         requiredBoltArea' = jmax reqAreaOperating reqAreaSeating
     in \<lparr>
        bcdMethod1 = bcdMethod1', bcdMethod2 = bcdMethod2', bcdMethod3 = bcdMethod3',
        selectedBcdSource = selectedBcdSource',
        bcdTema = bcdTema', odTema = odTema', boltSpacingMin = boltSpacingMin',
        maxBoltSpacing = maxBoltSpacing',
        geometricPitch = geometricPitch', actualBoltSpacing = maxBoltSpacing',
        spacingOk = (jge geometricPitch' (Fin boltSpacingMin')
        \<and> jle geometricPitch' (Fin maxBoltSpacing')),
        radialDistance = radialDistance', edgeDistance = edgeDistance', effectiveC = effectiveC',
        CalculationResults.shellGapA = shellGapA',
        CalculationResults.gasketSeatingWidth = nWidth',
        innerRingWidth = innerRingWidth', outerRingWidth = outerRingWidth',
        gasketID = gasketID', seatingID = seatingID', seatingOD = seatingOD', gasketOD = gasketOD',
        finalBCD = finalBCD', finalOD = finalOD',
        maxRaisedFace = finalBCD' - roundedHoleSize - (2 * effectiveC') - (2 * bConst)
        - (2 * outerRingWidth'),
        boltHoleSize = roundedHoleSize,
        singleBoltArea = tensileArea boltData, totalBoltArea = totalBoltArea',
        requiredBoltArea = requiredBoltArea',
        totalBoltLoadAmbient = totalBoltArea' * ambientAllowableStress',
        totalBoltLoadDesign = jmul (Fin totalBoltArea') designAllowableStress',
        ambientAllowableStress = ambientAllowableStress',
        designAllowableStress = designAllowableStress',
        gasketM = gasketM', gasketY = gasketY', passM = passM', passY = passY',
        wm1 = wm1', wm2 = wm2', hForce = hForce', hpForce = hpForce', gMeanDia = gMeanDia',
        bWidth = bWidth', b0Width = b0Width', nWidth = nWidth'
        \<rparr>)"

section \<open>Alternative stress-selection check (PCC-1)\<close>

text \<open>
  \<open>pccStatusInfo\<close> in \<open>App.tsx\<close> and the body of \<open>BoltLoadTable\<close> compute the same local
  constants, line for line; each constant is one definition here.  The selection steps
  take the raw stress \<open>sbSelCalc\<close> as an argument.
\<close>

definition totalBoltRootArea :: "FlangeInputs \<Rightarrow> CalculationResults \<Rightarrow> real" where
  "totalBoltRootArea inputs results = singleBoltArea results * boltCount inputs"

definition ringArea :: "CalculationResults \<Rightarrow> real" where
  "ringArea results = (pi / 4) * (seatingOD results ^ 2 - seatingID results ^ 2)"

definition reducedPassArea :: "FlangeInputs \<Rightarrow> real" where
  "reducedPassArea inputs =
     (passPartAreaReduction inputs / 100) * passPartitionWidth inputs * passPartitionLength inputs"

definition totalAg :: "FlangeInputs \<Rightarrow> CalculationResults \<Rightarrow> real" where
  "totalAg inputs results = ringArea results + reducedPassArea inputs"

definition sbSelCalc :: "FlangeInputs \<Rightarrow> CalculationResults \<Rightarrow> real" where
  "sbSelCalc inputs results =
     (if totalBoltRootArea inputs results > 0
      then (sgT inputs * totalAg inputs results) / totalBoltRootArea inputs results else 0)"

definition valA :: "real \<Rightarrow> FlangeInputs \<Rightarrow> jsnum" where
  "valA sbSelCalc' inputs = jmin (Fin sbSelCalc') (or_Infinity (sbMax inputs))"

definition valB :: "real \<Rightarrow> FlangeInputs \<Rightarrow> jsnum" where
  "valB sbSelCalc' inputs = jmax (valA sbSelCalc' inputs) (Fin (or_else (sbMin inputs) 0))"

definition valC :: "real \<Rightarrow> FlangeInputs \<Rightarrow> jsnum" where
  "valC sbSelCalc' inputs = jmin (valB sbSelCalc' inputs) (or_Infinity (sfMax inputs))"

definition sbSelFinal :: "real \<Rightarrow> FlangeInputs \<Rightarrow> jsnum" where
  "sbSelFinal sbSelCalc' inputs =
     jmin (jmin (valA sbSelCalc' inputs) (valB sbSelCalc' inputs)) (valC sbSelCalc' inputs)"

definition step5Threshold :: "FlangeInputs \<Rightarrow> CalculationResults \<Rightarrow> real" where
  "step5Threshold inputs results =
     (if totalBoltRootArea inputs results > 0
      then sgMinS inputs * (totalAg inputs results / totalBoltRootArea inputs results) else 0)"

definition step6Numerator :: "FlangeInputs \<Rightarrow> CalculationResults \<Rightarrow> real" where
  "step6Numerator inputs results =
     (sgMinO inputs * totalAg inputs results)
       + ((pi / 4) * toMpa (designPressure inputs) (pressureUnit inputs) * seatingID results ^ 2)"

definition step6Denominator :: "FlangeInputs \<Rightarrow> CalculationResults \<Rightarrow> real" where
  "step6Denominator inputs results = or_else (g_frac inputs) 1 * totalBoltRootArea inputs results"

definition step6Threshold :: "FlangeInputs \<Rightarrow> CalculationResults \<Rightarrow> real" where
  "step6Threshold inputs results =
     (if totalBoltRootArea inputs results > 0
      then step6Numerator inputs results / step6Denominator inputs results else 0)"

definition step7Threshold :: "FlangeInputs \<Rightarrow> CalculationResults \<Rightarrow> jsnum" where
  "step7Threshold inputs results =
     (if totalBoltRootArea inputs results > 0
      then Fin (sgMax inputs * (totalAg inputs results / totalBoltRootArea inputs results))
      else PInf)"

definition step8Threshold :: "FlangeInputs \<Rightarrow> jsnum" where
  "step8Threshold inputs =
     (if phiFMax inputs > 0
      then Fin (sfMax inputs * (or_else (g_frac inputs) 1 / phiFMax inputs)) else PInf)"

definition isStep5Ok :: "FlangeInputs \<Rightarrow> CalculationResults \<Rightarrow> bool" where
  "isStep5Ok inputs results =
     jge (sbSelFinal (sbSelCalc inputs results) inputs) (Fin (step5Threshold inputs results - 0.001))"

definition isStep6Ok :: "FlangeInputs \<Rightarrow> CalculationResults \<Rightarrow> bool" where
  "isStep6Ok inputs results =
     jge (sbSelFinal (sbSelCalc inputs results) inputs) (Fin (step6Threshold inputs results - 0.001))"

definition isStep7Ok :: "FlangeInputs \<Rightarrow> CalculationResults \<Rightarrow> bool" where
  "isStep7Ok inputs results =
     (if sgMax inputs = 0 then True
      else jle (sbSelFinal (sbSelCalc inputs results) inputs)
               (jadd (step7Threshold inputs results) (Fin 0.001)))"

definition isStep8Ok :: "FlangeInputs \<Rightarrow> CalculationResults \<Rightarrow> bool" where
  "isStep8Ok inputs results =
     (if phiFMax inputs = 0 then True
      else jle (sbSelFinal (sbSelCalc inputs results) inputs)
               (jadd (step8Threshold inputs) (Fin 0.001)))"

record PccStatus =
  active :: bool
  safe :: bool

text \<open>The status the application reports in its final report (\<open>App.tsx\<close>).\<close>

definition pccStatusInfo :: "FlangeInputs \<Rightarrow> CalculationResults \<Rightarrow> PccStatus" where
  "pccStatusInfo inputs results =
     (if \<not> usePcc1Check inputs then \<lparr>active = False, safe = True\<rparr>
      else \<lparr>active = True,
            safe = (isStep5Ok inputs results \<and> isStep6Ok inputs results
                     \<and> isStep7Ok inputs results \<and> isStep8Ok inputs results)\<rparr>)"

text \<open>
  The condition under which the PCC-1 tab of \<open>BoltLoadTable\<close> shows
  ``Stress Within Limit''.
\<close>

definition stressWithinLimit :: "FlangeInputs \<Rightarrow> CalculationResults \<Rightarrow> bool" where
  "stressWithinLimit inputs results =
     (jle (sbSelFinal (sbSelCalc inputs results) inputs) (Fin (sbMax inputs))
      \<and> jge (sbSelFinal (sbSelCalc inputs results) inputs) (Fin (sbMin inputs))
      \<and> isStep5Ok inputs results \<and> isStep6Ok inputs results
      \<and> isStep7Ok inputs results \<and> isStep8Ok inputs results)"

section \<open>The ring-width lookup of the input panel (\<open>Calculator.tsx\<close>)\<close>

text \<open>
  The panel reads \<open>ringConfig.irMin\<close> unconditionally, so an empty table is a \<open>TypeError\<close>
  here whatever the ring flags are.
\<close>

definition Calculator_ringConfig :: "Tables \<Rightarrow> FlangeInputs \<Rightarrow> RingRow option" where
  "Calculator_ringConfig T inputs =
     or_undef (find (\<lambda>r. insideDia inputs \<ge> min_ring r \<and> insideDia inputs \<le> max_ring r)
                    (GASKET_RING_TABLE T))
              (last_opt (GASKET_RING_TABLE T))"

definition Calculator_currentIR :: "Tables \<Rightarrow> FlangeInputs \<Rightarrow> real option" where
  "Calculator_currentIR T inputs = do {
     ringConfig \<leftarrow> Calculator_ringConfig T inputs;
     let autoIR = irMin ringConfig;
     Some (if hasInnerRing inputs then or_else (innerRingWidthManual inputs) autoIR else 0)
   }"

section \<open>Design-space search: \<open>performSearch\<close>\<close>

text \<open>
  \<open>performSearch\<close> has two effects: it may replace the stored Design Input
  (\<open>setInputs(prev => ...)\<close>) and it shows an alert.  The model takes the stored input
  \<open>prev\<close> and returns the stored input afterwards together with the alert.  The handlers
  call it with the stored input as \<open>targetInputs\<close>.
\<close>

record SearchState =
  bestSize :: real
  bestCount :: real
  minRequiredLoad :: jsnum
  found :: bool

datatype Alert =
    OptimizationCompleted bool real real jsnum jsnum
  | NoValidConfiguration bool real

definition counts :: "real list" where
  "counts = [4, 8, 12, 16, 20, 24, 28, 32, 36, 40, 44, 48, 52, 56, 60, 64, 68, 72, 76, 80]"

definition optimizedTargetInputs :: "FlangeInputs \<Rightarrow> FlangeInputs" where
  "optimizedTargetInputs targetInputs =
     targetInputs\<lparr>useManualOverride := False, actualBCD := 0, actualOD := 0,
                  manualSeatingID := 0, manualSeatingOD := 0\<rparr>"

definition testInputs :: "FlangeInputs \<Rightarrow> real \<Rightarrow> real \<Rightarrow> FlangeInputs" where
  "testInputs optimized size' count' = optimized\<lparr>boltSize := size', boltCount := count'\<rparr>"

text \<open>\<open>req\<close>, \<open>avail\<close> and \<open>margin\<close> of a result, as the search (and the final report) form them.\<close>

definition req_of :: "CalculationResults \<Rightarrow> real" where
  "req_of testResults = max (wm1 testResults) (wm2 testResults)"

definition margin_of :: "CalculationResults \<Rightarrow> jsnum" where
  "margin_of testResults =
     (let req = req_of testResults;
          avail = totalBoltLoadDesign testResults
      in jmul (jdiv (jsub avail (Fin req)) (Fin req)) (Fin 100))"

text \<open>The test \<open>margin >= 0 && testResults.spacingOk\<close> of the search.\<close>

definition feasible :: "CalculationResults \<Rightarrow> bool" where
  "feasible testResults = (jge (margin_of testResults) (Fin 0) \<and> spacingOk testResults)"

fun count_loop :: "Tables \<Rightarrow> FlangeInputs \<Rightarrow> real \<Rightarrow> real list \<Rightarrow> SearchState \<Rightarrow> SearchState option" where
  "count_loop T optimized size' [] st = Some st"
| "count_loop T optimized size' (count' # rest) st = do {
     testResults \<leftarrow> calculateFullResults T (testInputs optimized size' count');
     let req = req_of testResults;
     count_loop T optimized size' rest
       (if feasible testResults
        then (if jlt (Fin req) (minRequiredLoad st)
              then st\<lparr>minRequiredLoad := Fin req, bestSize := size', bestCount := count',
                      found := True\<rparr>
              else st)
        else st)
   }"

fun size_loop :: "Tables \<Rightarrow> FlangeInputs \<Rightarrow> real list \<Rightarrow> SearchState \<Rightarrow> SearchState option" where
  "size_loop T optimized [] st = Some st"
| "size_loop T optimized (size' # rest) st = do {
     st' \<leftarrow> count_loop T optimized size' counts st;
     size_loop T optimized rest st'
   }"

definition sizesToSearch :: "Tables \<Rightarrow> FlangeInputs \<Rightarrow> bool \<Rightarrow> real list" where
  "sizesToSearch T optimized fixedSize =
     (if fixedSize then [boltSize optimized]
      else map size_bolt (filter (\<lambda>b. size_bolt b \<ge> 0.75) (TEMA_BOLT_DATA T)))"

definition search :: "Tables \<Rightarrow> FlangeInputs \<Rightarrow> bool \<Rightarrow> SearchState option" where
  "search T targetInputs fixedSize =
     (let optimized = optimizedTargetInputs targetInputs
      in size_loop T optimized (sizesToSearch T optimized fixedSize)
           \<lparr>bestSize = boltSize optimized, bestCount = boltCount optimized,
            minRequiredLoad = PInf, found = False\<rparr>)"

definition performSearch ::
  "Tables \<Rightarrow> FlangeInputs \<Rightarrow> FlangeInputs \<Rightarrow> bool \<Rightarrow> (FlangeInputs \<times> Alert) option" where
  "performSearch T prev targetInputs fixedSize = do {
     let optimized = optimizedTargetInputs targetInputs;
     st \<leftarrow> search T targetInputs fixedSize;
     if found st then do {
       let inputs' = prev\<lparr>boltSize := bestSize st, boltCount := bestCount st,
                          useManualOverride := False, actualBCD := 0, actualOD := 0,
                          manualSeatingID := 0, manualSeatingOD := 0\<rparr>;
       finalResults \<leftarrow> calculateFullResults T (testInputs optimized (bestSize st) (bestCount st));
       let finalMargin = margin_of finalResults;
       Some (inputs', OptimizationCompleted fixedSize (bestSize st) (bestCount st)
                        (minRequiredLoad st) finalMargin)
     } else Some (prev, NoValidConfiguration fixedSize (boltSize optimized))
   }"

section \<open>Example data\<close>

text \<open>
  A small set of reference tables and the application's initial Design Input, used to
  instantiate the theorems below.  The table rows are illustrative; \<open>g0\<close>, \<open>g1\<close> and the
  material and gasket ids, which the application derives from its tables, are fixed to
  values that fit these tables.
\<close>

definition example_bolt :: BoltData where
  "example_bolt = \<lparr>size_bolt = 0.75, R_bolt = 1.125, B_min = 1.75, E_bolt = 0.8125,
                    holeSize = 22.225, tensileArea = 194.8\<rparr>"

definition example_material :: Material where
  "example_material = \<lparr>id_mat = ''SA-193 B7'',
                        stresses = [Some 172, Some 172, Some 172, Some 172, Some 162, None]\<rparr>"

definition example_tables :: Tables where
  "example_tables = \<lparr>
     TEMA_BOLT_DATA =
       [\<lparr>size_bolt = 0.5, R_bolt = 0.8125, B_min = 1.25, E_bolt = 0.625,
         holeSize = 15.875, tensileArea = 81.3\<rparr>,
        example_bolt,
        \<lparr>size_bolt = 1, R_bolt = 1.375, B_min = 2.25, E_bolt = 1.0625,
         holeSize = 28.575, tensileArea = 355.5\<rparr>],
     HYDRAULIC_TENSIONING_DATA = [\<lparr>size_ten = 1, B_ten = 2.5\<rparr>],
     GASKET_RING_TABLE =
       [\<lparr>min_ring = 0, max_ring = 600, irMin = 5, orMin = 5\<rparr>,
        \<lparr>min_ring = 601, max_ring = 100000, irMin = 6, orMin = 6\<rparr>],
     ASME_BOLT_MATERIALS = [example_material],
     BOLT_TEMP_STEPS = [-30, 40, 100, 200, 300, 400],
     GASKET_TYPES =
       [\<lparr>id_gasket = ''Spiral wound'', m_gasket = 3, y_gasket = 10000\<rparr>,
        \<lparr>id_gasket = ''Self-energizing'', m_gasket = 0, y_gasket = 0\<rparr>],
     WHC_MAX_PITCH_TABLE = Map.empty
   \<rparr>"

text \<open>
  The same tables with other gasket factors for the spiral-wound gasket, so that a manual
  factor of 3 or 10000 differs from what the table gives.
\<close>

definition example_tables_alt :: Tables where
  "example_tables_alt = example_tables\<lparr>GASKET_TYPES :=
       [\<lparr>id_gasket = ''Spiral wound'', m_gasket = 2, y_gasket = 5000\<rparr>,
        \<lparr>id_gasket = ''Self-energizing'', m_gasket = 0, y_gasket = 0\<rparr>]\<rparr>"

definition example_inputs :: FlangeInputs where
  "example_inputs = \<lparr>
     itemNo = ''E-101'',
     partName = ''CC FLG'',
     boltSize = 0.75,
     boltCount = 12,
     insideDia = 300,
     g0 = 3,
     g1 = 5,
     cClearance = 2.5,
     shellGapA = Some 3.0,
     gasketSeatingWidth = 15,
     hasInnerRing = True,
     hasOuterRing = True,
     innerRingWidthManual = 0,
     outerRingWidthManual = 0,
     useManualOverride = False,
     actualBCD = 0,
     actualOD = 0,
     manualSeatingID = 0,
     manualSeatingOD = 0,
     manualM = 0,
     manualY = 0,
     manualPassM = 0,
     manualPassY = 0,
     designTemp = 100,
     tempUnit = [CHR 0xB0, CHR ''C''],
     designPressure = 1.0,
     pressureUnit = ''MPa'',
     shellMaterial = ''SA-516 70'',
     jointEfficiency = 1,
     corrosionAllowance = 0,
     boltMaterial = ''SA-193 B7'',
     passPartitionLength = 0,
     passPartitionWidth = 0,
     gasketType = ''Spiral wound'',
     passGasketType = ''Spiral wound'',
     facingSketch = ''1a: Flat Face / Groove'',
     useHydraulicTensioning = False,
     usePcc1Check = False,
     sgT = 0,
     sgMinS = 0,
     sgMinO = 0,
     sgMax = 0,
     sbMax = 0,
     sbMin = 0,
     sfMax = 0,
     phiFMax = 0.32,
     phiGMax = 1,
     g_frac = 0.7,
     passPartAreaReduction = 50
   \<rparr>"

text \<open>
  The inputs that agree with the example on everything the engine reads, except that the
  gasket contact width is 12, and the bolt count, the design temperature and the manual
  gasket factors (each zero, or the table's value) are left open.
\<close>

definition example_family :: "FlangeInputs \<Rightarrow> bool" where
  "example_family ci =
     (boltSize ci = 0.75 \<and> insideDia ci = 300 \<and> g1 ci = 5 \<and> cClearance ci = 2.5
      \<and> shellGapA ci = Some 3 \<and> gasketSeatingWidth ci = 12
      \<and> hasInnerRing ci \<and> hasOuterRing ci
      \<and> innerRingWidthManual ci = 0 \<and> outerRingWidthManual ci = 0
      \<and> actualBCD ci = 0 \<and> actualOD ci = 0 \<and> manualSeatingID ci = 0 \<and> manualSeatingOD ci = 0
      \<and> (manualM ci = 0 \<or> manualM ci = 3) \<and> (manualY ci = 0 \<or> manualY ci = 10000)
      \<and> (manualPassM ci = 0 \<or> manualPassM ci = 3)
      \<and> (manualPassY ci = 0 \<or> manualPassY ci = 10000)
      \<and> tempUnit ci = [CHR 0xB0, CHR ''C''] \<and> designPressure ci = 1 \<and> pressureUnit ci = ''MPa''
      \<and> boltMaterial ci = ''SA-193 B7''
      \<and> passPartitionLength ci = 0 \<and> passPartitionWidth ci = 0
      \<and> gasketType ci = ''Spiral wound'' \<and> passGasketType ci = ''Spiral wound''
      \<and> facingSketch ci = ''1a: Flat Face / Groove''
      \<and> \<not> useHydraulicTensioning ci)"

text \<open>The result the engine computes for an input of that family.\<close>

definition example_results :: "FlangeInputs \<Rightarrow> CalculationResults" where
  "example_results ci =
     results_from example_tables ci 5 5 example_bolt 3 10000 3 10000 example_material"

section \<open>Reference definitions\<close>

subsection \<open>The Stress Interpolator as the specification words it\<close>

text \<open>
  Null entries become zero; below the lowest step the first value, above the highest step
  the last value; otherwise linear interpolation \<open>s1 + (s2 - s1) * (t - t1) / (t2 - t1)\<close>
  between the bracketing steps \<open>t1 \<le> t \<le> t2\<close>.  The reference is defined for a curve over
  the steps (one entry per step, at least one step); where the words say nothing it is
  \<open>None\<close>.
\<close>

definition zero_subst :: "real option list \<Rightarrow> real list" where
  "zero_subst curve = map (\<lambda>s. case s of None \<Rightarrow> 0 | Some v \<Rightarrow> v) curve"

fun bracket_spec :: "real \<Rightarrow> (real \<times> real) list \<Rightarrow> real option" where
  "bracket_spec t ((t1, s1) # (t2, s2) # rest) =
     (if t1 \<le> t \<and> t \<le> t2 then Some (s1 + (s2 - s1) * (t - t1) / (t2 - t1))
      else bracket_spec t ((t2, s2) # rest))"
| "bracket_spec t [p] = None"
| "bracket_spec t [] = None"

definition interpolate_spec :: "real list \<Rightarrow> real \<Rightarrow> real option list \<Rightarrow> real option" where
  "interpolate_spec steps t curve =
     (let c = zero_subst curve
      in if steps = [] \<or> length c \<noteq> length steps then None
         else if t \<le> hd steps then Some (hd c)
         else if t \<ge> last steps then Some (last c)
         else bracket_spec t (zip steps c))"

text \<open>
  The same with the one difference the code makes: inside a bracket, an upper value of
  zero is replaced by the lower value, so the curve is held flat instead of falling to zero.
\<close>

fun bracket_held :: "real \<Rightarrow> (real \<times> real) list \<Rightarrow> real option" where
  "bracket_held t ((t1, s1) # (t2, s2) # rest) =
     (if t1 \<le> t \<and> t \<le> t2
      then Some (s1 + ((if s2 \<noteq> 0 then s2 else s1) - s1) * (t - t1) / (t2 - t1))
      else bracket_held t ((t2, s2) # rest))"
| "bracket_held t [p] = None"
| "bracket_held t [] = None"

definition interpolate_held :: "real list \<Rightarrow> real \<Rightarrow> real option list \<Rightarrow> real option" where
  "interpolate_held steps t curve =
     (let c = zero_subst curve
      in if steps = [] \<or> length c \<noteq> length steps then None
         else if t \<le> hd steps then Some (hd c)
         else if t \<ge> last steps then Some (last c)
         else bracket_held t (zip steps c))"

subsection \<open>Auxiliary notions for the statements about the engine\<close>

text \<open>Every table a lookup falls back into has a row.\<close>

definition tables_ok :: "Tables \<Rightarrow> bool" where
  "tables_ok T =
     (TEMA_BOLT_DATA T \<noteq> [] \<and> GASKET_RING_TABLE T \<noteq> [] \<and> GASKET_TYPES T \<noteq> []
      \<and> ASME_BOLT_MATERIALS T \<noteq> [])"

text \<open>
  The auto-derived seating outside diameter, read off a result: the larger of the
  derivation anchored to the provisional bolt circle \<open>max(Method1, Method2)\<close> and the one
  anchored to the shell.
\<close>

definition autoSeatingOD_of :: "FlangeInputs \<Rightarrow> CalculationResults \<Rightarrow> real" where
  "autoSeatingOD_of ci r =
     max (max (bcdMethod1 r) (bcdMethod2 r) - boltHoleSize r - 2 * effectiveC r - 2 * 1.5
            - 2 * outerRingWidth r)
         (insideDia ci + 2 * CalculationResults.shellGapA r + 2 * innerRingWidth r
            + 2 * gasketSeatingWidth ci)"

text \<open>The three bolt-circle candidates by their number.\<close>

definition bcd_candidate :: "CalculationResults \<Rightarrow> nat \<Rightarrow> real" where
  "bcd_candidate r k = (if k = 1 then bcdMethod1 r else if k = 2 then bcdMethod2 r else bcdMethod3 r)"

text \<open>
  Physically valid table data: tensile areas and tabulated allowable stresses are not
  negative.
\<close>

definition nonneg_curve :: "real option list \<Rightarrow> bool" where
  "nonneg_curve curve = (\<forall>s \<in> set curve. case s of None \<Rightarrow> True | Some v \<Rightarrow> 0 \<le> v)"

definition valid_tables :: "Tables \<Rightarrow> bool" where
  "valid_tables T =
     ((\<forall>b \<in> set (TEMA_BOLT_DATA T). 0 \<le> tensileArea b)
      \<and> (\<forall>m \<in> set (ASME_BOLT_MATERIALS T). nonneg_curve (stresses m)))"

text \<open>A number that is \<open>NaN\<close> or a finite number that is not negative.\<close>

definition nonneg_or_nan :: "jsnum \<Rightarrow> bool" where
  "nonneg_or_nan x = (case x of Fin v \<Rightarrow> 0 \<le> v | NaN \<Rightarrow> True | PInf \<Rightarrow> False | NInf \<Rightarrow> False)"

text \<open>
  The invariant of the search over a grid of sizes \<open>S\<close>: nothing is found yet, or the
  best pair is a feasible pair of the grid whose required load is the least load so far.
\<close>

definition search_inv :: "Tables \<Rightarrow> FlangeInputs \<Rightarrow> real set \<Rightarrow> SearchState \<Rightarrow> bool" where
  "search_inv T optimized S st =
     (found st \<longrightarrow>
        (case calculateFullResults T (testInputs optimized (bestSize st) (bestCount st)) of
           None \<Rightarrow> False
         | Some r \<Rightarrow> feasible r \<and> minRequiredLoad st = Fin (req_of r))
        \<and> bestSize st \<in> S \<and> bestCount st \<in> set counts)"

text \<open>
  The manual gasket factors of an input are in effect in a result: each nonzero one is the
  factor the result reports (and the loads \<open>Wm1\<close> and \<open>Wm2\<close> are computed from the
  reported factors).
\<close>

definition factors_in_effect :: "FlangeInputs \<Rightarrow> CalculationResults \<Rightarrow> bool" where
  "factors_in_effect targetInputs r =
     ((manualM targetInputs \<noteq> 0 \<longrightarrow> gasketM r = manualM targetInputs)
      \<and> (manualY targetInputs \<noteq> 0 \<longrightarrow> gasketY r = manualY targetInputs)
      \<and> (manualPassM targetInputs \<noteq> 0 \<longrightarrow> passM r = manualPassM targetInputs)
      \<and> (manualPassY targetInputs \<noteq> 0 \<longrightarrow> passY r = manualPassY targetInputs))"

text \<open>
  Feasibility as the specification words it: the geometric pitch lies within the spacing
  bounds and the available design bolt load is at least the required load
  \<open>max(Wm1, Wm2)\<close>.
\<close>

definition feasible_spec :: "CalculationResults \<Rightarrow> bool" where
  "feasible_spec r =
     (jge (geometricPitch r) (Fin (boltSpacingMin r))
      \<and> jle (geometricPitch r) (Fin (maxBoltSpacing r))
      \<and> jge (totalBoltLoadDesign r) (Fin (max (wm1 r) (wm2 r))))"

section \<open>Basic facts about the number model\<close>

lemma jmin_Fin_Fin [simp]: "jmin (Fin a) (Fin b) = Fin (min a b)"
  by (simp add: jmin_def min_def)

lemma jmax_Fin_Fin [simp]: "jmax (Fin a) (Fin b) = Fin (max a b)"
  by (simp add: jmax_def max_def)

lemma jmin_Fin_PInf [simp]: "jmin (Fin a) PInf = Fin a"
  by (simp add: jmin_def)

lemma jle_trans: "jle a b \<Longrightarrow> jle b c \<Longrightarrow> jle a c"
  by (cases a; cases b; cases c) auto

lemma jlt_imp_jle: "jlt a b \<Longrightarrow> jle a b"
  by (cases a; cases b) auto

section \<open>PCC-1: the selected bolt stress\<close>

text \<open>
  The three-way minimum collapses: \<open>valB\<close> is never below \<open>valA\<close>, so the selected stress
  is the raw stress capped by \<open>sbMax\<close> and by \<open>sfMax\<close> (each only when nonzero).
\<close>

lemma sbSelFinal_eq:
  "sbSelFinal c inputs =
     jmin (jmin (Fin c) (or_Infinity (sbMax inputs))) (or_Infinity (sfMax inputs))"
  by (simp add: sbSelFinal_def valA_def valB_def valC_def or_Infinity_def or_else_def
      min_def max_def)

text \<open>
  Steps 2 to 4 written out: the step value \<open>valC\<close> is the raw stress capped by \<open>sbMax\<close>,
  raised to \<open>sbMin\<close>, and capped by \<open>sfMax\<close>.
\<close>

lemma valC_eq:
  "valC c inputs =
     jmin (jmax (jmin (Fin c) (or_Infinity (sbMax inputs))) (Fin (or_else (sbMin inputs) 0)))
          (or_Infinity (sfMax inputs))"
  by (simp add: valC_def valB_def valA_def)

text \<open>
  The selected stress is not the step value \<open>valC\<close> in general: a raw stress below
  \<open>sbMin\<close> is raised to \<open>sbMin\<close> in \<open>valB\<close> and \<open>valC\<close>, and the final minimum, which takes
  \<open>valA\<close> in again, brings it back down.  So \<open>sbMin\<close> has no effect on the selected
  stress, although the PCC-1 tab labels step 3 as \<open>max[.., Sbmin]\<close> and step 4 as the
  minimum of the step 3 result and \<open>Sfmax\<close>.
\<close>

lemma sbSelFinal_below_valC:
  "valC 10 (example_inputs\<lparr>sbMin := 100, sbMax := 200\<rparr>) = Fin 100
   \<and> sbSelFinal 10 (example_inputs\<lparr>sbMin := 100, sbMax := 200\<rparr>) = Fin 10"
  by (simp add: sbSelFinal_def valA_def valB_def valC_def or_Infinity_def or_else_def
      example_inputs_def)

lemma sbSelFinal_ignores_sbMin:
  "sbSelFinal c (inputs\<lparr>sbMin := x\<rparr>) = sbSelFinal c inputs"
  by (simp add: sbSelFinal_eq)

text \<open>Where the lower clamp does not act, the final minimum is the step value.\<close>

lemma sbSelFinal_is_valC:
  assumes "valB c inputs = valA c inputs"
  shows "sbSelFinal c inputs = valC c inputs"
  using assms
  by (auto simp: sbSelFinal_def valC_def valA_def or_Infinity_def jmin_def split: if_splits)

text \<open>
  Claim C1, as stated, fails: with the PCC-1 check enabled, \<open>sbMin = 100\<close>, \<open>sbMax = 200\<close>
  and a flange limit \<open>sfMax = 50\<close> below \<open>sbMin\<close>, the raw stress \<open>150\<close> is selected as
  \<open>50\<close>, which is below \<open>sbMin\<close>.
\<close>

theorem C1_counterexample:
  "usePcc1Check (example_inputs\<lparr>usePcc1Check := True, sbMin := 100, sbMax := 200, sfMax := 50\<rparr>)
   \<and> sbMin (example_inputs\<lparr>usePcc1Check := True, sbMin := 100, sbMax := 200, sfMax := 50\<rparr>) \<noteq> 0
   \<and> sbMax (example_inputs\<lparr>usePcc1Check := True, sbMin := 100, sbMax := 200, sfMax := 50\<rparr>) \<noteq> 0
   \<and> sbMin (example_inputs\<lparr>usePcc1Check := True, sbMin := 100, sbMax := 200, sfMax := 50\<rparr>)
        \<le> sbMax (example_inputs\<lparr>usePcc1Check := True, sbMin := 100, sbMax := 200, sfMax := 50\<rparr>)
   \<and> sbSelFinal 150
        (example_inputs\<lparr>usePcc1Check := True, sbMin := 100, sbMax := 200, sfMax := 50\<rparr>) = Fin 50
   \<and> \<not> jle (Fin (sbMin (example_inputs\<lparr>usePcc1Check := True, sbMin := 100, sbMax := 200,
                                         sfMax := 50\<rparr>)))
            (sbSelFinal 150
               (example_inputs\<lparr>usePcc1Check := True, sbMin := 100, sbMax := 200, sfMax := 50\<rparr>))"
  by (simp add: sbSelFinal_def valA_def valB_def valC_def or_Infinity_def or_else_def)

text \<open>
  Claim C1, amended: when \<open>sbMin\<close> and \<open>sbMax\<close> are nonzero and \<open>sbMin \<le> sbMax\<close>, then for
  every raw stress \<open>Sb_calc\<close> the stress selected by steps 2 to 4,
  \<open>C = min(max(min(Sb_calc, sbMax), sbMin), sfMax or +Infinity)\<close>, never exceeds \<open>sbMax\<close>, and it is
  at least \<open>sbMin\<close> whenever the flange limit \<open>sfMax\<close> is zero (no limit) or at least
  \<open>sbMin\<close>; the final \<open>Sb_sel = min(A, B, C)\<close> never exceeds \<open>C\<close>, and so never exceeds
  \<open>sbMax\<close>.
\<close>

theorem C1_selected_stress_bounds:
  assumes "sbMin inputs \<noteq> 0" and "sbMax inputs \<noteq> 0" and "sbMin inputs \<le> sbMax inputs"
  shows "jle (valC c inputs) (Fin (sbMax inputs))
         \<and> (sfMax inputs = 0 \<or> sbMin inputs \<le> sfMax inputs
              \<longrightarrow> jle (Fin (sbMin inputs)) (valC c inputs))
         \<and> jle (sbSelFinal c inputs) (valC c inputs)
         \<and> jle (sbSelFinal c inputs) (Fin (sbMax inputs))"
  using assms by (auto simp: sbSelFinal_eq valC_eq or_Infinity_def or_else_def)

text \<open>
  With the PCC-1 check enabled, \<open>sbMin = 100\<close>, \<open>sbMax = 200\<close> and \<open>sfMax = 150\<close>: a raw
  stress of \<open>10\<close> is raised to \<open>100\<close> by the lower clamp, and a raw stress of \<open>250\<close> is
  capped to \<open>200\<close> and then to \<open>150\<close> by the flange limit.
\<close>

theorem C1_selected_stress_bounds_witness:
  "usePcc1Check (example_inputs\<lparr>usePcc1Check := True, sbMin := 100, sbMax := 200, sfMax := 150\<rparr>)
   \<and> sbMin (example_inputs\<lparr>usePcc1Check := True, sbMin := 100, sbMax := 200, sfMax := 150\<rparr>) = 100
   \<and> sbMax (example_inputs\<lparr>usePcc1Check := True, sbMin := 100, sbMax := 200, sfMax := 150\<rparr>) = 200
   \<and> sfMax (example_inputs\<lparr>usePcc1Check := True, sbMin := 100, sbMax := 200, sfMax := 150\<rparr>) = 150
   \<and> valC 10 (example_inputs\<lparr>usePcc1Check := True, sbMin := 100, sbMax := 200, sfMax := 150\<rparr>)
       = Fin 100
   \<and> jle (Fin 100)
          (valC 10 (example_inputs\<lparr>usePcc1Check := True, sbMin := 100, sbMax := 200, sfMax := 150\<rparr>))
   \<and> jle (valC 10 (example_inputs\<lparr>usePcc1Check := True, sbMin := 100, sbMax := 200, sfMax := 150\<rparr>))
          (Fin 200)
   \<and> valC 250 (example_inputs\<lparr>usePcc1Check := True, sbMin := 100, sbMax := 200, sfMax := 150\<rparr>)
       = Fin 150
   \<and> sbSelFinal 250
        (example_inputs\<lparr>usePcc1Check := True, sbMin := 100, sbMax := 200, sfMax := 150\<rparr>) = Fin 150
   \<and> jle (Fin 100)
          (valC 250 (example_inputs\<lparr>usePcc1Check := True, sbMin := 100, sbMax := 200, sfMax := 150\<rparr>))
   \<and> jle (sbSelFinal 250
             (example_inputs\<lparr>usePcc1Check := True, sbMin := 100, sbMax := 200, sfMax := 150\<rparr>))
          (Fin 200)"
  using
    C1_selected_stress_bounds
      [of "example_inputs\<lparr>usePcc1Check := True, sbMin := 100, sbMax := 200, sfMax := 150\<rparr>" 10]
    C1_selected_stress_bounds
      [of "example_inputs\<lparr>usePcc1Check := True, sbMin := 100, sbMax := 200, sfMax := 150\<rparr>" 250]
  by (simp add: sbSelFinal_def valA_def valB_def valC_def or_Infinity_def or_else_def)

section \<open>The Stress Interpolator\<close>

lemma cleanCurve_zero_subst: "cleanCurve curve = zero_subst curve"
  by (auto simp: cleanCurve_def zero_subst_def or_else_def split: option.split)

lemma elem_nth: "k < length xs \<Longrightarrow> elem xs (int k) = Fin (xs ! k)"
  by (simp add: elem_def)

lemma elem_nth_Suc: "Suc k < length xs \<Longrightarrow> elem xs (int k + 1) = Fin (xs ! Suc k)"
  using elem_nth [of "Suc k" xs] by (simp add: add.commute)

lemma elem_hd: "xs \<noteq> [] \<Longrightarrow> elem xs 0 = Fin (hd xs)"
  by (cases xs) (simp_all add: elem_def)

lemma elem_last: "xs \<noteq> [] \<Longrightarrow> elem xs (int (length xs) - 1) = Fin (last xs)"
  by (cases xs rule: rev_cases) (simp_all add: elem_def nth_append)

lemma bracket_held_exists:
  "ps \<noteq> [] \<Longrightarrow> fst (hd ps) < t \<Longrightarrow> t < fst (last ps) \<Longrightarrow> bracket_held t ps \<noteq> None"
proof (induction t ps rule: bracket_held.induct)
  case (1 t t1 s1 t2 s2 rest)
  then show ?case by (auto simp: not_le)
qed auto

lemma interpolate_loop_bracket:
  assumes len: "length cc = length steps" and asc: "sorted_wrt (<) steps"
    and n: "Suc n = length steps"
  shows "k \<le> n \<Longrightarrow>
         interpolate_loop steps t cc [k ..< n] =
           (case bracket_held t (drop k (zip steps cc)) of Some v \<Rightarrow> Fin v | None \<Rightarrow> elem cc 0)"
proof (induction "n - k" arbitrary: k)
  case 0
  then have k: "k = n" by simp
  from n len have "drop n (zip steps cc) = [(steps ! n, cc ! n)]"
    by (simp add: Cons_nth_drop_Suc [symmetric])
  with k show ?case by simp
next
  case (Suc d)
  then have k: "Suc k < length steps" and kn: "k < n" using n by simp_all
  then have upt: "[k ..< n] = k # [Suc k ..< n]"
    by (simp add: upt_conv_Cons)
  from k len have dr: "drop k (zip steps cc) =
      (steps ! k, cc ! k) # (steps ! Suc k, cc ! Suc k) # drop (Suc (Suc k)) (zip steps cc)"
    by (simp add: Cons_nth_drop_Suc [symmetric])
  from k len have dr': "drop (Suc k) (zip steps cc) =
      (steps ! Suc k, cc ! Suc k) # drop (Suc (Suc k)) (zip steps cc)"
    by (simp add: Cons_nth_drop_Suc [symmetric])
  from asc k have lt: "steps ! k < steps ! Suc k"
    by (simp add: sorted_wrt_nth_less)
  have IH: "interpolate_loop steps t cc [Suc k ..< n] =
           (case bracket_held t (drop (Suc k) (zip steps cc)) of Some v \<Rightarrow> Fin v | None \<Rightarrow> elem cc 0)"
    using Suc kn by (intro Suc.hyps(1)) auto
  show ?case
    using k len lt
    by (simp add: upt dr IH dr' elem_nth elem_nth_Suc jge_def jsub_def Let_def)
qed

text \<open>
  Claim C4, amended: for every temperature and every curve over strictly ascending
  steps, \<open>interpolateStress\<close> returns the first (zero-substituted) value at or below the
  lowest step, the last value at or above the highest step, and otherwise
  \<open>s1 + (s2 - s1) * (t - t1) / (t2 - t1)\<close> for the first bracketing pair \<open>t1 \<le> t \<le> t2\<close>, where
  \<open>s1\<close> is the zero-substituted value at \<open>t1\<close> and \<open>s2\<close> is the zero-substituted value at \<open>t2\<close>
  unless that is zero, in which case \<open>s2 = s1\<close>.  So interpolation at an exact interior
  step returns that step's value when it is nonzero, and the previous step's value when
  it is zero or null.
\<close>

theorem C4_interpolateStress_held:
  assumes "steps \<noteq> []" and "length curve = length steps" and "sorted_wrt (<) steps"
  shows "map_option Fin (interpolate_held steps t curve) = Some (interpolateStress steps t curve)"
proof -
  let ?c = "zero_subst curve"
  have len: "length ?c = length steps" using assms by (simp add: zero_subst_def)
  then have cne: "?c \<noteq> []" using assms by auto
  have e0: "elem steps 0 = Fin (hd steps)" "elem ?c 0 = Fin (hd ?c)"
    using assms cne by (simp_all add: elem_hd)
  have e1: "elem steps (int (length steps) - 1) = Fin (last steps)"
    "elem ?c (int (length steps) - 1) = Fin (last ?c)"
    using assms(1) cne elem_last [of steps] elem_last [of ?c] by (simp_all add: len)
  obtain n where n: "Suc n = length steps" using assms(1) by (cases steps) auto
  then have n': "length steps - Suc 0 = n" by simp
  show ?thesis
  proof (cases "t \<le> hd steps \<or> last steps \<le> t")
    case True
    then show ?thesis
      using len assms(1)
      by (auto simp: interpolate_held_def interpolateStress_def cleanCurve_zero_subst Let_def
          e0 e1 jge_def)
  next
    case False
    then have lo: "hd steps < t" and hi: "t < last steps" by auto
    have zne: "zip steps ?c \<noteq> []" using assms cne by (cases steps; cases ?c) auto
    have "fst (hd (zip steps ?c)) = hd steps" using assms cne by (cases steps; cases ?c) auto
    moreover have "fst (last (zip steps ?c)) = last steps"
      using len assms(1) cne by (simp add: last_zip)
    ultimately have ex: "bracket_held t (zip steps ?c) \<noteq> None"
      using bracket_held_exists [OF zne] lo hi by simp
    have "interpolate_loop steps t ?c [0 ..< n] =
          (case bracket_held t (drop 0 (zip steps ?c)) of Some v \<Rightarrow> Fin v | None \<Rightarrow> elem ?c 0)"
      by (rule interpolate_loop_bracket [OF len assms(3) n]) simp
    with ex lo hi show ?thesis
      using len assms(1)
      by (auto simp: interpolate_held_def interpolateStress_def cleanCurve_zero_subst Let_def
          e0 e1 jge_def n')
  qed
qed

text \<open>
  Claim C4, as stated, fails: over the steps \<open>0, 100, 200\<close> with the curve
  \<open>10, null, null\<close>, at the exact step \<open>100\<close> the reference gives that step's value \<open>0\<close>,
  and the code gives \<open>10\<close>.
\<close>

theorem C4_counterexample:
  "interpolate_spec [0, 100, 200] 100 [Some 10, None, None] = Some 0
   \<and> interpolateStress [0, 100, 200] 100 [Some 10, None, None] = Fin 10
   \<and> map_option Fin (interpolate_spec [0, 100, 200] 100 [Some 10, None, None])
        \<noteq> Some (interpolateStress [0, 100, 200] 100 [Some 10, None, None])"
  by (simp add: interpolate_spec_def zero_subst_def interpolateStress_def cleanCurve_def
      or_else_def elem_def jge_def jsub_def Let_def upt_rec)

theorem C4_interpolateStress_held_witness:
  "[0, 100, 200 :: real] \<noteq> [] \<and> length [Some 10, None, None :: real option] = length [0, 100, 200 :: real]
   \<and> sorted_wrt (<) [0, 100, 200 :: real]
   \<and> interpolateStress [0, 100, 200] 50 [Some 10, None, None] = Fin 10
   \<and> interpolate_held [0, 100, 200] 50 [Some 10, None, None] = Some 10"
  using C4_interpolateStress_held [of "[0, 100, 200]" "[Some 10, None, None]" 50]
  by (simp add: interpolate_held_def zero_subst_def)

section \<open>The engine, stage by stage\<close>

lemma calculateFullResults_staged:
  "calculateFullResults T ci = do {
     irw \<leftarrow> innerRingWidth_of T ci;
     orw \<leftarrow> outerRingWidth_of T ci;
     bd \<leftarrow> lookup_boltData T ci;
     gM \<leftarrow> gasketM_of T ci;
     gY \<leftarrow> gasketY_of T ci;
     pM \<leftarrow> passM_of T ci;
     pY \<leftarrow> passY_of T ci;
     mat \<leftarrow> lookup_mat T ci;
     Some (results_from T ci irw orw bd gM gY pM pY mat) }"
  unfolding calculateFullResults_def results_from_def innerRingWidth_of_def outerRingWidth_of_def
    lookup_boltData_def gasketM_of_def gasketY_of_def passM_of_def passY_of_def lookup_mat_def
    lookup_ringConfig_def lookup_gType_def lookup_passGType_def Let_def
  by (rule refl)

lemma calculateFullResults_SomeD:
  assumes "calculateFullResults T ci = Some r"
  shows "\<exists>irw orw bd gM gY pM pY mat.
           innerRingWidth_of T ci = Some irw \<and> outerRingWidth_of T ci = Some orw
           \<and> lookup_boltData T ci = Some bd
           \<and> gasketM_of T ci = Some gM \<and> gasketY_of T ci = Some gY
           \<and> passM_of T ci = Some pM \<and> passY_of T ci = Some pY
           \<and> lookup_mat T ci = Some mat
           \<and> r = results_from T ci irw orw bd gM gY pM pY mat"
  using assms unfolding calculateFullResults_staged
  by (auto simp: Option.bind_eq_Some_conv)

lemma calculateFullResults_SomeI:
  assumes "innerRingWidth_of T ci = Some irw" and "outerRingWidth_of T ci = Some orw"
    and "lookup_boltData T ci = Some bd"
    and "gasketM_of T ci = Some gM" and "gasketY_of T ci = Some gY"
    and "passM_of T ci = Some pM" and "passY_of T ci = Some pY"
    and "lookup_mat T ci = Some mat"
  shows "calculateFullResults T ci = Some (results_from T ci irw orw bd gM gY pM pY mat)"
  using assms unfolding calculateFullResults_staged by simp

subsection \<open>Totality on non-empty tables\<close>

lemma find_in_set: "find P xs = Some x \<Longrightarrow> x \<in> set xs"
  by (auto simp: find_Some_iff)

lemma lookup_boltData_total:
  "TEMA_BOLT_DATA T \<noteq> [] \<Longrightarrow> \<exists>bd. lookup_boltData T ci = Some bd"
  by (cases "TEMA_BOLT_DATA T")
     (auto simp: lookup_boltData_def or_undef_def first_opt_def split: option.split)

lemma lookup_boltData_in_set:
  "lookup_boltData T ci = Some bd \<Longrightarrow> bd \<in> set (TEMA_BOLT_DATA T)"
  by (cases "TEMA_BOLT_DATA T")
     (auto simp: lookup_boltData_def or_undef_def first_opt_def find_Some_iff
           split: option.splits if_splits)

lemma lookup_mat_total:
  "ASME_BOLT_MATERIALS T \<noteq> [] \<Longrightarrow> \<exists>mat. lookup_mat T ci = Some mat"
  by (cases "ASME_BOLT_MATERIALS T")
     (auto simp: lookup_mat_def or_undef_def first_opt_def split: option.split)

lemma lookup_mat_in_set:
  "lookup_mat T ci = Some mat \<Longrightarrow> mat \<in> set (ASME_BOLT_MATERIALS T)"
  by (cases "ASME_BOLT_MATERIALS T")
     (auto simp: lookup_mat_def or_undef_def first_opt_def find_Some_iff
           split: option.splits if_splits)

lemma lookup_ringConfig_total:
  "GASKET_RING_TABLE T \<noteq> [] \<Longrightarrow> \<exists>rc. lookup_ringConfig T ci = Some rc"
  by (auto simp: lookup_ringConfig_def or_undef_def last_opt_def split: option.split)

lemma lookup_gType_total:
  "GASKET_TYPES T \<noteq> [] \<Longrightarrow> \<exists>gt. lookup_gType T ci = Some gt"
  by (cases "GASKET_TYPES T")
     (auto simp: lookup_gType_def or_undef_def first_opt_def split: option.split)

lemma lookup_passGType_total:
  "GASKET_TYPES T \<noteq> [] \<Longrightarrow> \<exists>gt. lookup_passGType T ci = Some gt"
  using lookup_gType_total [of T ci]
  by (auto simp: lookup_passGType_def or_undef_def split: option.split)

lemma calculateFullResults_total:
  assumes "tables_ok T"
  shows "\<exists>r. calculateFullResults T ci = Some r"
proof -
  from assms obtain bd mat rc gt pgt where
    "lookup_boltData T ci = Some bd" "lookup_mat T ci = Some mat"
    "lookup_ringConfig T ci = Some rc" "lookup_gType T ci = Some gt"
    "lookup_passGType T ci = Some pgt"
    unfolding tables_ok_def
    using lookup_boltData_total [of T ci] lookup_mat_total [of T ci]
      lookup_ringConfig_total [of T ci] lookup_gType_total [of T ci]
      lookup_passGType_total [of T ci]
    by auto
  then show ?thesis
    unfolding calculateFullResults_staged
    by (simp add: innerRingWidth_of_def outerRingWidth_of_def gasketM_of_def gasketY_of_def
        passM_of_def passY_of_def)
qed

subsection \<open>The fields of the result\<close>

lemma rf_innerRingWidth:
  "innerRingWidth (results_from T ci irw orw bd gM gY pM pY mat) = irw"
  by (simp only: results_from_def Let_def CalculationResults.simps)

lemma rf_outerRingWidth:
  "outerRingWidth (results_from T ci irw orw bd gM gY pM pY mat) = orw"
  by (simp only: results_from_def Let_def CalculationResults.simps)

lemma rf_boltHoleSize:
  "boltHoleSize (results_from T ci irw orw bd gM gY pM pY mat) = ceil (holeSize bd)"
  by (simp only: results_from_def Let_def CalculationResults.simps)

lemma rf_effectiveC:
  "effectiveC (results_from T ci irw orw bd gM gY pM pY mat) = or_else (cClearance ci) 2.5"
  by (simp only: results_from_def Let_def CalculationResults.simps)

lemma rf_shellGapA:
  "CalculationResults.shellGapA (results_from T ci irw orw bd gM gY pM pY mat) = (case shellGapA ci of Some a \<Rightarrow> a | None \<Rightarrow> 3.0)"
  by (simp only: results_from_def Let_def CalculationResults.simps)

lemma rf_seatingOD:
  "seatingOD (results_from T ci irw orw bd gM gY pM pY mat) = (if manualSeatingOD ci \<noteq> 0 then manualSeatingOD ci else autoSeatingOD_of ci (results_from T ci irw orw bd gM gY pM pY mat))"
  by (simp only: results_from_def Let_def CalculationResults.simps autoSeatingOD_of_def)

lemma rf_seatingID:
  "seatingID (results_from T ci irw orw bd gM gY pM pY mat) = (if manualSeatingID ci \<noteq> 0 then manualSeatingID ci else autoSeatingOD_of ci (results_from T ci irw orw bd gM gY pM pY mat) - 2 * gasketSeatingWidth ci)"
  by (simp only: results_from_def Let_def CalculationResults.simps autoSeatingOD_of_def)

lemma rf_gasketOD:
  "gasketOD (results_from T ci irw orw bd gM gY pM pY mat) = seatingOD (results_from T ci irw orw bd gM gY pM pY mat) + (if hasOuterRing ci then 2 * outerRingWidth (results_from T ci irw orw bd gM gY pM pY mat) else 0)"
  by (simp only: results_from_def Let_def CalculationResults.simps)

lemma rf_gasketID:
  "gasketID (results_from T ci irw orw bd gM gY pM pY mat) = seatingID (results_from T ci irw orw bd gM gY pM pY mat) - (if hasInnerRing ci then 2 * innerRingWidth (results_from T ci irw orw bd gM gY pM pY mat) else 0)"
  by (simp only: results_from_def Let_def CalculationResults.simps)

lemma rf_bcdMethod3:
  "bcdMethod3 (results_from T ci irw orw bd gM gY pM pY mat) = gasketOD (results_from T ci irw orw bd gM gY pM pY mat) + 2 * 1.5 + 2 * effectiveC (results_from T ci irw orw bd gM gY pM pY mat) + boltHoleSize (results_from T ci irw orw bd gM gY pM pY mat)"
  by (simp only: results_from_def Let_def CalculationResults.simps)

lemma rf_bcdTema:
  "bcdTema (results_from T ci irw orw bd gM gY pM pY mat) = max (max (bcdMethod1 (results_from T ci irw orw bd gM gY pM pY mat)) (bcdMethod2 (results_from T ci irw orw bd gM gY pM pY mat))) (bcdMethod3 (results_from T ci irw orw bd gM gY pM pY mat))"
  by (simp only: results_from_def Let_def CalculationResults.simps)

lemma rf_selectedBcdSource:
  "selectedBcdSource (results_from T ci irw orw bd gM gY pM pY mat) = (if bcdTema (results_from T ci irw orw bd gM gY pM pY mat) = bcdMethod1 (results_from T ci irw orw bd gM gY pM pY mat) then 1 else if bcdTema (results_from T ci irw orw bd gM gY pM pY mat) = bcdMethod2 (results_from T ci irw orw bd gM gY pM pY mat) then 2 else 3)"
  by (simp only: results_from_def Let_def CalculationResults.simps)

lemma rf_finalBCD:
  "finalBCD (results_from T ci irw orw bd gM gY pM pY mat) = (if actualBCD ci \<noteq> 0 then actualBCD ci else bcdTema (results_from T ci irw orw bd gM gY pM pY mat))"
  by (simp only: results_from_def Let_def CalculationResults.simps)

lemma rf_odTema:
  "odTema (results_from T ci irw orw bd gM gY pM pY mat) = ceil (finalBCD (results_from T ci irw orw bd gM gY pM pY mat) + 2 * edgeDistance (results_from T ci irw orw bd gM gY pM pY mat))"
  by (simp only: results_from_def Let_def CalculationResults.simps)

lemma rf_finalOD:
  "finalOD (results_from T ci irw orw bd gM gY pM pY mat) = (if actualOD ci \<noteq> 0 then actualOD ci else odTema (results_from T ci irw orw bd gM gY pM pY mat))"
  by (simp only: results_from_def Let_def CalculationResults.simps)

lemma rf_gasketM:
  "gasketM (results_from T ci irw orw bd gM gY pM pY mat) = gM"
  by (simp only: results_from_def Let_def CalculationResults.simps)

lemma rf_gasketY:
  "gasketY (results_from T ci irw orw bd gM gY pM pY mat) = gY"
  by (simp only: results_from_def Let_def CalculationResults.simps)

lemma rf_passM:
  "passM (results_from T ci irw orw bd gM gY pM pY mat) = pM"
  by (simp only: results_from_def Let_def CalculationResults.simps)

lemma rf_passY:
  "passY (results_from T ci irw orw bd gM gY pM pY mat) = pY"
  by (simp only: results_from_def Let_def CalculationResults.simps)

lemma rf_bcdMethod1:
  "bcdMethod1 (results_from T ci irw orw bd gM gY pM pY mat) = ceil (boltSpacingMin (results_from T ci irw orw bd gM gY pM pY mat) * boltCount ci / pi)"
  by (simp only: results_from_def Let_def CalculationResults.simps)

lemma rf_boltSpacingMin:
  "boltSpacingMin (results_from T ci irw orw bd gM gY pM pY mat) = (if useHydraulicTensioning ci \<and> find (\<lambda>t. size_ten t = boltSize ci) (HYDRAULIC_TENSIONING_DATA T) \<noteq> None then max (B_min bd) (B_ten (the (find (\<lambda>t. size_ten t = boltSize ci) (HYDRAULIC_TENSIONING_DATA T)))) else B_min bd) * 25.4"
  by (simp only: results_from_def Let_def CalculationResults.simps)

lemma rf_radialDistance:
  "radialDistance (results_from T ci irw orw bd gM gY pM pY mat) = R_bolt bd * 25.4"
  by (simp only: results_from_def Let_def CalculationResults.simps)

lemma rf_edgeDistance:
  "edgeDistance (results_from T ci irw orw bd gM gY pM pY mat) = E_bolt bd * 25.4"
  by (simp only: results_from_def Let_def CalculationResults.simps)

lemma rf_bcdMethod2:
  "bcdMethod2 (results_from T ci irw orw bd gM gY pM pY mat) = ceil (insideDia ci + 2 * g1 ci + 2 * radialDistance (results_from T ci irw orw bd gM gY pM pY mat))"
  by (simp only: results_from_def Let_def CalculationResults.simps)

lemma rf_geometricPitch:
  "geometricPitch (results_from T ci irw orw bd gM gY pM pY mat) = jdiv (Fin (pi * finalBCD (results_from T ci irw orw bd gM gY pM pY mat))) (Fin (boltCount ci))"
  by (simp only: results_from_def Let_def CalculationResults.simps)

lemma rf_spacingOk:
  "spacingOk (results_from T ci irw orw bd gM gY pM pY mat) = (jge (geometricPitch (results_from T ci irw orw bd gM gY pM pY mat)) (Fin (boltSpacingMin (results_from T ci irw orw bd gM gY pM pY mat))) \<and> jle (geometricPitch (results_from T ci irw orw bd gM gY pM pY mat)) (Fin (maxBoltSpacing (results_from T ci irw orw bd gM gY pM pY mat))))"
  by (simp only: results_from_def Let_def CalculationResults.simps)

lemma rf_maxBoltSpacing:
  "maxBoltSpacing (results_from T ci irw orw bd gM gY pM pY mat) = (case WHC_MAX_PITCH_TABLE T (boltSize ci) of Some v \<Rightarrow> or_else v (2.5 * (boltSize ci * 25.4) + 12) | None \<Rightarrow> 2.5 * (boltSize ci * 25.4) + 12)"
  by (simp only: results_from_def Let_def CalculationResults.simps)

lemma rf_singleBoltArea:
  "singleBoltArea (results_from T ci irw orw bd gM gY pM pY mat) = tensileArea bd"
  by (simp only: results_from_def Let_def CalculationResults.simps)

lemma rf_totalBoltArea:
  "totalBoltArea (results_from T ci irw orw bd gM gY pM pY mat) = tensileArea bd * boltCount ci"
  by (simp only: results_from_def Let_def CalculationResults.simps)

lemma rf_ambientAllowableStress:
  "ambientAllowableStress (results_from T ci irw orw bd gM gY pM pY mat) = ambient_entry (stresses mat)"
  by (simp only: results_from_def Let_def CalculationResults.simps)

lemma rf_designAllowableStress:
  "designAllowableStress (results_from T ci irw orw bd gM gY pM pY mat) = interpolateStress (BOLT_TEMP_STEPS T) (toCelsius (designTemp ci) (tempUnit ci)) (stresses mat)"
  by (simp only: results_from_def Let_def CalculationResults.simps)

lemma rf_totalBoltLoadDesign:
  "totalBoltLoadDesign (results_from T ci irw orw bd gM gY pM pY mat) = jmul (Fin (totalBoltArea (results_from T ci irw orw bd gM gY pM pY mat))) (designAllowableStress (results_from T ci irw orw bd gM gY pM pY mat))"
  by (simp only: results_from_def Let_def CalculationResults.simps)

lemma rf_requiredBoltArea:
  "requiredBoltArea (results_from T ci irw orw bd gM gY pM pY mat) = jmax (jdiv (Fin (wm1 (results_from T ci irw orw bd gM gY pM pY mat))) (designAllowableStress (results_from T ci irw orw bd gM gY pM pY mat))) (jdiv (Fin (wm2 (results_from T ci irw orw bd gM gY pM pY mat))) (Fin (ambientAllowableStress (results_from T ci irw orw bd gM gY pM pY mat))))"
  by (simp only: results_from_def Let_def CalculationResults.simps)

lemma rf_nWidth:
  "nWidth (results_from T ci irw orw bd gM gY pM pY mat) = gasketSeatingWidth ci"
  by (simp only: results_from_def Let_def CalculationResults.simps)

lemma rf_b0Width:
  "b0Width (results_from T ci irw orw bd gM gY pM pY mat) = (if startsWith (facingSketch ci) ''1a'' \<or> startsWith (facingSketch ci) ''1b'' then nWidth (results_from T ci irw orw bd gM gY pM pY mat) / 2 else if startsWith (facingSketch ci) ''1c'' \<or> startsWith (facingSketch ci) ''1d'' then nWidth (results_from T ci irw orw bd gM gY pM pY mat) / 4 else if startsWith (facingSketch ci) ''2'' then nWidth (results_from T ci irw orw bd gM gY pM pY mat) / 8 else nWidth (results_from T ci irw orw bd gM gY pM pY mat) / 2)"
  by (simp only: results_from_def Let_def CalculationResults.simps)

lemma rf_bWidth:
  "bWidth (results_from T ci irw orw bd gM gY pM pY mat) = (if b0Width (results_from T ci irw orw bd gM gY pM pY mat) > 6 then 0.5 * 25.4 * sqrt (b0Width (results_from T ci irw orw bd gM gY pM pY mat) / 25.4) else b0Width (results_from T ci irw orw bd gM gY pM pY mat))"
  by (simp only: results_from_def Let_def CalculationResults.simps)

lemma rf_gMeanDia:
  "gMeanDia (results_from T ci irw orw bd gM gY pM pY mat) = (if b0Width (results_from T ci irw orw bd gM gY pM pY mat) > 6 then seatingOD (results_from T ci irw orw bd gM gY pM pY mat) - 2 * bWidth (results_from T ci irw orw bd gM gY pM pY mat) else (seatingID (results_from T ci irw orw bd gM gY pM pY mat) + seatingOD (results_from T ci irw orw bd gM gY pM pY mat)) / 2)"
  by (simp only: results_from_def Let_def CalculationResults.simps)

lemma rf_hForce:
  "hForce (results_from T ci irw orw bd gM gY pM pY mat) = 0.785 * gMeanDia (results_from T ci irw orw bd gM gY pM pY mat) ^ 2 * toMpa (designPressure ci) (pressureUnit ci)"
  by (simp only: results_from_def Let_def CalculationResults.simps)

lemma rf_hpForce:
  "hpForce (results_from T ci irw orw bd gM gY pM pY mat) = 2 * toMpa (designPressure ci) (pressureUnit ci) * (bWidth (results_from T ci irw orw bd gM gY pM pY mat) * pi * gMeanDia (results_from T ci irw orw bd gM gY pM pY mat) * gasketM (results_from T ci irw orw bd gM gY pM pY mat) + passPartitionWidth ci * passPartitionLength ci * passM (results_from T ci irw orw bd gM gY pM pY mat))"
  by (simp only: results_from_def Let_def CalculationResults.simps)

lemma rf_wm1:
  "wm1 (results_from T ci irw orw bd gM gY pM pY mat) = hForce (results_from T ci irw orw bd gM gY pM pY mat) + hpForce (results_from T ci irw orw bd gM gY pM pY mat)"
  by (simp only: results_from_def Let_def CalculationResults.simps)

lemma rf_wm2:
  "wm2 (results_from T ci irw orw bd gM gY pM pY mat) = pi * bWidth (results_from T ci irw orw bd gM gY pM pY mat) * gMeanDia (results_from T ci irw orw bd gM gY pM pY mat) * (gasketY (results_from T ci irw orw bd gM gY pM pY mat) * 0.00689476) + passPartitionWidth ci * passPartitionLength ci * (passY (results_from T ci irw orw bd gM gY pM pY mat) * 0.00689476)"
  by (simp only: results_from_def Let_def CalculationResults.simps)

section \<open>Bolt-circle diameter and override precedence\<close>

lemma Max_three: "Max {a, b, c :: real} = max (max a b) c"
  by (simp add: max.commute max.left_commute)

text \<open>
  Claim C5: the two-pass rule.  The seating diameter is the manual one when given and
  otherwise derived from the provisional bolt circle \<open>max(Method1, Method2)\<close>
  (\<open>autoSeatingOD_of\<close>); the gasket outside diameter adds the outer ring; Method 3 is the
  gasket outside diameter plus twice the 1.5 mm boss constant, twice the clearance (the
  engine's effective clearance: the input clearance, or 2.5 when that is zero) and the
  rounded-up hole diameter; the governing value is the maximum of the three candidates;
  the reported source is the first candidate in the order 1, 2, 3 that equals it; and the
  final value is the manual override when nonzero, else the governing value.
\<close>

theorem C5_two_pass_bcd:
  assumes "calculateFullResults T ci = Some r"
  shows "seatingOD r = (if manualSeatingOD ci \<noteq> 0 then manualSeatingOD ci else autoSeatingOD_of ci r)
       \<and> gasketOD r = seatingOD r + (if hasOuterRing ci then 2 * outerRingWidth r else 0)
       \<and> effectiveC r = (if cClearance ci \<noteq> 0 then cClearance ci else 2.5)
       \<and> Some (boltHoleSize r) = map_option (\<lambda>bd. ceil (holeSize bd)) (lookup_boltData T ci)
       \<and> bcdMethod3 r = gasketOD r + 2 * 1.5 + 2 * effectiveC r + boltHoleSize r
       \<and> bcdTema r = Max {bcdMethod1 r, bcdMethod2 r, bcdMethod3 r}
       \<and> selectedBcdSource r \<in> {1, 2, 3}
       \<and> bcd_candidate r (selectedBcdSource r) = bcdTema r
       \<and> (\<forall>k \<in> {1 ..< selectedBcdSource r}. bcd_candidate r k \<noteq> bcdTema r)
       \<and> finalBCD r = (if actualBCD ci \<noteq> 0 then actualBCD ci else bcdTema r)"
proof -
  from calculateFullResults_SomeD [OF assms] obtain irw orw bd gM gY pM pY mat where
    bd: "lookup_boltData T ci = Some bd"
    and r: "r = results_from T ci irw orw bd gM gY pM pY mat"
    by blast
  have tema: "bcdTema r = max (max (bcdMethod1 r) (bcdMethod2 r)) (bcdMethod3 r)"
    unfolding r by (rule rf_bcdTema)
  have src: "selectedBcdSource r =
      (if bcdTema r = bcdMethod1 r then 1 else if bcdTema r = bcdMethod2 r then 2 else 3)"
    unfolding r by (rule rf_selectedBcdSource)
  have "seatingOD r = (if manualSeatingOD ci \<noteq> 0 then manualSeatingOD ci else autoSeatingOD_of ci r)"
    unfolding r by (rule rf_seatingOD)
  moreover have "gasketOD r = seatingOD r + (if hasOuterRing ci then 2 * outerRingWidth r else 0)"
    unfolding r by (rule rf_gasketOD)
  moreover have "effectiveC r = (if cClearance ci \<noteq> 0 then cClearance ci else 2.5)"
    unfolding r by (simp add: rf_effectiveC or_else_def)
  moreover have "Some (boltHoleSize r) = map_option (\<lambda>bd. ceil (holeSize bd)) (lookup_boltData T ci)"
    unfolding r by (simp add: rf_boltHoleSize bd)
  moreover have "bcdMethod3 r = gasketOD r + 2 * 1.5 + 2 * effectiveC r + boltHoleSize r"
    unfolding r by (rule rf_bcdMethod3)
  moreover have "bcdTema r = Max {bcdMethod1 r, bcdMethod2 r, bcdMethod3 r}"
    by (simp only: tema Max_three)
  moreover have "selectedBcdSource r \<in> {1, 2, 3}"
    by (simp add: src)
  moreover have "bcd_candidate r (selectedBcdSource r) = bcdTema r"
    using tema by (auto simp: src bcd_candidate_def max_def split: if_splits)
  moreover have "\<forall>k \<in> {1 ..< selectedBcdSource r}. bcd_candidate r k \<noteq> bcdTema r"
  proof
    fix k assume "k \<in> {1 ..< selectedBcdSource r}"
    then have "k = 1 \<and> bcdTema r \<noteq> bcdMethod1 r
               \<or> k = 2 \<and> bcdTema r \<noteq> bcdMethod1 r \<and> bcdTema r \<noteq> bcdMethod2 r"
      by (auto simp: src split: if_splits)
    then show "bcd_candidate r k \<noteq> bcdTema r"
      by (auto simp: bcd_candidate_def)
  qed
  moreover have "finalBCD r = (if actualBCD ci \<noteq> 0 then actualBCD ci else bcdTema r)"
    unfolding r by (rule rf_finalBCD)
  ultimately show ?thesis by blast
qed

text \<open>
  Claim C8, amended: a nonzero manual value of the bolt circle, the flange outside
  diameter, the seating diameters and the four gasket factors is the result's value, and
  a zero one leaves the auto-derived value; a manual ring width does the same only while
  the ring is present: when the ring's presence flag is off, the ring width of the result
  is zero whatever the manual width is.
\<close>

theorem C8_override_precedence:
  assumes "calculateFullResults T ci = Some r"
  shows "finalBCD r = (if actualBCD ci \<noteq> 0 then actualBCD ci else bcdTema r)
       \<and> finalOD r = (if actualOD ci \<noteq> 0 then actualOD ci else odTema r)
       \<and> seatingID r = (if manualSeatingID ci \<noteq> 0 then manualSeatingID ci
                         else autoSeatingOD_of ci r - 2 * gasketSeatingWidth ci)
       \<and> seatingOD r = (if manualSeatingOD ci \<noteq> 0 then manualSeatingOD ci
                         else autoSeatingOD_of ci r)
       \<and> Some (gasketM r) = (if manualM ci \<noteq> 0 then Some (manualM ci)
                              else map_option m_gasket (lookup_gType T ci))
       \<and> Some (gasketY r) = (if manualY ci \<noteq> 0 then Some (manualY ci)
                              else map_option y_gasket (lookup_gType T ci))
       \<and> Some (passM r) = (if manualPassM ci \<noteq> 0 then Some (manualPassM ci)
                            else map_option m_gasket (lookup_passGType T ci))
       \<and> Some (passY r) = (if manualPassY ci \<noteq> 0 then Some (manualPassY ci)
                            else map_option y_gasket (lookup_passGType T ci))
       \<and> Some (innerRingWidth r) =
            (if hasInnerRing ci
             then (if innerRingWidthManual ci \<noteq> 0 then Some (innerRingWidthManual ci)
                   else map_option irMin (lookup_ringConfig T ci))
             else Some 0)
       \<and> Some (outerRingWidth r) =
            (if hasOuterRing ci
             then (if outerRingWidthManual ci \<noteq> 0 then Some (outerRingWidthManual ci)
                   else map_option orMin (lookup_ringConfig T ci))
             else Some 0)"
proof -
  from calculateFullResults_SomeD [OF assms] obtain irw orw bd gM gY pM pY mat where
    l: "innerRingWidth_of T ci = Some irw" "outerRingWidth_of T ci = Some orw"
       "gasketM_of T ci = Some gM" "gasketY_of T ci = Some gY"
       "passM_of T ci = Some pM" "passY_of T ci = Some pY"
    and r: "r = results_from T ci irw orw bd gM gY pM pY mat"
    by blast
  have "finalBCD r = (if actualBCD ci \<noteq> 0 then actualBCD ci else bcdTema r)"
    unfolding r by (rule rf_finalBCD)
  moreover have "finalOD r = (if actualOD ci \<noteq> 0 then actualOD ci else odTema r)"
    unfolding r by (rule rf_finalOD)
  moreover have "seatingID r = (if manualSeatingID ci \<noteq> 0 then manualSeatingID ci
                         else autoSeatingOD_of ci r - 2 * gasketSeatingWidth ci)"
    unfolding r by (rule rf_seatingID)
  moreover have "seatingOD r = (if manualSeatingOD ci \<noteq> 0 then manualSeatingOD ci
                         else autoSeatingOD_of ci r)"
    unfolding r by (rule rf_seatingOD)
  moreover have "Some (gasketM r) = (if manualM ci \<noteq> 0 then Some (manualM ci)
                              else map_option m_gasket (lookup_gType T ci))"
    using l(3) unfolding r rf_gasketM gasketM_of_def by simp
  moreover have "Some (gasketY r) = (if manualY ci \<noteq> 0 then Some (manualY ci)
                              else map_option y_gasket (lookup_gType T ci))"
    using l(4) unfolding r rf_gasketY gasketY_of_def by simp
  moreover have "Some (passM r) = (if manualPassM ci \<noteq> 0 then Some (manualPassM ci)
                            else map_option m_gasket (lookup_passGType T ci))"
    using l(5) unfolding r rf_passM passM_of_def by simp
  moreover have "Some (passY r) = (if manualPassY ci \<noteq> 0 then Some (manualPassY ci)
                            else map_option y_gasket (lookup_passGType T ci))"
    using l(6) unfolding r rf_passY passY_of_def by simp
  moreover have "Some (innerRingWidth r) =
            (if hasInnerRing ci
             then (if innerRingWidthManual ci \<noteq> 0 then Some (innerRingWidthManual ci)
                   else map_option irMin (lookup_ringConfig T ci))
             else Some 0)"
    using l(1) unfolding r rf_innerRingWidth innerRingWidth_of_def by simp
  moreover have "Some (outerRingWidth r) =
            (if hasOuterRing ci
             then (if outerRingWidthManual ci \<noteq> 0 then Some (outerRingWidthManual ci)
                   else map_option orMin (lookup_ringConfig T ci))
             else Some 0)"
    using l(2) unfolding r rf_outerRingWidth outerRingWidth_of_def by simp
  ultimately show ?thesis by blast
qed

lemma tables_ok_example: "tables_ok example_tables"
  by (simp add: tables_ok_def example_tables_def)

text \<open>
  Claim C8, as stated, fails for the manual ring widths: with the inner ring switched off
  and a manual inner ring width of 7, the result's inner ring width is 0.
\<close>

theorem C8_counterexample:
  "innerRingWidthManual (example_inputs\<lparr>hasInnerRing := False, innerRingWidthManual := 7\<rparr>) \<noteq> 0
   \<and> map_option innerRingWidth
        (calculateFullResults example_tables
           (example_inputs\<lparr>hasInnerRing := False, innerRingWidthManual := 7\<rparr>)) = Some 0"
proof -
  let ?ci = "example_inputs\<lparr>hasInnerRing := False, innerRingWidthManual := 7\<rparr>"
  obtain r where r: "calculateFullResults example_tables ?ci = Some r"
    using calculateFullResults_total [OF tables_ok_example] by blast
  from calculateFullResults_SomeD [OF r] obtain irw orw bd gM gY pM pY mat where
    "innerRingWidth_of example_tables ?ci = Some irw"
    and "r = results_from example_tables ?ci irw orw bd gM gY pM pY mat"
    by blast
  then have "innerRingWidth r = 0"
    by (simp add: rf_innerRingWidth innerRingWidth_of_def)
  with r show ?thesis by simp
qed

theorem C8_override_precedence_witness:
  "calculateFullResults example_tables (example_inputs\<lparr>actualBCD := 400, manualM := 2\<rparr>) \<noteq> None
   \<and> map_option finalBCD
        (calculateFullResults example_tables (example_inputs\<lparr>actualBCD := 400, manualM := 2\<rparr>))
        = Some 400
   \<and> map_option gasketM
        (calculateFullResults example_tables (example_inputs\<lparr>actualBCD := 400, manualM := 2\<rparr>))
        = Some 2"
proof -
  let ?ci = "example_inputs\<lparr>actualBCD := 400, manualM := 2\<rparr>"
  obtain r where r: "calculateFullResults example_tables ?ci = Some r"
    using calculateFullResults_total [OF tables_ok_example] by blast
  note th = C8_override_precedence [OF r]
  from th have "finalBCD r = 400" by simp
  moreover from th have "gasketM r = 2" by simp
  ultimately show ?thesis by (simp add: r)
qed

section \<open>The ring-width lookup\<close>

lemma find_None_all: "(\<forall>x \<in> set xs. \<not> P x) \<Longrightarrow> find P xs = None"
  by (simp add: find_None_iff)

text \<open>
  Claim C10: when the shell inside diameter lies in no range of the ring-width table, the
  engine does not fail (on tables that have rows) and takes the ring widths from the last
  row of the table, and so does the input panel.
\<close>

theorem C10_ring_fallback_last:
  assumes "tables_ok T"
    and "\<forall>row \<in> set (GASKET_RING_TABLE T).
           \<not> (insideDia ci \<ge> min_ring row \<and> insideDia ci \<le> max_ring row)"
  shows "map_option innerRingWidth (calculateFullResults T ci) =
           Some (if hasInnerRing ci
                 then (if innerRingWidthManual ci \<noteq> 0 then innerRingWidthManual ci
                       else irMin (last (GASKET_RING_TABLE T)))
                 else 0)
       \<and> map_option outerRingWidth (calculateFullResults T ci) =
           Some (if hasOuterRing ci
                 then (if outerRingWidthManual ci \<noteq> 0 then outerRingWidthManual ci
                       else orMin (last (GASKET_RING_TABLE T)))
                 else 0)
       \<and> Calculator_ringConfig T ci = Some (last (GASKET_RING_TABLE T))
       \<and> Calculator_currentIR T ci =
           Some (if hasInnerRing ci
                 then (if innerRingWidthManual ci \<noteq> 0 then innerRingWidthManual ci
                       else irMin (last (GASKET_RING_TABLE T)))
                 else 0)"
proof -
  have ne: "GASKET_RING_TABLE T \<noteq> []" using assms(1) by (simp add: tables_ok_def)
  have none: "find (\<lambda>r. insideDia ci \<ge> min_ring r \<and> insideDia ci \<le> max_ring r)
                (GASKET_RING_TABLE T) = None"
    using assms(2) by (intro find_None_all) simp
  have rc: "lookup_ringConfig T ci = Some (last (GASKET_RING_TABLE T))"
    by (simp add: lookup_ringConfig_def none or_undef_def last_opt_def ne)
  have crc: "Calculator_ringConfig T ci = Some (last (GASKET_RING_TABLE T))"
    by (simp add: Calculator_ringConfig_def none or_undef_def last_opt_def ne)
  obtain r where r: "calculateFullResults T ci = Some r"
    using calculateFullResults_total [OF assms(1)] by blast
  from calculateFullResults_SomeD [OF r] obtain irw orw bd gM gY pM pY mat where
    l: "innerRingWidth_of T ci = Some irw" "outerRingWidth_of T ci = Some orw"
    and rr: "r = results_from T ci irw orw bd gM gY pM pY mat"
    by blast
  have "innerRingWidth r = (if hasInnerRing ci
                 then (if innerRingWidthManual ci \<noteq> 0 then innerRingWidthManual ci
                       else irMin (last (GASKET_RING_TABLE T)))
                 else 0)"
    using l(1) by (auto simp: rr rf_innerRingWidth innerRingWidth_of_def rc split: if_splits)
  moreover have "outerRingWidth r = (if hasOuterRing ci
                 then (if outerRingWidthManual ci \<noteq> 0 then outerRingWidthManual ci
                       else orMin (last (GASKET_RING_TABLE T)))
                 else 0)"
    using l(2) by (auto simp: rr rf_outerRingWidth outerRingWidth_of_def rc split: if_splits)
  moreover have "Calculator_currentIR T ci =
           Some (if hasInnerRing ci
                 then (if innerRingWidthManual ci \<noteq> 0 then innerRingWidthManual ci
                       else irMin (last (GASKET_RING_TABLE T)))
                 else 0)"
    by (simp add: Calculator_currentIR_def crc or_else_def)
  ultimately show ?thesis using r crc by simp
qed

theorem C10_ring_fallback_last_witness:
  "tables_ok example_tables
   \<and> map_option innerRingWidth
        (calculateFullResults example_tables (example_inputs\<lparr>insideDia := 100001\<rparr>)) = Some 6
   \<and> map_option outerRingWidth
        (calculateFullResults example_tables (example_inputs\<lparr>insideDia := 100001\<rparr>)) = Some 6
   \<and> Calculator_currentIR example_tables (example_inputs\<lparr>insideDia := 100001\<rparr>) = Some 6"
proof -
  let ?ci = "example_inputs\<lparr>insideDia := 100001\<rparr>"
  have h: "\<forall>row \<in> set (GASKET_RING_TABLE example_tables).
           \<not> (insideDia ?ci \<ge> min_ring row \<and> insideDia ?ci \<le> max_ring row)"
    by (simp add: example_tables_def)
  have l: "irMin (last (GASKET_RING_TABLE example_tables)) = 6"
    "orMin (last (GASKET_RING_TABLE example_tables)) = 6"
    by (simp_all add: example_tables_def)
  have f: "hasInnerRing ?ci" "hasOuterRing ?ci" "innerRingWidthManual ?ci = 0"
    "outerRingWidthManual ?ci = 0"
    by (simp_all add: example_inputs_def)
  note th = C10_ring_fallback_last [OF tables_ok_example h]
  from th have "map_option innerRingWidth (calculateFullResults example_tables ?ci) = Some 6"
    unfolding l by (simp only: f if_True if_False simp_thms)
  moreover from th have "map_option outerRingWidth (calculateFullResults example_tables ?ci) = Some 6"
    unfolding l by (simp only: f if_True if_False simp_thms)
  moreover from th have "Calculator_currentIR example_tables ?ci = Some 6"
    unfolding l by (simp only: f if_True if_False simp_thms)
  ultimately show ?thesis using tables_ok_example by blast
qed

section \<open>Bounds on pi\<close>

lemma pi_ge_3: "3 \<le> pi"
proof -
  have "sin (pi / 6) \<le> pi / 6" by (rule sin_x_le_x) simp
  then show ?thesis by (simp add: sin_30)
qed

lemma arctan_le_self: "0 \<le> x \<Longrightarrow> arctan x \<le> x"
proof -
  assume x: "0 \<le> x"
  have "(\<lambda>y. y - arctan y) 0 \<le> (\<lambda>y. y - arctan y) x"
  proof (rule DERIV_nonneg_imp_nondecreasing [OF x])
    fix y :: real
    have "((\<lambda>y. y - arctan y) has_real_derivative (1 - inverse (1 + y\<^sup>2))) (at y)"
      by (auto intro!: derivative_eq_intros)
    moreover have "0 \<le> 1 - inverse (1 + y\<^sup>2)"
    proof -
      have "1 \<le> 1 + y\<^sup>2" by simp
      then have "inverse (1 + y\<^sup>2) \<le> 1" by (rule inverse_le_1_iff [THEN iffD2, OF disjI2])
      then show ?thesis by simp
    qed
    ultimately show "\<exists>d. ((\<lambda>y. y - arctan y) has_real_derivative d) (at y) \<and> 0 \<le> d"
      by blast
  qed
  then show ?thesis by simp
qed

lemma pi_le_32: "pi \<le> 3.2"
proof -
  have "arctan (1 / 5) \<le> 1 / 5" by (rule arctan_le_self) simp
  moreover have "0 \<le> arctan (1 / 239)" by simp
  moreover have "pi / 4 = 4 * arctan (1 / 5) - arctan (1 / 239)" by (rule machin)
  ultimately show ?thesis by linarith
qed

section \<open>Allowable stress and available load are not negative on valid tables\<close>

lemma nonneg_or_nan_iff: "nonneg_or_nan x \<longleftrightarrow> x = NaN \<or> (\<exists>v. x = Fin v \<and> 0 \<le> v)"
  by (cases x) (simp_all add: nonneg_or_nan_def)

lemma elem_nonneg:
  "\<forall>x \<in> set xs. 0 \<le> x \<Longrightarrow> elem xs i = NaN \<or> (\<exists>v. elem xs i = Fin v \<and> 0 \<le> v)"
  by (auto simp: elem_def)

lemma elem_cases: "elem xs i = NaN \<or> (\<exists>v. elem xs i = Fin v)"
  by (simp add: elem_def)

lemma cleanCurve_nonneg: "nonneg_curve curve \<Longrightarrow> \<forall>x \<in> set (cleanCurve curve). 0 \<le> x"
  by (auto simp: nonneg_curve_def cleanCurve_def or_else_def split: option.splits)

lemma convex_nonneg:
  fixes a b t t1 t2 :: real
  assumes "0 \<le> a" "0 \<le> b" "t1 \<le> t" "t \<le> t2" "t1 < t2"
  shows "0 \<le> a + (b - a) * (t - t1) / (t2 - t1)"
proof -
  define l where "l = (t - t1) / (t2 - t1)"
  have l: "0 \<le> l" "l \<le> 1" using assms by (simp_all add: l_def)
  have "a + (b - a) * l = a * (1 - l) + b * l" by (simp add: algebra_simps)
  moreover have "0 \<le> a * (1 - l) + b * l" using assms l by simp
  ultimately show ?thesis by (simp add: l_def)
qed

lemma interpolate_step_nonneg:
  assumes s1: "s1 = NaN \<or> (\<exists>v. s1 = Fin v \<and> 0 \<le> v)"
    and s2: "s2 = NaN \<or> (\<exists>v. s2 = Fin v \<and> 0 \<le> v)"
    and t: "t1 \<le> t" "t \<le> t2"
  shows "nonneg_or_nan (jadd s1 (jdiv (jmul (jsub s2 s1) (jsub (Fin t) (Fin t1))) (jsub (Fin t2) (Fin t1))))"
proof (cases "t1 < t2")
  case True
  with s1 s2 t show ?thesis
    using convex_nonneg [of _ _ t1 t t2]
    by (auto simp: nonneg_or_nan_iff jsub_def)
next
  case False
  with t have "t1 = t" "t2 = t" by auto
  with s1 s2 show ?thesis
    by (auto simp: nonneg_or_nan_iff jsub_def signed_inf_def)
qed

lemma interpolate_loop_nonneg:
  assumes "\<forall>x \<in> set cc. 0 \<le> x"
  shows "nonneg_or_nan (interpolate_loop steps t cc is)"
proof (induction "is")
  case Nil
  show ?case using elem_nonneg [OF assms, of 0] by (simp add: nonneg_or_nan_iff)
next
  case (Cons i rest)
  show ?case
  proof (cases "jge (Fin t) (elem steps (int i)) \<and> jle (Fin t) (elem steps (int i + 1))")
    case False
    then show ?thesis using Cons by (auto simp: Let_def)
  next
    case True
    then obtain t1 t2 where e: "elem steps (int i) = Fin t1" "elem steps (int i + 1) = Fin t2"
      and t: "t1 \<le> t" "t \<le> t2"
      using elem_cases [of steps "int i"] elem_cases [of steps "int i + 1"]
      by (auto simp: jge_def)
    have s1: "elem cc (int i) = NaN \<or> (\<exists>v. elem cc (int i) = Fin v \<and> 0 \<le> v)"
      by (rule elem_nonneg [OF assms])
    have s2': "elem cc (int i + 1) = NaN \<or> (\<exists>v. elem cc (int i + 1) = Fin v \<and> 0 \<le> v)"
      by (rule elem_nonneg [OF assms])
    let ?s2 = "if truthy (elem cc (int i + 1)) then elem cc (int i + 1) else elem cc (int i)"
    have s2: "?s2 = NaN \<or> (\<exists>v. ?s2 = Fin v \<and> 0 \<le> v)"
      using s1 s2' by auto
    show ?thesis
      using interpolate_step_nonneg [OF s1 s2 t] True
      by (simp add: e Let_def)
  qed
qed

lemma interpolateStress_nonneg:
  assumes "nonneg_curve curve"
  shows "nonneg_or_nan (interpolateStress steps t curve)"
proof -
  have cc: "\<forall>x \<in> set (cleanCurve curve). 0 \<le> x" by (rule cleanCurve_nonneg [OF assms])
  show ?thesis
    using elem_nonneg [OF cc, of 0] elem_nonneg [OF cc, of "int (length (cleanCurve curve)) - 1"]
      interpolate_loop_nonneg [OF cc, of steps t "[0 ..< length steps - 1]"]
    by (auto simp: interpolateStress_def Let_def nonneg_or_nan_iff)
qed

section \<open>The margin test\<close>

lemma margin_ge_0_imp_avail_ge_req:
  assumes "jge (margin_of r) (Fin 0)"
    and "totalBoltLoadDesign r = NaN \<or> (\<exists>a. totalBoltLoadDesign r = Fin a \<and> 0 \<le> a)"
  shows "jge (totalBoltLoadDesign r) (Fin (req_of r))"
proof -
  from assms obtain a where a: "totalBoltLoadDesign r = Fin a" "0 \<le> a"
    by (auto simp: margin_of_def Let_def jge_def jsub_def)
  consider "0 < req_of r" | "req_of r = 0" | "req_of r < 0" by linarith
  then show ?thesis
  proof cases
    case 1
    with assms(1) a show ?thesis
      by (simp add: margin_of_def Let_def jge_def jsub_def zero_le_mult_iff zero_le_divide_iff)
  next
    case 2
    with a show ?thesis by (simp add: jge_def)
  next
    case 3
    with a have "(a - req_of r) / req_of r < 0"
      by (simp add: divide_less_0_iff)
    with assms(1) a 3 show ?thesis
      by (simp add: margin_of_def Let_def jge_def jsub_def mult_less_0_iff not_le
          zero_le_mult_iff)
  qed
qed

lemma margin_of_avail_zero:
  assumes "totalBoltLoadDesign r = Fin 0"
  shows "\<not> jge (margin_of r) (Fin 0)"
  using assms
  by (cases "req_of r = 0")
     (auto simp: margin_of_def Let_def jge_def jsub_def signed_inf_def)

lemma margin_ge_0_I:
  assumes "totalBoltLoadDesign r = Fin a" and "0 < req_of r" and "req_of r \<le> a"
  shows "jge (margin_of r) (Fin 0)"
  using assms by (simp add: margin_of_def Let_def jge_def jsub_def)

section \<open>The search, loop by loop\<close>

text \<open>
  Each loop returns on tables that have rows and keeps the invariant \<open>search_inv\<close>; and
  it sets the flag \<open>found\<close> as soon as one pair of the grid is feasible.
\<close>

lemma count_loop_total:
  assumes "tables_ok T"
  shows "\<exists>st'. count_loop T opt s cs st = Some st'"
proof (induction cs arbitrary: st)
  case Nil
  show ?case by simp
next
  case (Cons c cs)
  obtain r where "calculateFullResults T (testInputs opt s c) = Some r"
    using calculateFullResults_total [OF assms] by blast
  then show ?case using Cons by (simp add: Let_def)
qed

lemma size_loop_total:
  assumes "tables_ok T"
  shows "\<exists>st'. size_loop T opt ss st = Some st'"
proof (induction ss arbitrary: st)
  case Nil
  show ?case by simp
next
  case (Cons s ss)
  obtain st1 where "count_loop T opt s counts st = Some st1"
    using count_loop_total [OF assms] by blast
  then show ?case using Cons by simp
qed

lemma search_total:
  "tables_ok T \<Longrightarrow> \<exists>st. search T targetInputs fixedSize = Some st"
  by (simp add: search_def Let_def size_loop_total)

lemma count_loop_inv:
  assumes "count_loop T opt s cs st = Some st'"
    and "search_inv T opt S st" and "s \<in> S" and "set cs \<subseteq> set counts"
  shows "search_inv T opt S st'"
  using assms
proof (induction cs arbitrary: st)
  case Nil
  then show ?case by simp
next
  case (Cons c cs)
  from Cons.prems(1) obtain r where
    r: "calculateFullResults T (testInputs opt s c) = Some r"
    and rest: "count_loop T opt s cs
       (if feasible r
        then (if jlt (Fin (req_of r)) (minRequiredLoad st)
              then st\<lparr>minRequiredLoad := Fin (req_of r), bestSize := s, bestCount := c,
                      found := True\<rparr>
              else st)
        else st) = Some st'"
    by (auto simp: Let_def Option.bind_eq_Some_conv)
  have "search_inv T opt S
       (if feasible r
        then (if jlt (Fin (req_of r)) (minRequiredLoad st)
              then st\<lparr>minRequiredLoad := Fin (req_of r), bestSize := s, bestCount := c,
                      found := True\<rparr>
              else st)
        else st)"
    using Cons.prems(2,3,4) r by (auto simp: search_inv_def split: option.splits)
  from Cons.IH [OF rest this Cons.prems(3)] Cons.prems(4) show ?case by simp
qed

lemma size_loop_inv:
  assumes "size_loop T opt ss st = Some st'"
    and "search_inv T opt S st" and "set ss \<subseteq> S"
  shows "search_inv T opt S st'"
  using assms
proof (induction ss arbitrary: st)
  case Nil
  then show ?case by simp
next
  case (Cons s ss)
  from Cons.prems(1) obtain st1 where
    c: "count_loop T opt s counts st = Some st1" and rest: "size_loop T opt ss st1 = Some st'"
    by (auto simp: Option.bind_eq_Some_conv)
  have "search_inv T opt S st1"
    using count_loop_inv [OF c Cons.prems(2) _ subset_refl] Cons.prems(3) by simp
  from Cons.IH [OF rest this] Cons.prems(3) show ?case by simp
qed

lemma search_inv_init:
  "search_inv T opt S \<lparr>bestSize = a, bestCount = b, minRequiredLoad = PInf, found = False\<rparr>"
  by (simp add: search_inv_def)

lemma search_found_feasible:
  assumes "search T targetInputs fixedSize = Some st" and "found st"
  shows "\<exists>r. calculateFullResults T
               (testInputs (optimizedTargetInputs targetInputs) (bestSize st) (bestCount st)) = Some r
             \<and> feasible r \<and> minRequiredLoad st = Fin (req_of r)
             \<and> bestSize st \<in> set (sizesToSearch T (optimizedTargetInputs targetInputs) fixedSize)
             \<and> bestCount st \<in> set counts"
proof -
  let ?opt = "optimizedTargetInputs targetInputs"
  let ?S = "set (sizesToSearch T ?opt fixedSize)"
  have "search_inv T ?opt ?S st"
    using assms(1) unfolding search_def Let_def
    by (rule size_loop_inv [OF _ search_inv_init]) simp
  with assms(2) show ?thesis by (auto simp: search_inv_def split: option.splits)
qed

text \<open>Once a pair is found the flag stays set; a feasible pair of the grid sets it.\<close>

lemma count_loop_found:
  assumes "count_loop T opt s cs st = Some st'"
    and "found st \<or> minRequiredLoad st = PInf"
  shows "(found st' \<or> minRequiredLoad st' = PInf) \<and> (found st \<longrightarrow> found st')
         \<and> (\<forall>c \<in> set cs. \<forall>r. calculateFullResults T (testInputs opt s c) = Some r \<longrightarrow> feasible r
                \<longrightarrow> found st')"
  using assms
proof (induction cs arbitrary: st)
  case Nil
  then show ?case by simp
next
  case (Cons c cs)
  from Cons.prems(1) obtain r where
    r: "calculateFullResults T (testInputs opt s c) = Some r"
    and rest: "count_loop T opt s cs
       (if feasible r
        then (if jlt (Fin (req_of r)) (minRequiredLoad st)
              then st\<lparr>minRequiredLoad := Fin (req_of r), bestSize := s, bestCount := c,
                      found := True\<rparr>
              else st)
        else st) = Some st'"
      (is "count_loop T opt s cs ?st1 = Some st'")
    by (auto simp: Let_def Option.bind_eq_Some_conv)
  have 1: "found ?st1 \<or> minRequiredLoad ?st1 = PInf"
    using Cons.prems(2) by auto
  have 2: "found st \<longrightarrow> found ?st1" by auto
  have 3: "feasible r \<longrightarrow> found ?st1"
    using Cons.prems(2) by auto
  from Cons.IH [OF rest 1] 2 3 r show ?case by auto
qed

lemma size_loop_found:
  assumes "size_loop T opt ss st = Some st'"
    and "found st \<or> minRequiredLoad st = PInf"
  shows "(found st' \<or> minRequiredLoad st' = PInf) \<and> (found st \<longrightarrow> found st')
         \<and> (\<forall>s \<in> set ss. \<forall>c \<in> set counts. \<forall>r.
                calculateFullResults T (testInputs opt s c) = Some r \<longrightarrow> feasible r
                \<longrightarrow> found st')"
  using assms
proof (induction ss arbitrary: st)
  case Nil
  then show ?case by simp
next
  case (Cons s ss)
  from Cons.prems(1) obtain st1 where
    c: "count_loop T opt s counts st = Some st1" and rest: "size_loop T opt ss st1 = Some st'"
    by (auto simp: Option.bind_eq_Some_conv)
  note A = count_loop_found [OF c Cons.prems(2)]
  from A have 1: "found st1 \<or> minRequiredLoad st1 = PInf" by blast
  note B = Cons.IH [OF rest 1]
  from A B show ?case by auto
qed

lemma search_finds:
  assumes "search T targetInputs fixedSize = Some st"
    and "s \<in> set (sizesToSearch T (optimizedTargetInputs targetInputs) fixedSize)"
    and "c \<in> set counts"
    and "calculateFullResults T (testInputs (optimizedTargetInputs targetInputs) s c) = Some r"
    and "feasible r"
  shows "found st"
proof -
  have "found \<lparr>bestSize = boltSize (optimizedTargetInputs targetInputs),
               bestCount = boltCount (optimizedTargetInputs targetInputs),
               minRequiredLoad = PInf, found = False\<rparr>
        \<or> minRequiredLoad \<lparr>bestSize = boltSize (optimizedTargetInputs targetInputs),
               bestCount = boltCount (optimizedTargetInputs targetInputs),
               minRequiredLoad = PInf, found = False\<rparr> = PInf"
    by simp
  from size_loop_found [OF assms(1) [unfolded search_def Let_def] this] assms(2-5)
  show ?thesis by blast
qed

lemma search_not_found:
  assumes "search T targetInputs fixedSize = Some st"
    and "\<forall>s \<in> set (sizesToSearch T (optimizedTargetInputs targetInputs) fixedSize).
         \<forall>c \<in> set counts. \<forall>r.
           calculateFullResults T (testInputs (optimizedTargetInputs targetInputs) s c) = Some r
           \<longrightarrow> \<not> feasible r"
  shows "\<not> found st"
proof
  assume "found st"
  from search_found_feasible [OF assms(1) this] assms(2) show False by blast
qed

text \<open>
  The search evaluates every pair of the grid, and the load it keeps is at most the
  required load of every feasible pair.
\<close>

lemma count_loop_least:
  assumes "count_loop T opt s cs st = Some st'"
    and "minRequiredLoad st = PInf \<or> (\<exists>x. minRequiredLoad st = Fin x)"
  shows "(minRequiredLoad st' = PInf \<or> (\<exists>x. minRequiredLoad st' = Fin x))
         \<and> jle (minRequiredLoad st') (minRequiredLoad st)
         \<and> (\<forall>c \<in> set cs. \<exists>r. calculateFullResults T (testInputs opt s c) = Some r
                \<and> (feasible r \<longrightarrow> jle (minRequiredLoad st') (Fin (req_of r))))"
  using assms
proof (induction cs arbitrary: st)
  case Nil
  then show ?case by auto
next
  case (Cons c cs)
  from Cons.prems(1) obtain r where
    r: "calculateFullResults T (testInputs opt s c) = Some r"
    and rest: "count_loop T opt s cs
       (if feasible r
        then (if jlt (Fin (req_of r)) (minRequiredLoad st)
              then st\<lparr>minRequiredLoad := Fin (req_of r), bestSize := s, bestCount := c,
                      found := True\<rparr>
              else st)
        else st) = Some st'"
      (is "count_loop T opt s cs ?st1 = Some st'")
    by (auto simp: Let_def Option.bind_eq_Some_conv)
  have 1: "minRequiredLoad ?st1 = PInf \<or> (\<exists>x. minRequiredLoad ?st1 = Fin x)"
    using Cons.prems(2) by auto
  have 2: "jle (minRequiredLoad ?st1) (minRequiredLoad st)"
    using Cons.prems(2) by (auto dest: jlt_imp_jle)
  have 3: "feasible r \<longrightarrow> jle (minRequiredLoad ?st1) (Fin (req_of r))"
    using Cons.prems(2) by auto
  note IH = Cons.IH [OF rest 1]
  from IH have a: "minRequiredLoad st' = PInf \<or> (\<exists>x. minRequiredLoad st' = Fin x)" by blast
  from IH have le: "jle (minRequiredLoad st') (minRequiredLoad ?st1)" by blast
  from IH have tl: "\<forall>c \<in> set cs. \<exists>r. calculateFullResults T (testInputs opt s c) = Some r
                \<and> (feasible r \<longrightarrow> jle (minRequiredLoad st') (Fin (req_of r)))" by blast
  have b: "jle (minRequiredLoad st') (minRequiredLoad st)"
    by (rule jle_trans [OF le 2])
  have hd: "feasible r \<longrightarrow> jle (minRequiredLoad st') (Fin (req_of r))"
    using 3 le by (blast intro: jle_trans)
  from a b tl hd r show ?case by auto
qed

lemma size_loop_least:
  assumes "size_loop T opt ss st = Some st'"
    and "minRequiredLoad st = PInf \<or> (\<exists>x. minRequiredLoad st = Fin x)"
  shows "(minRequiredLoad st' = PInf \<or> (\<exists>x. minRequiredLoad st' = Fin x))
         \<and> jle (minRequiredLoad st') (minRequiredLoad st)
         \<and> (\<forall>s \<in> set ss. \<forall>c \<in> set counts.
               \<exists>r. calculateFullResults T (testInputs opt s c) = Some r
                \<and> (feasible r \<longrightarrow> jle (minRequiredLoad st') (Fin (req_of r))))"
  using assms
proof (induction ss arbitrary: st)
  case Nil
  then show ?case by auto
next
  case (Cons s ss)
  from Cons.prems(1) obtain st1 where
    c: "count_loop T opt s counts st = Some st1" and rest: "size_loop T opt ss st1 = Some st'"
    by (auto simp: Option.bind_eq_Some_conv)
  note A = count_loop_least [OF c Cons.prems(2)]
  from A have 1: "minRequiredLoad st1 = PInf \<or> (\<exists>x. minRequiredLoad st1 = Fin x)" by blast
  from A have 2: "jle (minRequiredLoad st1) (minRequiredLoad st)" by blast
  from A have 3: "\<forall>c \<in> set counts. \<exists>r. calculateFullResults T (testInputs opt s c) = Some r
                \<and> (feasible r \<longrightarrow> jle (minRequiredLoad st1) (Fin (req_of r)))" by blast
  note B = Cons.IH [OF rest 1]
  from B have a: "minRequiredLoad st' = PInf \<or> (\<exists>x. minRequiredLoad st' = Fin x)" by blast
  from B have le: "jle (minRequiredLoad st') (minRequiredLoad st1)" by blast
  from B have tl: "\<forall>s \<in> set ss. \<forall>c \<in> set counts.
               \<exists>r. calculateFullResults T (testInputs opt s c) = Some r
                \<and> (feasible r \<longrightarrow> jle (minRequiredLoad st') (Fin (req_of r)))" by blast
  have b: "jle (minRequiredLoad st') (minRequiredLoad st)"
    by (rule jle_trans [OF le 2])
  have hd: "\<forall>c \<in> set counts. \<exists>r. calculateFullResults T (testInputs opt s c) = Some r
                \<and> (feasible r \<longrightarrow> jle (minRequiredLoad st') (Fin (req_of r)))"
    using 3 le by (blast intro: jle_trans)
  from a b tl hd show ?case by auto
qed

lemma search_least:
  assumes "search T targetInputs fixedSize = Some st"
    and "s \<in> set (sizesToSearch T (optimizedTargetInputs targetInputs) fixedSize)"
    and "c \<in> set counts"
  shows "\<exists>r. calculateFullResults T (testInputs (optimizedTargetInputs targetInputs) s c) = Some r
             \<and> (feasible r \<longrightarrow> jle (minRequiredLoad st) (Fin (req_of r)))"
proof -
  have "minRequiredLoad \<lparr>bestSize = boltSize (optimizedTargetInputs targetInputs),
               bestCount = boltCount (optimizedTargetInputs targetInputs),
               minRequiredLoad = PInf, found = False\<rparr> = PInf
        \<or> (\<exists>x. minRequiredLoad \<lparr>bestSize = boltSize (optimizedTargetInputs targetInputs),
               bestCount = boltCount (optimizedTargetInputs targetInputs),
               minRequiredLoad = PInf, found = False\<rparr> = Fin x)"
    by simp
  from size_loop_least [OF assms(1) [unfolded search_def Let_def] this] assms(2,3)
  show ?thesis by blast
qed

lemma performSearch_found:
  assumes "search T targetInputs fixedSize = Some st" and "found st"
    and "calculateFullResults T
           (testInputs (optimizedTargetInputs targetInputs) (bestSize st) (bestCount st)) = Some r"
  shows "performSearch T prev targetInputs fixedSize =
         Some (prev\<lparr>boltSize := bestSize st, boltCount := bestCount st,
                     useManualOverride := False, actualBCD := 0, actualOD := 0,
                     manualSeatingID := 0, manualSeatingOD := 0\<rparr>,
               OptimizationCompleted fixedSize (bestSize st) (bestCount st)
                 (minRequiredLoad st) (margin_of r))"
  using assms by (simp add: performSearch_def Let_def)

lemma performSearch_not_found:
  assumes "search T targetInputs fixedSize = Some st" and "\<not> found st"
  shows "performSearch T prev targetInputs fixedSize =
         Some (prev, NoValidConfiguration fixedSize (boltSize targetInputs))"
  using assms by (simp add: performSearch_def Let_def optimizedTargetInputs_def)

lemma performSearch_CompletedD:
  assumes "performSearch T prev targetInputs fixedSize =
             Some (prev', OptimizationCompleted fx s c m fm)"
  shows "\<exists>st r. search T targetInputs fixedSize = Some st \<and> found st
           \<and> s = bestSize st \<and> c = bestCount st \<and> m = minRequiredLoad st \<and> fx = fixedSize
           \<and> calculateFullResults T (testInputs (optimizedTargetInputs targetInputs) s c) = Some r
           \<and> fm = margin_of r
           \<and> prev' = prev\<lparr>boltSize := s, boltCount := c,
                     useManualOverride := False, actualBCD := 0, actualOD := 0,
                     manualSeatingID := 0, manualSeatingOD := 0\<rparr>"
  using assms
  by (auto simp: performSearch_def Let_def Option.bind_eq_Some_conv split: if_splits)

section \<open>The example, evaluated\<close>

lemma example_calc:
  assumes "example_family ci"
  shows "calculateFullResults example_tables ci = Some (example_results ci)"
proof -
  have rc: "lookup_ringConfig example_tables ci
              = Some \<lparr>min_ring = 0, max_ring = 600, irMin = 5, orMin = 5\<rparr>"
    using assms by (simp add: example_family_def lookup_ringConfig_def example_tables_def or_undef_def)
  have gt: "lookup_gType example_tables ci
              = Some \<lparr>id_gasket = ''Spiral wound'', m_gasket = 3, y_gasket = 10000\<rparr>"
    using assms by (simp add: example_family_def lookup_gType_def example_tables_def or_undef_def)
  have pgt: "lookup_passGType example_tables ci
              = Some \<lparr>id_gasket = ''Spiral wound'', m_gasket = 3, y_gasket = 10000\<rparr>"
    using assms by (simp add: example_family_def lookup_passGType_def example_tables_def or_undef_def)
  have 1: "innerRingWidth_of example_tables ci = Some 5"
    using assms by (simp add: example_family_def innerRingWidth_of_def rc)
  have 2: "outerRingWidth_of example_tables ci = Some 5"
    using assms by (simp add: example_family_def outerRingWidth_of_def rc)
  have 3: "lookup_boltData example_tables ci = Some example_bolt"
    using assms
    by (simp add: example_family_def lookup_boltData_def example_tables_def example_bolt_def
        or_undef_def)
  have 4: "gasketM_of example_tables ci = Some 3"
    using assms by (auto simp: example_family_def gasketM_of_def gt)
  have 5: "gasketY_of example_tables ci = Some 10000"
    using assms by (auto simp: example_family_def gasketY_of_def gt)
  have 6: "passM_of example_tables ci = Some 3"
    using assms by (auto simp: example_family_def passM_of_def pgt)
  have 7: "passY_of example_tables ci = Some 10000"
    using assms by (auto simp: example_family_def passY_of_def pgt)
  have 8: "lookup_mat example_tables ci = Some example_material"
    using assms
    by (simp add: example_family_def lookup_mat_def example_tables_def example_material_def
        or_undef_def)
  show ?thesis
    unfolding example_results_def
    by (rule calculateFullResults_SomeI [OF 1 2 3 4 5 6 7 8])
qed

text \<open>The field equations of the engine, for the example result.\<close>

lemmas ex_innerRingWidth = rf_innerRingWidth [of example_tables _ 5 5 example_bolt 3 10000 3 10000 example_material, folded example_results_def]
lemmas ex_outerRingWidth = rf_outerRingWidth [of example_tables _ 5 5 example_bolt 3 10000 3 10000 example_material, folded example_results_def]
lemmas ex_boltHoleSize = rf_boltHoleSize [of example_tables _ 5 5 example_bolt 3 10000 3 10000 example_material, folded example_results_def]
lemmas ex_effectiveC = rf_effectiveC [of example_tables _ 5 5 example_bolt 3 10000 3 10000 example_material, folded example_results_def]
lemmas ex_shellGapA = rf_shellGapA [of example_tables _ 5 5 example_bolt 3 10000 3 10000 example_material, folded example_results_def]
lemmas ex_seatingOD = rf_seatingOD [of example_tables _ 5 5 example_bolt 3 10000 3 10000 example_material, folded example_results_def]
lemmas ex_seatingID = rf_seatingID [of example_tables _ 5 5 example_bolt 3 10000 3 10000 example_material, folded example_results_def]
lemmas ex_gasketOD = rf_gasketOD [of example_tables _ 5 5 example_bolt 3 10000 3 10000 example_material, folded example_results_def]
lemmas ex_gasketID = rf_gasketID [of example_tables _ 5 5 example_bolt 3 10000 3 10000 example_material, folded example_results_def]
lemmas ex_bcdMethod3 = rf_bcdMethod3 [of example_tables _ 5 5 example_bolt 3 10000 3 10000 example_material, folded example_results_def]
lemmas ex_bcdTema = rf_bcdTema [of example_tables _ 5 5 example_bolt 3 10000 3 10000 example_material, folded example_results_def]
lemmas ex_selectedBcdSource = rf_selectedBcdSource [of example_tables _ 5 5 example_bolt 3 10000 3 10000 example_material, folded example_results_def]
lemmas ex_finalBCD = rf_finalBCD [of example_tables _ 5 5 example_bolt 3 10000 3 10000 example_material, folded example_results_def]
lemmas ex_odTema = rf_odTema [of example_tables _ 5 5 example_bolt 3 10000 3 10000 example_material, folded example_results_def]
lemmas ex_finalOD = rf_finalOD [of example_tables _ 5 5 example_bolt 3 10000 3 10000 example_material, folded example_results_def]
lemmas ex_gasketM = rf_gasketM [of example_tables _ 5 5 example_bolt 3 10000 3 10000 example_material, folded example_results_def]
lemmas ex_gasketY = rf_gasketY [of example_tables _ 5 5 example_bolt 3 10000 3 10000 example_material, folded example_results_def]
lemmas ex_passM = rf_passM [of example_tables _ 5 5 example_bolt 3 10000 3 10000 example_material, folded example_results_def]
lemmas ex_passY = rf_passY [of example_tables _ 5 5 example_bolt 3 10000 3 10000 example_material, folded example_results_def]
lemmas ex_bcdMethod1 = rf_bcdMethod1 [of example_tables _ 5 5 example_bolt 3 10000 3 10000 example_material, folded example_results_def]
lemmas ex_boltSpacingMin = rf_boltSpacingMin [of example_tables _ 5 5 example_bolt 3 10000 3 10000 example_material, folded example_results_def]
lemmas ex_radialDistance = rf_radialDistance [of example_tables _ 5 5 example_bolt 3 10000 3 10000 example_material, folded example_results_def]
lemmas ex_edgeDistance = rf_edgeDistance [of example_tables _ 5 5 example_bolt 3 10000 3 10000 example_material, folded example_results_def]
lemmas ex_bcdMethod2 = rf_bcdMethod2 [of example_tables _ 5 5 example_bolt 3 10000 3 10000 example_material, folded example_results_def]
lemmas ex_geometricPitch = rf_geometricPitch [of example_tables _ 5 5 example_bolt 3 10000 3 10000 example_material, folded example_results_def]
lemmas ex_spacingOk = rf_spacingOk [of example_tables _ 5 5 example_bolt 3 10000 3 10000 example_material, folded example_results_def]
lemmas ex_maxBoltSpacing = rf_maxBoltSpacing [of example_tables _ 5 5 example_bolt 3 10000 3 10000 example_material, folded example_results_def]
lemmas ex_singleBoltArea = rf_singleBoltArea [of example_tables _ 5 5 example_bolt 3 10000 3 10000 example_material, folded example_results_def]
lemmas ex_totalBoltArea = rf_totalBoltArea [of example_tables _ 5 5 example_bolt 3 10000 3 10000 example_material, folded example_results_def]
lemmas ex_ambientAllowableStress = rf_ambientAllowableStress [of example_tables _ 5 5 example_bolt 3 10000 3 10000 example_material, folded example_results_def]
lemmas ex_designAllowableStress = rf_designAllowableStress [of example_tables _ 5 5 example_bolt 3 10000 3 10000 example_material, folded example_results_def]
lemmas ex_totalBoltLoadDesign = rf_totalBoltLoadDesign [of example_tables _ 5 5 example_bolt 3 10000 3 10000 example_material, folded example_results_def]
lemmas ex_requiredBoltArea = rf_requiredBoltArea [of example_tables _ 5 5 example_bolt 3 10000 3 10000 example_material, folded example_results_def]
lemmas ex_nWidth = rf_nWidth [of example_tables _ 5 5 example_bolt 3 10000 3 10000 example_material, folded example_results_def]
lemmas ex_b0Width = rf_b0Width [of example_tables _ 5 5 example_bolt 3 10000 3 10000 example_material, folded example_results_def]
lemmas ex_bWidth = rf_bWidth [of example_tables _ 5 5 example_bolt 3 10000 3 10000 example_material, folded example_results_def]
lemmas ex_gMeanDia = rf_gMeanDia [of example_tables _ 5 5 example_bolt 3 10000 3 10000 example_material, folded example_results_def]
lemmas ex_hForce = rf_hForce [of example_tables _ 5 5 example_bolt 3 10000 3 10000 example_material, folded example_results_def]
lemmas ex_hpForce = rf_hpForce [of example_tables _ 5 5 example_bolt 3 10000 3 10000 example_material, folded example_results_def]
lemmas ex_wm1 = rf_wm1 [of example_tables _ 5 5 example_bolt 3 10000 3 10000 example_material, folded example_results_def]
lemmas ex_wm2 = rf_wm2 [of example_tables _ 5 5 example_bolt 3 10000 3 10000 example_material, folded example_results_def]

lemma example_boltSpacingMin:
  assumes "example_family ci"
  shows "boltSpacingMin (example_results ci) = 44.45"
  using assms
  by (simp add: ex_boltSpacingMin example_family_def example_bolt_def)

lemma example_bcdMethod1_le:
  assumes "example_family ci" and "0 \<le> boltCount ci"
  shows "bcdMethod1 (example_results ci) \<le> ceil (44.45 * boltCount ci / 3)"
proof -
  have "44.45 * boltCount ci / pi \<le> 44.45 * boltCount ci / 3"
    using assms(2) pi_ge_3 by (intro divide_left_mono) (auto intro: mult_pos_pos)
  then have "\<lceil>44.45 * boltCount ci / pi\<rceil> \<le> \<lceil>44.45 * boltCount ci / 3\<rceil>"
    by (rule ceiling_mono)
  then show ?thesis
    by (simp add: ex_bcdMethod1 example_boltSpacingMin [OF assms(1)] ceil_def)
qed

lemma example_bcdMethod2:
  assumes "example_family ci"
  shows "bcdMethod2 (example_results ci) = 368"
  using assms
  by (simp add: ex_bcdMethod2 ex_radialDistance example_family_def example_bolt_def ceil_def)

lemma example_small_fields:
  assumes "example_family ci"
  shows "boltHoleSize (example_results ci) = 23"
    and "effectiveC (example_results ci) = 2.5"
    and "CalculationResults.shellGapA (example_results ci) = 3"
    and "innerRingWidth (example_results ci) = 5"
    and "outerRingWidth (example_results ci) = 5"
    and "nWidth (example_results ci) = 12"
    and "b0Width (example_results ci) = 6"
    and "bWidth (example_results ci) = 6"
    and "gasketM (example_results ci) = 3"
    and "gasketY (example_results ci) = 10000"
    and "maxBoltSpacing (example_results ci) = 59.625"
    and "totalBoltArea (example_results ci) = 194.8 * boltCount ci"
  using assms
  by (simp_all add: ex_boltHoleSize ex_effectiveC ex_shellGapA
      ex_innerRingWidth ex_outerRingWidth ex_nWidth ex_b0Width ex_bWidth ex_gasketM ex_gasketY
      ex_maxBoltSpacing ex_totalBoltArea
      example_family_def example_bolt_def example_tables_def ceil_def or_else_def startsWith_def)


lemma example_geometry:
  assumes "example_family ci"
  shows "seatingOD (example_results ci)
           = max (max (bcdMethod1 (example_results ci)) 368 - 41) 340"
    and "seatingID (example_results ci) = seatingOD (example_results ci) - 24"
    and "gMeanDia (example_results ci) = seatingOD (example_results ci) - 12"
    and "bcdMethod3 (example_results ci) = seatingOD (example_results ci) + 41"
    and "bcdTema (example_results ci)
           = max (max (bcdMethod1 (example_results ci)) 368) (seatingOD (example_results ci) + 41)"
    and "finalBCD (example_results ci) = bcdTema (example_results ci)"
proof -
  note f = example_small_fields [OF assms] example_bcdMethod2 [OF assms]
  have a: "autoSeatingOD_of ci (example_results ci)
             = max (max (bcdMethod1 (example_results ci)) 368 - 41) 340"
    using assms by (simp add: autoSeatingOD_of_def f example_family_def)
  show od: "seatingOD (example_results ci)
           = max (max (bcdMethod1 (example_results ci)) 368 - 41) 340"
    using assms by (simp add: ex_seatingOD a example_family_def)
  show id: "seatingID (example_results ci) = seatingOD (example_results ci) - 24"
    using assms by (simp add: ex_seatingID ex_seatingOD a example_family_def)
  show "gMeanDia (example_results ci) = seatingOD (example_results ci) - 12"
    by (simp add: ex_gMeanDia f id)
  have god: "gasketOD (example_results ci) = seatingOD (example_results ci) + 10"
    using assms by (simp add: ex_gasketOD f example_family_def)
  show m3: "bcdMethod3 (example_results ci) = seatingOD (example_results ci) + 41"
    by (simp add: ex_bcdMethod3 god f)
  show "bcdTema (example_results ci)
           = max (max (bcdMethod1 (example_results ci)) 368) (seatingOD (example_results ci) + 41)"
    by (simp add: ex_bcdTema m3 f)
  show "finalBCD (example_results ci) = bcdTema (example_results ci)"
    using assms by (simp add: ex_finalBCD example_family_def)
qed

lemma example_loads:
  assumes "example_family ci"
  shows "hForce (example_results ci) = 0.785 * (seatingOD (example_results ci) - 12) ^ 2"
    and "hpForce (example_results ci) = 36 * pi * (seatingOD (example_results ci) - 12)"
    and "wm2 (example_results ci) = 413.6856 * pi * (seatingOD (example_results ci) - 12)"
proof -
  note f = example_small_fields [OF assms] example_geometry [OF assms]
  have p: "toMpa (designPressure ci) (pressureUnit ci) = 1"
    "passPartitionWidth ci = 0"
    using assms by (simp_all add: example_family_def toMpa_def)
  show "hForce (example_results ci) = 0.785 * (seatingOD (example_results ci) - 12) ^ 2"
    by (simp add: ex_hForce f(1-12) f(15) p)
  show "hpForce (example_results ci) = 36 * pi * (seatingOD (example_results ci) - 12)"
    by (simp add: ex_hpForce f(1-12) f(15) p)
  show "wm2 (example_results ci) = 413.6856 * pi * (seatingOD (example_results ci) - 12)"
    by (simp add: ex_wm2 f(1-12) f(15) p)
qed

lemma example_seatingOD_ge:
  assumes "example_family ci"
  shows "340 \<le> seatingOD (example_results ci)"
  by (simp add: example_geometry(1) [OF assms])

lemma example_req_pos:
  assumes "example_family ci"
  shows "0 < req_of (example_results ci)"
proof -
  have "0 < seatingOD (example_results ci) - 12"
    using example_seatingOD_ge [OF assms] by simp
  then have "0 < wm2 (example_results ci)"
    by (simp add: example_loads(3) [OF assms])
  then show ?thesis by (simp add: req_of_def)
qed

lemma example_design_stress:
  assumes "example_family ci"
  shows "designTemp ci = 100 \<Longrightarrow> designAllowableStress (example_results ci) = Fin 172"
    and "designTemp ci = 450 \<Longrightarrow> designAllowableStress (example_results ci) = Fin 0"
  using assms
  by (simp_all add: ex_designAllowableStress example_family_def example_tables_def
      example_material_def toCelsius_def interpolateStress_def cleanCurve_def or_else_def
      elem_def jge_def jsub_def Let_def upt_rec)

lemma example_24:
  assumes "example_family ci" and "0 \<le> boltCount ci" and "boltCount ci \<le> 24"
  shows "bcdMethod1 (example_results ci) \<le> 356"
    and "seatingOD (example_results ci) = 340"
    and "bcdMethod3 (example_results ci) = 381"
    and "bcdTema (example_results ci) = 381"
    and "finalBCD (example_results ci) = 381"
    and "selectedBcdSource (example_results ci) = 3"
    and "seatingID (example_results ci) = 316"
proof -
  have "44.45 * boltCount ci / 3 \<le> 356" using assms(3) by simp
  then have "ceil (44.45 * boltCount ci / 3) \<le> 356"
    unfolding ceil_def by (metis ceiling_le_iff of_int_le_iff of_int_numeral)
  then show m1: "bcdMethod1 (example_results ci) \<le> 356"
    using example_bcdMethod1_le [OF assms(1,2)] by linarith
  note g = example_geometry [OF assms(1)]
  show od: "seatingOD (example_results ci) = 340"
    using m1 by (simp add: g(1))
  show m3: "bcdMethod3 (example_results ci) = 381"
    by (simp add: g(4) od)
  show tema: "bcdTema (example_results ci) = 381"
    using m1 by (simp add: g(5) od)
  show "finalBCD (example_results ci) = 381"
    by (simp add: g(6) tema)
  show "selectedBcdSource (example_results ci) = 3"
    using m1 by (simp add: ex_selectedBcdSource tema example_bcdMethod2 [OF assms(1)])
  show "seatingID (example_results ci) = 316"
    by (simp add: g(2) od)
qed

lemma example_24_feasible:
  assumes "example_family ci" and "boltCount ci = 24" and "designTemp ci = 100"
  shows "feasible (example_results ci)"
proof -
  have c: "0 \<le> boltCount ci" "boltCount ci \<le> 24" using assms(2) by simp_all
  note e = example_24 [OF assms(1) c]
  note f = example_small_fields [OF assms(1)]
  have pitch: "geometricPitch (example_results ci) = Fin (pi * 381 / 24)"
    by (simp add: ex_geometricPitch e(5) assms(2))
  have "44.45 \<le> pi * 381 / 24" using pi_ge_3 by simp
  moreover have "pi * 381 / 24 \<le> 59.625" using pi_le_32 by simp
  ultimately have sp: "spacingOk (example_results ci)"
    by (simp add: ex_spacingOk pitch example_boltSpacingMin [OF assms(1)] f(11) jge_def)
  have avail: "totalBoltLoadDesign (example_results ci) = Fin 804134.4"
    by (simp add: ex_totalBoltLoadDesign f(12) assms(2) example_design_stress(1) [OF assms(1,3)])
  note l = example_loads [OF assms(1)]
  have "wm1 (example_results ci) \<le> 804134.4"
    using pi_le_32 by (simp add: ex_wm1 l e(2))
  moreover have "wm2 (example_results ci) \<le> 804134.4"
    using pi_le_32 by (simp add: l e(2))
  ultimately have "req_of (example_results ci) \<le> 804134.4"
    by (simp add: req_of_def)
  from margin_ge_0_I [OF avail example_req_pos [OF assms(1)] this] sp
  show ?thesis by (simp add: feasible_def)
qed

lemma example_450_not_feasible:
  assumes "example_family ci" and "designTemp ci = 450"
  shows "\<not> feasible (example_results ci)"
proof -
  have "totalBoltLoadDesign (example_results ci) = Fin 0"
    by (simp add: ex_totalBoltLoadDesign example_design_stress(2) [OF assms])
  from margin_of_avail_zero [OF this] show ?thesis by (simp add: feasible_def)
qed

section \<open>The search: feasibility of the result, failure, and what a success changes\<close>

lemma counts_pos: "c \<in> set counts \<Longrightarrow> 0 < c"
  by (auto simp: counts_def)

lemma avail_nonneg:
  assumes "valid_tables T" and "calculateFullResults T ci = Some r" and "0 \<le> boltCount ci"
  shows "totalBoltLoadDesign r = NaN \<or> (\<exists>a. totalBoltLoadDesign r = Fin a \<and> 0 \<le> a)"
proof -
  from calculateFullResults_SomeD [OF assms(2)] obtain irw orw bd gM gY pM pY mat where
    bd: "lookup_boltData T ci = Some bd" and mat: "lookup_mat T ci = Some mat"
    and r: "r = results_from T ci irw orw bd gM gY pM pY mat"
    by blast
  have "0 \<le> tensileArea bd"
    using assms(1) lookup_boltData_in_set [OF bd] by (simp add: valid_tables_def)
  then have area: "0 \<le> tensileArea bd * boltCount ci" using assms(3) by simp
  have "nonneg_curve (stresses mat)"
    using assms(1) lookup_mat_in_set [OF mat] by (simp add: valid_tables_def)
  then have "nonneg_or_nan (interpolateStress (BOLT_TEMP_STEPS T)
                (toCelsius (designTemp ci) (tempUnit ci)) (stresses mat))"
    by (rule interpolateStress_nonneg)
  with area show ?thesis
    unfolding r rf_totalBoltLoadDesign rf_totalBoltArea rf_designAllowableStress
    by (auto simp: nonneg_or_nan_iff)
qed

lemma feasible_imp_feasible_spec:
  assumes "valid_tables T" and "calculateFullResults T ci = Some r" and "0 \<le> boltCount ci"
    and "feasible r"
  shows "feasible_spec r"
proof -
  from calculateFullResults_SomeD [OF assms(2)] obtain irw orw bd gM gY pM pY mat where
    r: "r = results_from T ci irw orw bd gM gY pM pY mat"
    by blast
  have sp: "spacingOk r = (jge (geometricPitch r) (Fin (boltSpacingMin r))
                           \<and> jle (geometricPitch r) (Fin (maxBoltSpacing r)))"
    unfolding r by (rule rf_spacingOk)
  have "jge (totalBoltLoadDesign r) (Fin (req_of r))"
    using assms(4) avail_nonneg [OF assms(1-3)]
    by (intro margin_ge_0_imp_avail_ge_req) (simp_all add: feasible_def)
  with assms(4) sp show ?thesis
    by (simp add: feasible_spec_def feasible_def req_of_def)
qed

lemma testInputs_optimized:
  "testInputs (optimizedTargetInputs targetInputs) s c =
     targetInputs\<lparr>useManualOverride := False, actualBCD := 0, actualOD := 0,
                  manualSeatingID := 0, manualSeatingOD := 0, boltSize := s, boltCount := c\<rparr>"
  by (simp add: testInputs_def optimizedTargetInputs_def)

text \<open>
  Claim C6: every pair the search reports as found passes both constraints when the
  engine re-evaluates it, with that size and count substituted in the starting input and
  the manual geometry overrides cleared: the geometric pitch lies within the minimum and
  the maximum spacing, and the margin \<open>(avail - req) / req * 100\<close> is not negative.  On
  tables whose tensile areas and tabulated allowable stresses are not negative, a
  non-negative margin is the same as an available design bolt load of at least the
  required load \<open>max(Wm1, Wm2)\<close>.
\<close>

theorem C6_search_feasible:
  assumes "performSearch T prev targetInputs fixedSize =
           Some (prev', OptimizationCompleted fx s c m fm)"
  shows "\<exists>r. calculateFullResults T
               (targetInputs\<lparr>useManualOverride := False, actualBCD := 0, actualOD := 0,
                  manualSeatingID := 0, manualSeatingOD := 0, boltSize := s, boltCount := c\<rparr>)
               = Some r
             \<and> spacingOk r
             \<and> jge (geometricPitch r) (Fin (boltSpacingMin r))
             \<and> jle (geometricPitch r) (Fin (maxBoltSpacing r))
             \<and> jge (margin_of r) (Fin 0)
             \<and> (valid_tables T \<longrightarrow> jge (totalBoltLoadDesign r) (Fin (max (wm1 r) (wm2 r))))"
proof -
  from performSearch_CompletedD [OF assms] obtain st where
    st: "search T targetInputs fixedSize = Some st" "found st"
    and sc: "s = bestSize st" "c = bestCount st"
    by blast
  from search_found_feasible [OF st] obtain r where
    r: "calculateFullResults T (testInputs (optimizedTargetInputs targetInputs) s c) = Some r"
    and f: "feasible r" and c: "c \<in> set counts"
    unfolding sc by blast
  have "boltCount (testInputs (optimizedTargetInputs targetInputs) s c) = c"
    by (simp add: testInputs_def)
  with counts_pos [OF c]
  have nn: "0 \<le> boltCount (testInputs (optimizedTargetInputs targetInputs) s c)" by simp
  from calculateFullResults_SomeD [OF r] obtain irw orw bd gM gY pM pY mat where
    rr: "r = results_from T (testInputs (optimizedTargetInputs targetInputs) s c)
               irw orw bd gM gY pM pY mat"
    by blast
  have sp: "spacingOk r = (jge (geometricPitch r) (Fin (boltSpacingMin r))
                           \<and> jle (geometricPitch r) (Fin (maxBoltSpacing r)))"
    unfolding rr by (rule rf_spacingOk)
  have "valid_tables T \<longrightarrow> jge (totalBoltLoadDesign r) (Fin (max (wm1 r) (wm2 r)))"
    using feasible_imp_feasible_spec [OF _ r nn f] by (simp add: feasible_spec_def)
  with f r sp show ?thesis
    unfolding testInputs_optimized by (auto simp: feasible_def)
qed

text \<open>
  Claim C7: when no pair of the search grid is feasible (no pair passes the search's test
  of a non-negative margin and a pitch within the spacing bounds), the search returns
  normally on tables that have rows, reports that no valid configuration was found, and
  the stored Design Input is the one it was before.
\<close>

theorem C7_search_failure_unchanged:
  assumes "tables_ok T"
    and "\<forall>s \<in> set (sizesToSearch T (optimizedTargetInputs targetInputs) fixedSize).
         \<forall>c \<in> set counts. \<forall>r.
           calculateFullResults T
             (targetInputs\<lparr>useManualOverride := False, actualBCD := 0, actualOD := 0,
                manualSeatingID := 0, manualSeatingOD := 0, boltSize := s, boltCount := c\<rparr>)
             = Some r
           \<longrightarrow> \<not> feasible r"
  shows "performSearch T prev targetInputs fixedSize =
           Some (prev, NoValidConfiguration fixedSize (boltSize targetInputs))"
proof -
  obtain st where st: "search T targetInputs fixedSize = Some st"
    using search_total [OF assms(1)] by blast
  have "\<not> found st"
    using assms(2) unfolding testInputs_optimized [symmetric]
    by (rule search_not_found [OF st])
  with st show ?thesis by (rule performSearch_not_found)
qed

text \<open>The candidate inputs of the search carry the manual factors of the starting input.\<close>

lemma candidate_factors_in_effect:
  assumes "calculateFullResults T (testInputs (optimizedTargetInputs targetInputs) size' count')
             = Some r"
  shows "factors_in_effect targetInputs r"
proof -
  let ?ci = "testInputs (optimizedTargetInputs targetInputs) size' count'"
  have m: "manualM ?ci = manualM targetInputs" "manualY ?ci = manualY targetInputs"
    "manualPassM ?ci = manualPassM targetInputs" "manualPassY ?ci = manualPassY targetInputs"
    by (simp_all add: testInputs_def optimizedTargetInputs_def)
  from calculateFullResults_SomeD [OF assms] obtain irw orw bd gM gY pM pY mat where
    l: "gasketM_of T ?ci = Some gM" "gasketY_of T ?ci = Some gY"
       "passM_of T ?ci = Some pM" "passY_of T ?ci = Some pY"
    and rr: "r = results_from T ?ci irw orw bd gM gY pM pY mat"
    by blast
  have "manualM targetInputs \<noteq> 0 \<longrightarrow> gasketM r = manualM targetInputs"
    using l(1) by (auto simp: rr rf_gasketM gasketM_of_def m)
  moreover have "manualY targetInputs \<noteq> 0 \<longrightarrow> gasketY r = manualY targetInputs"
    using l(2) by (auto simp: rr rf_gasketY gasketY_of_def m)
  moreover have "manualPassM targetInputs \<noteq> 0 \<longrightarrow> passM r = manualPassM targetInputs"
    using l(3) by (auto simp: rr rf_passM passM_of_def m)
  moreover have "manualPassY targetInputs \<noteq> 0 \<longrightarrow> passY r = manualPassY targetInputs"
    using l(4) by (auto simp: rr rf_passY passY_of_def m)
  ultimately show ?thesis by (simp add: factors_in_effect_def)
qed

text \<open>
  Claim C9: when the search succeeds, the stored Design Input afterwards is the one
  before with \<open>boltSize\<close>, \<open>boltCount\<close>, \<open>useManualOverride\<close>, \<open>actualBCD\<close>, \<open>actualOD\<close>,
  \<open>manualSeatingID\<close> and \<open>manualSeatingOD\<close> set, and nothing else changed; in particular the
  manual factors \<open>manualM\<close>, \<open>manualY\<close>, \<open>manualPassM\<close> and \<open>manualPassY\<close> are kept.  They
  are in effect while the search evaluates: the search evaluates every pair of its grid
  with the nonzero manual factors as the factors of the result, the minimum required load
  it reports is at most the required load of every feasible pair so evaluated, and it is
  the required load of the reported pair, a feasible pair of the grid evaluated with
  those factors.
\<close>

theorem C9_search_success_frame:
  assumes "performSearch T prev targetInputs fixedSize =
             Some (prev', OptimizationCompleted fx s c m fm)"
  shows "prev' = prev\<lparr>boltSize := s, boltCount := c, useManualOverride := False,
                       actualBCD := 0, actualOD := 0, manualSeatingID := 0,
                       manualSeatingOD := 0\<rparr>
       \<and> manualM prev' = manualM prev \<and> manualY prev' = manualY prev
       \<and> manualPassM prev' = manualPassM prev \<and> manualPassY prev' = manualPassY prev
       \<and> (\<forall>size' count' r.
             calculateFullResults T (testInputs (optimizedTargetInputs targetInputs) size' count')
               = Some r
             \<longrightarrow> (manualM targetInputs \<noteq> 0 \<longrightarrow> gasketM r = manualM targetInputs)
               \<and> (manualY targetInputs \<noteq> 0 \<longrightarrow> gasketY r = manualY targetInputs)
               \<and> (manualPassM targetInputs \<noteq> 0 \<longrightarrow> passM r = manualPassM targetInputs)
               \<and> (manualPassY targetInputs \<noteq> 0 \<longrightarrow> passY r = manualPassY targetInputs))
       \<and> (\<forall>size' \<in> set (sizesToSearch T (optimizedTargetInputs targetInputs) fixedSize).
          \<forall>count' \<in> set counts.
            \<exists>r. calculateFullResults T
                   (testInputs (optimizedTargetInputs targetInputs) size' count') = Some r
                 \<and> factors_in_effect targetInputs r
                 \<and> (feasible r \<longrightarrow> jle m (Fin (req_of r))))
       \<and> (\<exists>r. calculateFullResults T (testInputs (optimizedTargetInputs targetInputs) s c) = Some r
              \<and> factors_in_effect targetInputs r
              \<and> feasible r \<and> m = Fin (req_of r) \<and> fm = margin_of r)
       \<and> s \<in> set (sizesToSearch T (optimizedTargetInputs targetInputs) fixedSize)
       \<and> c \<in> set counts"
proof -
  from performSearch_CompletedD [OF assms] obtain st r where
    st: "search T targetInputs fixedSize = Some st" "found st"
    and sc: "s = bestSize st" "c = bestCount st" "m = minRequiredLoad st"
    and r: "calculateFullResults T (testInputs (optimizedTargetInputs targetInputs) s c) = Some r"
    and fm: "fm = margin_of r"
    and p: "prev' = prev\<lparr>boltSize := s, boltCount := c, useManualOverride := False,
                       actualBCD := 0, actualOD := 0, manualSeatingID := 0,
                       manualSeatingOD := 0\<rparr>"
    by blast
  have old: "\<forall>size' count' r.
             calculateFullResults T (testInputs (optimizedTargetInputs targetInputs) size' count')
               = Some r
             \<longrightarrow> (manualM targetInputs \<noteq> 0 \<longrightarrow> gasketM r = manualM targetInputs)
               \<and> (manualY targetInputs \<noteq> 0 \<longrightarrow> gasketY r = manualY targetInputs)
               \<and> (manualPassM targetInputs \<noteq> 0 \<longrightarrow> passM r = manualPassM targetInputs)
               \<and> (manualPassY targetInputs \<noteq> 0 \<longrightarrow> passY r = manualPassY targetInputs)"
    using candidate_factors_in_effect [of T targetInputs]
    unfolding factors_in_effect_def by blast
  have grid: "\<forall>size' \<in> set (sizesToSearch T (optimizedTargetInputs targetInputs) fixedSize).
          \<forall>count' \<in> set counts.
            \<exists>r. calculateFullResults T
                   (testInputs (optimizedTargetInputs targetInputs) size' count') = Some r
                 \<and> factors_in_effect targetInputs r
                 \<and> (feasible r \<longrightarrow> jle m (Fin (req_of r)))"
  proof (intro ballI)
    fix size' count'
    assume "size' \<in> set (sizesToSearch T (optimizedTargetInputs targetInputs) fixedSize)"
      and "count' \<in> set counts"
    from search_least [OF st(1) this] obtain r' where
      "calculateFullResults T (testInputs (optimizedTargetInputs targetInputs) size' count')
         = Some r'"
      "feasible r' \<longrightarrow> jle m (Fin (req_of r'))"
      unfolding sc by blast
    with candidate_factors_in_effect [OF this(1)]
    show "\<exists>r. calculateFullResults T
                   (testInputs (optimizedTargetInputs targetInputs) size' count') = Some r
                 \<and> factors_in_effect targetInputs r
                 \<and> (feasible r \<longrightarrow> jle m (Fin (req_of r)))"
      by blast
  qed
  from search_found_feasible [OF st] r have
    best: "feasible r" "m = Fin (req_of r)"
      "s \<in> set (sizesToSearch T (optimizedTargetInputs targetInputs) fixedSize)"
      "c \<in> set counts"
    unfolding sc by auto
  have "\<exists>r. calculateFullResults T (testInputs (optimizedTargetInputs targetInputs) s c) = Some r
              \<and> factors_in_effect targetInputs r
              \<and> feasible r \<and> m = Fin (req_of r) \<and> fm = margin_of r"
    using r candidate_factors_in_effect [OF r] best(1,2) fm by blast
  with p old grid best(3,4) show ?thesis by simp
qed

section \<open>Instances on the example\<close>

lemma valid_tables_example: "valid_tables example_tables"
  by (simp add: valid_tables_def example_tables_def example_bolt_def example_material_def
      nonneg_curve_def)

text \<open>Every candidate of a fixed-size search from an input of the family is in the family.\<close>

lemma example_family_candidate:
  assumes "example_family i"
  shows "example_family (testInputs (optimizedTargetInputs i) (boltSize (optimizedTargetInputs i)) c)"
  using assms by (simp add: example_family_def testInputs_def optimizedTargetInputs_def)

lemma candidate_fields:
  "boltCount (testInputs o' s c) = c"
  "designTemp (testInputs (optimizedTargetInputs i) s c) = designTemp i"
  by (simp_all add: testInputs_def optimizedTargetInputs_def)

lemma example_search_succeeds:
  assumes "example_family i" and "designTemp i = 100"
  shows "\<exists>st r. search example_tables i True = Some st \<and> found st
          \<and> calculateFullResults example_tables
               (testInputs (optimizedTargetInputs i) (bestSize st) (bestCount st)) = Some r
          \<and> performSearch example_tables prev i True =
              Some (prev\<lparr>boltSize := bestSize st, boltCount := bestCount st,
                     useManualOverride := False, actualBCD := 0, actualOD := 0,
                     manualSeatingID := 0, manualSeatingOD := 0\<rparr>,
                    OptimizationCompleted True (bestSize st) (bestCount st)
                      (minRequiredLoad st) (margin_of r))"
proof -
  let ?opt = "optimizedTargetInputs i"
  let ?ci = "testInputs ?opt (boltSize ?opt) 24"
  obtain st where st: "search example_tables i True = Some st"
    using search_total [OF tables_ok_example] by blast
  have fam: "example_family ?ci" by (rule example_family_candidate [OF assms(1)])
  have calc: "calculateFullResults example_tables ?ci = Some (example_results ?ci)"
    by (rule example_calc [OF fam])
  have feas: "feasible (example_results ?ci)"
    by (rule example_24_feasible [OF fam]) (simp_all add: candidate_fields assms(2))
  have "boltSize ?opt \<in> set (sizesToSearch example_tables ?opt True)"
    by (simp add: sizesToSearch_def)
  moreover have "24 \<in> set counts" by (simp add: counts_def)
  ultimately have found: "found st"
    using search_finds [OF st _ _ calc feas] by blast
  from search_found_feasible [OF st found] obtain r where
    r: "calculateFullResults example_tables (testInputs ?opt (bestSize st) (bestCount st)) = Some r"
    by blast
  from performSearch_found [OF st found r, of prev] st found r show ?thesis by blast
qed

text \<open>
  The fixed-size search from the example input (contact width 12) succeeds, and its pair
  is feasible when re-evaluated.
\<close>

theorem C6_search_feasible_witness:
  "valid_tables example_tables
   \<and> (\<exists>prev' s c m fm.
        performSearch example_tables (example_inputs\<lparr>gasketSeatingWidth := 12\<rparr>)
          (example_inputs\<lparr>gasketSeatingWidth := 12\<rparr>) True
          = Some (prev', OptimizationCompleted True s c m fm)
        \<and> (\<exists>r. calculateFullResults example_tables
                   (example_inputs\<lparr>gasketSeatingWidth := 12, useManualOverride := False,
                      actualBCD := 0, actualOD := 0, manualSeatingID := 0, manualSeatingOD := 0,
                      boltSize := s, boltCount := c\<rparr>) = Some r
                 \<and> spacingOk r \<and> jge (margin_of r) (Fin 0)
                 \<and> jge (totalBoltLoadDesign r) (Fin (max (wm1 r) (wm2 r)))))"
proof -
  let ?i = "example_inputs\<lparr>gasketSeatingWidth := 12\<rparr>"
  have fam: "example_family ?i" by (simp add: example_family_def example_inputs_def)
  have t: "designTemp ?i = 100" by (simp add: example_inputs_def)
  from example_search_succeeds [OF fam t, of ?i] obtain st :: SearchState and r where
    p: "performSearch example_tables ?i ?i True =
              Some (?i\<lparr>boltSize := bestSize st, boltCount := bestCount st,
                     useManualOverride := False, actualBCD := 0, actualOD := 0,
                     manualSeatingID := 0, manualSeatingOD := 0\<rparr>,
                    OptimizationCompleted True (bestSize st) (bestCount st)
                      (minRequiredLoad st) (margin_of r))"
    by blast
  from C6_search_feasible [OF p] p valid_tables_example
  show ?thesis by blast
qed

subsection \<open>The example with other table factors\<close>

text \<open>
  On the tables \<open>example_tables_alt\<close> an input of the example family with all four manual
  factors set (3, 10000, 3, 10000) gives the same result as on the first tables, where
  these are the table's values; with the manual factors at zero the engine takes 2 and
  5000 from the table.
\<close>

lemma tables_ok_example_alt: "tables_ok example_tables_alt"
  by (simp add: tables_ok_def example_tables_alt_def example_tables_def)

lemma example_tables_alt_fields:
  "TEMA_BOLT_DATA example_tables_alt = TEMA_BOLT_DATA example_tables"
  "HYDRAULIC_TENSIONING_DATA example_tables_alt = HYDRAULIC_TENSIONING_DATA example_tables"
  "GASKET_RING_TABLE example_tables_alt = GASKET_RING_TABLE example_tables"
  "ASME_BOLT_MATERIALS example_tables_alt = ASME_BOLT_MATERIALS example_tables"
  "BOLT_TEMP_STEPS example_tables_alt = BOLT_TEMP_STEPS example_tables"
  "WHC_MAX_PITCH_TABLE example_tables_alt = WHC_MAX_PITCH_TABLE example_tables"
  by (simp_all add: example_tables_alt_def)

lemma results_from_alt:
  "results_from example_tables_alt ci irw orw bd gM gY pM pY mat
     = results_from example_tables ci irw orw bd gM gY pM pY mat"
  unfolding results_from_def example_tables_alt_fields by (rule refl)

lemma example_calc_alt:
  assumes "example_family ci"
    and "manualM ci = 3" and "manualY ci = 10000"
    and "manualPassM ci = 3" and "manualPassY ci = 10000"
  shows "calculateFullResults example_tables_alt ci = Some (example_results ci)"
proof -
  have rc: "lookup_ringConfig example_tables_alt ci
              = Some \<lparr>min_ring = 0, max_ring = 600, irMin = 5, orMin = 5\<rparr>"
    using assms(1)
    by (simp add: example_family_def lookup_ringConfig_def example_tables_alt_fields
        example_tables_def or_undef_def)
  have 1: "innerRingWidth_of example_tables_alt ci = Some 5"
    using assms(1) by (simp add: example_family_def innerRingWidth_of_def rc)
  have 2: "outerRingWidth_of example_tables_alt ci = Some 5"
    using assms(1) by (simp add: example_family_def outerRingWidth_of_def rc)
  have 3: "lookup_boltData example_tables_alt ci = Some example_bolt"
    using assms(1)
    by (simp add: example_family_def lookup_boltData_def example_tables_alt_fields
        example_tables_def example_bolt_def or_undef_def)
  have 4: "gasketM_of example_tables_alt ci = Some 3"
    using assms(2) by (simp add: gasketM_of_def)
  have 5: "gasketY_of example_tables_alt ci = Some 10000"
    using assms(3) by (simp add: gasketY_of_def)
  have 6: "passM_of example_tables_alt ci = Some 3"
    using assms(4) by (simp add: passM_of_def)
  have 7: "passY_of example_tables_alt ci = Some 10000"
    using assms(5) by (simp add: passY_of_def)
  have 8: "lookup_mat example_tables_alt ci = Some example_material"
    using assms(1)
    by (simp add: example_family_def lookup_mat_def example_tables_alt_fields example_tables_def
        example_material_def or_undef_def)
  show ?thesis
    unfolding example_results_def results_from_alt [symmetric]
    by (rule calculateFullResults_SomeI [OF 1 2 3 4 5 6 7 8])
qed

lemma table_factors_alt:
  assumes "calculateFullResults example_tables_alt ci = Some r"
    and "gasketType ci = ''Spiral wound''" and "passGasketType ci = ''Spiral wound''"
    and "manualM ci = 0" and "manualY ci = 0" and "manualPassM ci = 0" and "manualPassY ci = 0"
  shows "gasketM r = 2 \<and> gasketY r = 5000 \<and> passM r = 2 \<and> passY r = 5000"
proof -
  have gt: "lookup_gType example_tables_alt ci
              = Some \<lparr>id_gasket = ''Spiral wound'', m_gasket = 2, y_gasket = 5000\<rparr>"
    using assms(2) by (simp add: lookup_gType_def example_tables_alt_def or_undef_def)
  have pgt: "lookup_passGType example_tables_alt ci
              = Some \<lparr>id_gasket = ''Spiral wound'', m_gasket = 2, y_gasket = 5000\<rparr>"
    using assms(3) by (simp add: lookup_passGType_def example_tables_alt_def or_undef_def)
  from calculateFullResults_SomeD [OF assms(1)] obtain irw orw bd gM gY pM pY mat where
    l: "gasketM_of example_tables_alt ci = Some gM" "gasketY_of example_tables_alt ci = Some gY"
       "passM_of example_tables_alt ci = Some pM" "passY_of example_tables_alt ci = Some pY"
    and rr: "r = results_from example_tables_alt ci irw orw bd gM gY pM pY mat"
    by blast
  have "gM = 2" using l(1) assms(4) by (simp add: gasketM_of_def gt)
  moreover have "gY = 5000" using l(2) assms(5) by (simp add: gasketY_of_def gt)
  moreover have "pM = 2" using l(3) assms(6) by (simp add: passM_of_def pgt)
  moreover have "pY = 5000" using l(4) assms(7) by (simp add: passY_of_def pgt)
  ultimately show ?thesis by (simp add: rr rf_gasketM rf_gasketY rf_passM rf_passY)
qed

lemma example_search_alt_succeeds:
  assumes "example_family i" and "designTemp i = 100"
    and "manualM i = 3" and "manualY i = 10000"
    and "manualPassM i = 3" and "manualPassY i = 10000"
  shows "\<exists>st r. search example_tables_alt i True = Some st \<and> found st
          \<and> calculateFullResults example_tables_alt
               (testInputs (optimizedTargetInputs i) (bestSize st) (bestCount st)) = Some r
          \<and> performSearch example_tables_alt prev i True =
              Some (prev\<lparr>boltSize := bestSize st, boltCount := bestCount st,
                     useManualOverride := False, actualBCD := 0, actualOD := 0,
                     manualSeatingID := 0, manualSeatingOD := 0\<rparr>,
                    OptimizationCompleted True (bestSize st) (bestCount st)
                      (minRequiredLoad st) (margin_of r))"
proof -
  let ?opt = "optimizedTargetInputs i"
  let ?ci = "testInputs ?opt (boltSize ?opt) 24"
  obtain st where st: "search example_tables_alt i True = Some st"
    using search_total [OF tables_ok_example_alt] by blast
  have fam: "example_family ?ci" by (rule example_family_candidate [OF assms(1)])
  have calc: "calculateFullResults example_tables_alt ?ci = Some (example_results ?ci)"
    by (rule example_calc_alt [OF fam])
       (simp_all add: testInputs_def optimizedTargetInputs_def assms(3-6))
  have feas: "feasible (example_results ?ci)"
    by (rule example_24_feasible [OF fam]) (simp_all add: candidate_fields assms(2))
  have "boltSize ?opt \<in> set (sizesToSearch example_tables_alt ?opt True)"
    by (simp add: sizesToSearch_def)
  moreover have "24 \<in> set counts" by (simp add: counts_def)
  ultimately have found: "found st"
    using search_finds [OF st _ _ calc feas] by blast
  from search_found_feasible [OF st found] obtain r where
    r: "calculateFullResults example_tables_alt
          (testInputs ?opt (bestSize st) (bestCount st)) = Some r"
    by blast
  from performSearch_found [OF st found r, of prev] st found r show ?thesis by blast
qed

text \<open>
  The fixed-size search on the tables whose spiral-wound factors are 2 and 5000, from the
  example input (contact width 12) with all four manual factors set to 3 and 10000: the
  stored input keeps them; the reported pair was evaluated with them (with the factors at
  zero the same pair has the table's 2 and 5000); and the reported load is the required
  load of that evaluation and at most that of the feasible 24-bolt candidate.
\<close>

theorem C9_search_success_frame_witness:
  "\<exists>s c m fm r r0.
     performSearch example_tables_alt
       (example_inputs\<lparr>gasketSeatingWidth := 12, manualM := 3, manualY := 10000,
                        manualPassM := 3, manualPassY := 10000\<rparr>)
       (example_inputs\<lparr>gasketSeatingWidth := 12, manualM := 3, manualY := 10000,
                        manualPassM := 3, manualPassY := 10000\<rparr>) True
       = Some (example_inputs\<lparr>gasketSeatingWidth := 12, manualM := 3, manualY := 10000,
                 manualPassM := 3, manualPassY := 10000, boltSize := s,
                 boltCount := c, useManualOverride := False, actualBCD := 0, actualOD := 0,
                 manualSeatingID := 0, manualSeatingOD := 0\<rparr>,
               OptimizationCompleted True s c m fm)
     \<and> calculateFullResults example_tables_alt
          (testInputs
             (optimizedTargetInputs
                (example_inputs\<lparr>gasketSeatingWidth := 12, manualM := 3, manualY := 10000,
                                 manualPassM := 3, manualPassY := 10000\<rparr>))
             s c) = Some r
     \<and> gasketM r = 3 \<and> gasketY r = 10000 \<and> passM r = 3 \<and> passY r = 10000
     \<and> feasible r \<and> m = Fin (req_of r) \<and> fm = margin_of r
     \<and> feasible (example_results
          (testInputs
             (optimizedTargetInputs
                (example_inputs\<lparr>gasketSeatingWidth := 12, manualM := 3, manualY := 10000,
                                 manualPassM := 3, manualPassY := 10000\<rparr>))
             (boltSize example_inputs) 24))
     \<and> jle m (Fin (req_of (example_results
          (testInputs
             (optimizedTargetInputs
                (example_inputs\<lparr>gasketSeatingWidth := 12, manualM := 3, manualY := 10000,
                                 manualPassM := 3, manualPassY := 10000\<rparr>))
             (boltSize example_inputs) 24))))
     \<and> calculateFullResults example_tables_alt
          (testInputs (optimizedTargetInputs (example_inputs\<lparr>gasketSeatingWidth := 12\<rparr>)) s c)
         = Some r0
     \<and> gasketM r0 = 2 \<and> gasketY r0 = 5000 \<and> passM r0 = 2 \<and> passY r0 = 5000"
proof -
  let ?i = "example_inputs\<lparr>gasketSeatingWidth := 12, manualM := 3, manualY := 10000,
                            manualPassM := 3, manualPassY := 10000\<rparr>"
  let ?j = "example_inputs\<lparr>gasketSeatingWidth := 12\<rparr>"
  let ?opt = "optimizedTargetInputs ?i"
  let ?c24 = "testInputs ?opt (boltSize example_inputs) 24"
  have fam: "example_family ?i" by (simp add: example_family_def example_inputs_def)
  have t: "designTemp ?i = 100" by (simp add: example_inputs_def)
  have bs: "boltSize example_inputs = boltSize ?opt"
    by (simp add: optimizedTargetInputs_def)
  have mf: "manualM ?i = 3" "manualY ?i = 10000" "manualPassM ?i = 3" "manualPassY ?i = 10000"
    by simp_all
  from example_search_alt_succeeds [OF fam t mf, of ?i] obtain st :: SearchState and r1 where
    p: "performSearch example_tables_alt ?i ?i True =
              Some (?i\<lparr>boltSize := bestSize st, boltCount := bestCount st,
                     useManualOverride := False, actualBCD := 0, actualOD := 0,
                     manualSeatingID := 0, manualSeatingOD := 0\<rparr>,
                    OptimizationCompleted True (bestSize st) (bestCount st)
                      (minRequiredLoad st) (margin_of r1))"
    by blast
  note th = C9_search_success_frame [OF p]
  from th obtain r where
    r: "calculateFullResults example_tables_alt (testInputs ?opt (bestSize st) (bestCount st))
          = Some r"
    and fe: "factors_in_effect ?i r"
    and best: "feasible r" "minRequiredLoad st = Fin (req_of r)" "margin_of r1 = margin_of r"
    by blast
  have fac: "gasketM r = 3 \<and> gasketY r = 10000 \<and> passM r = 3 \<and> passY r = 10000"
    using fe by (simp add: factors_in_effect_def)
  have fam24: "example_family ?c24"
    unfolding bs by (rule example_family_candidate [OF fam])
  have calc24: "calculateFullResults example_tables_alt ?c24 = Some (example_results ?c24)"
    by (rule example_calc_alt [OF fam24]) (simp_all add: testInputs_def optimizedTargetInputs_def)
  have feas24: "feasible (example_results ?c24)"
    by (rule example_24_feasible [OF fam24]) (simp_all add: candidate_fields t)
  have in_grid: "boltSize example_inputs \<in> set (sizesToSearch example_tables_alt ?opt True)"
    "24 \<in> set counts"
    by (simp_all add: sizesToSearch_def bs counts_def)
  from th in_grid obtain r24 where
    "calculateFullResults example_tables_alt ?c24 = Some r24"
    "feasible r24 \<longrightarrow> jle (minRequiredLoad st) (Fin (req_of r24))"
    by blast
  with calc24 feas24 have le: "jle (minRequiredLoad st) (Fin (req_of (example_results ?c24)))"
    by simp
  obtain r0 where
    r0: "calculateFullResults example_tables_alt
           (testInputs (optimizedTargetInputs ?j) (bestSize st) (bestCount st)) = Some r0"
    using calculateFullResults_total [OF tables_ok_example_alt] by blast
  have tab: "gasketM r0 = 2 \<and> gasketY r0 = 5000 \<and> passM r0 = 2 \<and> passY r0 = 5000"
    by (rule table_factors_alt [OF r0])
       (simp_all add: testInputs_def optimizedTargetInputs_def example_inputs_def)
  from p r fac best feas24 le r0 tab show ?thesis by blast
qed

text \<open>
  At a design temperature of 450 degrees the example material has no allowable stress
  left, no pair is feasible, and the search leaves the stored input as it is.
\<close>

theorem C7_search_failure_unchanged_witness:
  "tables_ok example_tables
   \<and> performSearch example_tables (example_inputs\<lparr>gasketSeatingWidth := 12, designTemp := 450\<rparr>)
        (example_inputs\<lparr>gasketSeatingWidth := 12, designTemp := 450\<rparr>) True
       = Some (example_inputs\<lparr>gasketSeatingWidth := 12, designTemp := 450\<rparr>,
               NoValidConfiguration True
                 (boltSize (example_inputs\<lparr>gasketSeatingWidth := 12, designTemp := 450\<rparr>)))"
proof -
  let ?i = "example_inputs\<lparr>gasketSeatingWidth := 12, designTemp := 450\<rparr>"
  let ?opt = "optimizedTargetInputs ?i"
  have fam: "example_family ?i" by (simp add: example_family_def example_inputs_def)
  have sizes: "sizesToSearch example_tables ?opt True = [boltSize ?opt]"
    by (simp add: sizesToSearch_def)
  have h: "\<forall>s \<in> set (sizesToSearch example_tables ?opt True).
         \<forall>c \<in> set counts. \<forall>r.
           calculateFullResults example_tables
             (?i\<lparr>useManualOverride := False, actualBCD := 0, actualOD := 0,
                manualSeatingID := 0, manualSeatingOD := 0, boltSize := s, boltCount := c\<rparr>)
             = Some r
           \<longrightarrow> \<not> feasible r"
    unfolding testInputs_optimized [symmetric] sizes
  proof (intro ballI allI impI)
    fix s c r
    assume s: "s \<in> set [boltSize ?opt]"
      and r: "calculateFullResults example_tables (testInputs ?opt s c) = Some r"
    let ?ci = "testInputs ?opt (boltSize ?opt) c"
    have f: "example_family ?ci" by (rule example_family_candidate [OF fam])
    have t: "designTemp ?ci = 450" by (simp add: candidate_fields)
    from s r example_calc [OF f] have "r = example_results ?ci" by simp
    with example_450_not_feasible [OF f t] show "\<not> feasible r"
      by simp
  qed
  from C7_search_failure_unchanged [OF tables_ok_example h, of ?i] tables_ok_example
  show ?thesis by blast
qed

text \<open>
  The example input (contact width 12): Method 2 gives 368, the gasket derived from it
  gives Method 3 = 381, which governs.
\<close>

theorem C5_two_pass_bcd_witness:
  "calculateFullResults example_tables (example_inputs\<lparr>gasketSeatingWidth := 12\<rparr>)
     = Some (example_results (example_inputs\<lparr>gasketSeatingWidth := 12\<rparr>))
   \<and> seatingOD (example_results (example_inputs\<lparr>gasketSeatingWidth := 12\<rparr>)) = 340
   \<and> bcdMethod2 (example_results (example_inputs\<lparr>gasketSeatingWidth := 12\<rparr>)) = 368
   \<and> bcdMethod3 (example_results (example_inputs\<lparr>gasketSeatingWidth := 12\<rparr>)) = 381
   \<and> bcdTema (example_results (example_inputs\<lparr>gasketSeatingWidth := 12\<rparr>)) = 381
   \<and> selectedBcdSource (example_results (example_inputs\<lparr>gasketSeatingWidth := 12\<rparr>)) = 3
   \<and> bcd_candidate (example_results (example_inputs\<lparr>gasketSeatingWidth := 12\<rparr>)) 3 = 381
   \<and> bcd_candidate (example_results (example_inputs\<lparr>gasketSeatingWidth := 12\<rparr>)) 1 \<noteq> 381
   \<and> bcd_candidate (example_results (example_inputs\<lparr>gasketSeatingWidth := 12\<rparr>)) 2 \<noteq> 381
   \<and> finalBCD (example_results (example_inputs\<lparr>gasketSeatingWidth := 12\<rparr>)) = 381"
proof -
  let ?i = "example_inputs\<lparr>gasketSeatingWidth := 12\<rparr>"
  have fam: "example_family ?i" by (simp add: example_family_def example_inputs_def)
  have c: "0 \<le> boltCount ?i" "boltCount ?i \<le> 24" by (simp_all add: example_inputs_def)
  have calc: "calculateFullResults example_tables ?i = Some (example_results ?i)"
    by (rule example_calc [OF fam])
  note th = C5_two_pass_bcd [OF calc]
  note e = example_24 [OF fam c]
  from th have cand: "bcd_candidate (example_results ?i) (selectedBcdSource (example_results ?i))
                  = bcdTema (example_results ?i)"
    by blast
  from th have fin: "finalBCD (example_results ?i)
                  = (if actualBCD ?i \<noteq> 0 then actualBCD ?i else bcdTema (example_results ?i))"
    by blast
  from th have "\<forall>k \<in> {1 ..< selectedBcdSource (example_results ?i)}.
                  bcd_candidate (example_results ?i) k \<noteq> bcdTema (example_results ?i)"
    by blast
  then have others: "bcd_candidate (example_results ?i) 1 \<noteq> 381"
    "bcd_candidate (example_results ?i) 2 \<noteq> 381"
    by (simp_all add: e(6) e(4))
  have "bcd_candidate (example_results ?i) 3 = 381"
    using cand by (simp add: e(6) e(4))
  moreover have "finalBCD (example_results ?i) = 381"
  proof -
    have "actualBCD ?i = 0" by (simp add: example_inputs_def)
    with fin show ?thesis by (simp add: e(4))
  qed
  ultimately show ?thesis
    using calc e(2,3,4,6) example_bcdMethod2 [OF fam] others by simp
qed

section \<open>Division by a zero allowable stress\<close>

lemma jmax_PInf_Fin: "jmax PInf (Fin x) = PInf"
  by (simp add: jmax_def)

text \<open>
  Claim C2 says that a required-area ratio with a zero denominator is zero.  The engine
  is total on tables that have rows (lemma \<open>calculateFullResults_total\<close>), but it
  divides without a guard: for the example input at a design temperature of 450 degrees,
  where the material curve ends in a null entry, the design allowable stress is 0, the
  operating load is positive, and the required bolt area is \<open>Infinity\<close>.
\<close>

theorem C2_zero_stress_division:
  "calculateFullResults example_tables (example_inputs\<lparr>gasketSeatingWidth := 12, designTemp := 450\<rparr>)
     = Some (example_results (example_inputs\<lparr>gasketSeatingWidth := 12, designTemp := 450\<rparr>))
   \<and> designAllowableStress
        (example_results (example_inputs\<lparr>gasketSeatingWidth := 12, designTemp := 450\<rparr>)) = Fin 0
   \<and> 0 < wm1 (example_results (example_inputs\<lparr>gasketSeatingWidth := 12, designTemp := 450\<rparr>))
   \<and> requiredBoltArea
        (example_results (example_inputs\<lparr>gasketSeatingWidth := 12, designTemp := 450\<rparr>)) = PInf"
proof -
  let ?i = "example_inputs\<lparr>gasketSeatingWidth := 12, designTemp := 450\<rparr>"
  have fam: "example_family ?i" by (simp add: example_family_def example_inputs_def)
  have t: "designTemp ?i = 450" by simp
  have calc: "calculateFullResults example_tables ?i = Some (example_results ?i)"
    by (rule example_calc [OF fam])
  have d: "designAllowableStress (example_results ?i) = Fin 0"
    by (rule example_design_stress(2) [OF fam t])
  have od: "0 < seatingOD (example_results ?i) - 12"
    using example_seatingOD_ge [OF fam] by simp
  note l = example_loads [OF fam]
  have "0 < hForce (example_results ?i)"
    using od by (simp add: l(1))
  moreover have "0 < hpForce (example_results ?i)"
    using od by (simp add: l(2))
  ultimately have w: "0 < wm1 (example_results ?i)"
    by (simp add: ex_wm1)
  have a: "ambientAllowableStress (example_results ?i) = 172"
    by (simp add: ex_ambientAllowableStress example_material_def ambient_entry_def or_else_def)
  have "requiredBoltArea (example_results ?i) = PInf"
    using w by (simp add: ex_requiredBoltArea d a signed_inf_def jmax_PInf_Fin)
  with calc d w show ?thesis by simp
qed

section \<open>The PCC-1 status of the final report\<close>

text \<open>
  Claim C3 says that the overall PCC-1 status is the conjunction of the four checks and
  of \<open>sbMax \<ge> Sb_sel \<ge> sbMin\<close>.  The status of the final report is the conjunction of
  the four checks only: for the example input with \<open>sgT = 30\<close>, \<open>sgMinS = 10\<close>,
  \<open>sbMin = 100\<close>, \<open>sbMax = 200\<close> and \<open>sfMax = 90\<close> the selected stress is 90, below
  \<open>sbMin\<close>, all four checks pass and the report says safe, while the PCC-1 tab, which
  does include the bound condition, does not show the stress as within its limits.
\<close>

theorem C3_status_ignores_bounds:
  "calculateFullResults example_tables
     (example_inputs\<lparr>gasketSeatingWidth := 12, usePcc1Check := True, sgT := 30, sgMinS := 10,
                      sbMin := 100, sbMax := 200, sfMax := 90\<rparr>)
     = Some (example_results
        (example_inputs\<lparr>gasketSeatingWidth := 12, usePcc1Check := True, sgT := 30, sgMinS := 10,
                      sbMin := 100, sbMax := 200, sfMax := 90\<rparr>))
   \<and> pccStatusInfo
        (example_inputs\<lparr>gasketSeatingWidth := 12, usePcc1Check := True, sgT := 30, sgMinS := 10,
                      sbMin := 100, sbMax := 200, sfMax := 90\<rparr>)
        (example_results
          (example_inputs\<lparr>gasketSeatingWidth := 12, usePcc1Check := True, sgT := 30, sgMinS := 10,
                      sbMin := 100, sbMax := 200, sfMax := 90\<rparr>))
       = \<lparr>active = True, safe = True\<rparr>
   \<and> \<not> jge (sbSelFinal
               (sbSelCalc
                  (example_inputs\<lparr>gasketSeatingWidth := 12, usePcc1Check := True, sgT := 30,
                      sgMinS := 10, sbMin := 100, sbMax := 200, sfMax := 90\<rparr>)
                  (example_results
                    (example_inputs\<lparr>gasketSeatingWidth := 12, usePcc1Check := True, sgT := 30,
                      sgMinS := 10, sbMin := 100, sbMax := 200, sfMax := 90\<rparr>)))
               (example_inputs\<lparr>gasketSeatingWidth := 12, usePcc1Check := True, sgT := 30,
                      sgMinS := 10, sbMin := 100, sbMax := 200, sfMax := 90\<rparr>))
            (Fin (sbMin
               (example_inputs\<lparr>gasketSeatingWidth := 12, usePcc1Check := True, sgT := 30,
                      sgMinS := 10, sbMin := 100, sbMax := 200, sfMax := 90\<rparr>)))
   \<and> \<not> stressWithinLimit
          (example_inputs\<lparr>gasketSeatingWidth := 12, usePcc1Check := True, sgT := 30, sgMinS := 10,
                      sbMin := 100, sbMax := 200, sfMax := 90\<rparr>)
          (example_results
            (example_inputs\<lparr>gasketSeatingWidth := 12, usePcc1Check := True, sgT := 30,
                      sgMinS := 10, sbMin := 100, sbMax := 200, sfMax := 90\<rparr>))"
proof -
  let ?i = "example_inputs\<lparr>gasketSeatingWidth := 12, usePcc1Check := True, sgT := 30, sgMinS := 10,
                      sbMin := 100, sbMax := 200, sfMax := 90\<rparr>"
  let ?R = "example_results ?i"
  have fam: "example_family ?i" by (simp add: example_family_def example_inputs_def)
  have c: "boltCount ?i = 12" by (simp add: example_inputs_def)
  then have c': "0 \<le> boltCount ?i" "boltCount ?i \<le> 24" by simp_all
  have calc: "calculateFullResults example_tables ?i = Some ?R"
    by (rule example_calc [OF fam])
  note e = example_24 [OF fam c']
  have fld: "sgT ?i = 30" "sgMinS ?i = 10" "sgMinO ?i = 0" "sgMax ?i = 0" "sbMin ?i = 100"
    "sbMax ?i = 200" "sfMax ?i = 90" "usePcc1Check ?i"
    "passPartitionWidth ?i = 0" "designPressure ?i = 1" "pressureUnit ?i = ''MPa''"
    by (simp_all add: example_inputs_def)
  have fld2: "phiFMax ?i = 0.32" "g_frac ?i = 0.7"
    by (simp_all add: example_inputs_def)
  have area: "totalBoltRootArea ?i ?R = 2337.6"
    by (simp add: totalBoltRootArea_def ex_singleBoltArea example_bolt_def c)
  have ag: "totalAg ?i ?R = 3936 * pi"
    by (simp add: totalAg_def ringArea_def reducedPassArea_def e(2) e(7) fld)
  have calc_val: "sbSelCalc ?i ?R = 118080 * pi / 2337.6"
    by (simp add: sbSelCalc_def area ag fld)
  have lo: "90 \<le> 118080 * pi / 2337.6" using pi_ge_3 by simp
  have hi: "118080 * pi / 2337.6 \<le> 200" using pi_le_32 by simp
  have sel: "sbSelFinal (sbSelCalc ?i ?R) ?i = Fin 90"
    using lo hi unfolding calc_val sbSelFinal_eq
    by (simp add: or_Infinity_def fld min_def)
  have t5: "step5Threshold ?i ?R - 0.001 \<le> 90"
    using pi_le_32 by (simp add: step5Threshold_def area ag fld)
  have t6: "step6Threshold ?i ?R - 0.001 \<le> 90"
    using pi_le_32
    by (simp add: step6Threshold_def step6Numerator_def step6Denominator_def area ag fld fld2
        e(7) toMpa_def or_else_def)
  have s5: "isStep5Ok ?i ?R" using t5 by (simp add: isStep5Ok_def sel jge_def)
  have s6: "isStep6Ok ?i ?R" using t6 by (simp add: isStep6Ok_def sel jge_def)
  have s7: "isStep7Ok ?i ?R" by (simp add: isStep7Ok_def fld)
  have s8: "isStep8Ok ?i ?R"
    by (simp add: isStep8Ok_def step8Threshold_def sel fld fld2 or_else_def)
  have st: "pccStatusInfo ?i ?R = \<lparr>active = True, safe = True\<rparr>"
    using s5 s6 s7 s8 by (simp add: pccStatusInfo_def fld)
  have nb: "\<not> jge (sbSelFinal (sbSelCalc ?i ?R) ?i) (Fin (sbMin ?i))"
    by (simp add: sel fld jge_def)
  then have "\<not> stressWithinLimit ?i ?R"
    by (simp add: stressWithinLimit_def)
  with calc st nb show ?thesis by blast
qed

end
